theory Spec2Isabelle
  imports Complex_Main "HOL-Library.Word"
begin

unbundle bit_operations_syntax

section \<open>Scalars, vectors and transforms\<close>

text \<open>
  A C \<open>float\<close> in memory that is compared byte by byte, which is a component of a
  \<open>float4\<close> and so of a \<open>Transform\<close>, is its IEEE 754 single-precision bit pattern:
  \<open>memcmp\<close> over such floats is equality, \<open>+0.0f\<close> and \<open>-0.0f\<close> are two floats, and a NaN
  is a float like any other. The constants that the code writes into a \<open>float4\<close> are given
  by their patterns, and the conversion of an integer by what it does on patterns. A
  \<open>float\<close> that the code uses as a number only (the motion time of a pass and the time
  offsets of motion samples, which it tests against zero, compares with \<open>==\<close> and keeps in
  a set ordered by \<open><\<close>; the extrusion and the bevel depth of a curve, which it tests
  against zero; a color, a texture coordinate, the shadow terminator offset, which it
  halves, subtracts and hands on) is the rational number it denotes. A C \<open>uint\<close> is a
  32-bit word.
\<close>

datatype float = float_of_bits (float_bits: "32 word")
type_synonym float_number = rat
type_synonym uint = "32 word"

datatype float2 = make_float2 float_number float_number
datatype float3 = make_float3 float_number float_number float_number
datatype float4 = make_float4 float float float float
datatype Transform = make_transform float4 float4 float4

text \<open>\<open>0.0f\<close> and \<open>1.0f\<close> in a \<open>float4\<close>.\<close>

definition float_0 :: float where
  "float_0 = float_of_bits 0x00000000"

definition float_1 :: float where
  "float_1 = float_of_bits 0x3F800000"

text \<open>
  The conversion of a C \<open>int\<close> to a float (\<open>float value = i\<close>), which rounds to the
  nearest float, to the one with an even significand on a tie: the integer's magnitude of
  \<open>n\<close> bits is brought to a significand of 24 bits, and the pattern is the sign, the
  exponent \<open>n - 1\<close> with its bias of 127 and the significand without its leading bit; a
  significand that the rounding carries to 25 bits passes the carry on to the exponent.
\<close>

function bit_length :: "int \<Rightarrow> nat" where
  "bit_length a = (if a \<le> 0 then 0 else Suc (bit_length (a div 2)))"
  by auto

termination
  by (relation "measure nat") auto

definition round_shift :: "int \<Rightarrow> nat \<Rightarrow> int" where
  "round_shift a k =
     (if k = 0 then a
      else (let q = a div 2 ^ k; r = a mod 2 ^ k; half = 2 ^ (k - 1)
            in if r > half \<or> (r = half \<and> odd q) then q + 1 else q))"

definition float_of_int :: "int \<Rightarrow> float" where
  "float_of_int i =
     (if i = 0 then float_0
      else (let a = \<bar>i\<bar>;
                n = bit_length a;
                significand = (if n \<le> 24 then a * 2 ^ (24 - n) else round_shift a (n - 24))
            in float_of_bits
                 ((if i < 0 then 0x80000000 else 0) +
                  of_int ((int n + 125) * 2 ^ 23 + significand))))"

section \<open>The host scene, as the RNA accessors present it\<close>

datatype object_type =
    type_MESH | type_CURVE | type_SURFACE | type_META | type_FONT | type_HAIR
  | type_POINTCLOUD | type_VOLUME | type_GPENCIL | type_ARMATURE | type_LATTICE
  | type_EMPTY | type_LIGHT | type_LIGHT_PROBE | type_CAMERA | type_SPEAKER

datatype rna_struct = RNA_Mesh | RNA_Curve | RNA_MetaBall | RNA_Light

datatype curve_dimensions = dimensions_2D | dimensions_3D

datatype modifier_type = type_MESH_SEQUENCE_CACHE | type_OTHER_MODIFIER

datatype PropertyType =
    PROP_BOOLEAN | PROP_INT | PROP_FLOAT | PROP_STRING | PROP_ENUM | PROP_POINTER
  | PROP_COLLECTION

text \<open>
  A resolved property: what \<open>RNA_property_type\<close>, \<open>RNA_property_array_length\<close>,
  \<open>RNA_property_float_get\<close>, \<open>RNA_property_int_get\<close> and
  \<open>RNA_property_float_get_array\<close> return for it.
\<close>

record PropertyRNA =
  RNA_property_type :: PropertyType
  RNA_property_array_length :: nat
  RNA_property_float_get :: float
  RNA_property_int_get :: int
  RNA_property_float_get_array :: "float list"

text \<open>
  The pointer of an ID block (\<open>b_id.ptr\<close>): absent for a null block, otherwise the
  resolver of property paths below that block.
\<close>

type_synonym PointerRNA = "(string \<Rightarrow> PropertyRNA option) option"

text \<open>
  Modelled from the spec: \<open>RNA_path_resolve\<close> (the host's named-property lookup by
  path, which makesrna provides). It yields the property a path names
  below a block, and fails on a null block.
\<close>

definition RNA_path_resolve :: "PointerRNA \<Rightarrow> string \<Rightarrow> PropertyRNA option" where
  "RNA_path_resolve b_ptr path =
     (case b_ptr of None \<Rightarrow> None | Some resolve \<Rightarrow> resolve path)"

text \<open>
  A data block (\<open>BL::ID\<close>), with the properties a \<open>BL::Curve\<close> view of it reads.
\<close>

record BL_ID =
  id_ptr :: "string \<Rightarrow> PropertyRNA option"
  is_a :: "rna_struct \<Rightarrow> bool"
  bevel_object :: bool
  extrude :: float_number
  bevel_depth :: float_number
  dimensions :: curve_dimensions

text \<open>The \<open>cycles\<close> settings of an object, read by \<open>get_boolean\<close> and \<open>get_float\<close>.\<close>

record cycles_settings =
  get_boolean :: "string \<Rightarrow> bool"
  get_float :: "string \<Rightarrow> float_number"

text \<open>
  The properties of a \<open>BL::Object\<close>. \<open>ptr_data\<close> is the address \<open>ptr.data\<close>, by which
  objects are compared; \<open>holdout_get\<close> and \<open>indirect_only_get\<close> are the answers for the
  view layer being synchronised, \<open>visible_in_viewport_get\<close> the one for the viewport.
\<close>

record BL_Object_rna =
  ptr_data :: nat
  ob_ptr :: "string \<Rightarrow> PropertyRNA option"
  ob_type :: object_type
  data :: "BL_ID option"
  modifiers :: "modifier_type list"
  matrix_world :: "float list"
  ob_name :: string
  pass_index :: int
  ob_color :: "float_number list"
  cycles :: cycles_settings
  holdout_get :: bool
  indirect_only_get :: bool
  visible_in_viewport_get :: bool

text \<open>An object with its chain of parents (\<open>b_ob.parent()\<close>), which ends at a root.\<close>

datatype BL_Object = BL_Object (rna: BL_Object_rna) (parent: "BL_Object option")

record BL_ParticleSystem =
  settings :: "string \<Rightarrow> PropertyRNA option"

record BL_DepsgraphObjectInstance =
  is_instance :: bool
  object :: BL_Object
  instance_parent :: BL_Object
  instance_object :: BL_Object
  persistent_id :: "int list"
  instance_random_id :: uint
  orco :: "float_number list"
  uv :: "float_number list"
  particle_system :: "BL_ParticleSystem option"
  show_self :: bool
  show_particles :: bool

section \<open>Utilities\<close>

definition object_is_geometry :: "BL_Object \<Rightarrow> bool" where
  "object_is_geometry b_ob =
     (case data (rna b_ob) of
        None \<Rightarrow> False
      | Some b_ob_data \<Rightarrow>
          if ob_type (rna b_ob) = type_VOLUME \<or> ob_type (rna b_ob) = type_HAIR then True
          else if ob_type (rna b_ob) = type_CURVE then
            (bevel_object b_ob_data \<or> extrude b_ob_data \<noteq> 0 \<or> bevel_depth b_ob_data \<noteq> 0 \<or>
             dimensions b_ob_data = dimensions_2D \<or> length (modifiers (rna b_ob)) \<noteq> 0)
          else
            (is_a b_ob_data RNA_Mesh \<or> is_a b_ob_data RNA_Curve \<or> is_a b_ob_data RNA_MetaBall))"

definition object_is_light :: "BL_Object \<Rightarrow> bool" where
  "object_is_light b_ob =
     (case data (rna b_ob) of None \<Rightarrow> False | Some b_ob_data \<Rightarrow> is_a b_ob_data RNA_Light)"

section \<open>Attribute lookup\<close>

text \<open>
  \<open>RNA_property_float_get_array\<close> into \<open>&r_value->x\<close>: the array's floats overwrite
  the leading components, the others keep what they held.
\<close>

fun float_get_array_into :: "float list \<Rightarrow> float4 \<Rightarrow> float4" where
  "float_get_array_into [] v = v"
| "float_get_array_into [a] (make_float4 x y z w) = make_float4 a y z w"
| "float_get_array_into [a, b] (make_float4 x y z w) = make_float4 a b z w"
| "float_get_array_into [a, b, c] (make_float4 x y z w) = make_float4 a b c w"
| "float_get_array_into (a # b # c # d # rest) (make_float4 x y z w) = make_float4 a b c d"

text \<open>
  \<open>lookup_property\<close>: \<open>None\<close> is the return of false (\<open>r_value\<close> untouched), \<open>Some v\<close>
  the return of true with \<open>v\<close> written to \<open>r_value\<close>.
\<close>

definition lookup_property :: "PointerRNA \<Rightarrow> string \<Rightarrow> float4 option" where
  "lookup_property b_id_ptr path =
     (case RNA_path_resolve b_id_ptr path of
        None \<Rightarrow> None
      | Some prop \<Rightarrow>
          (let ty = RNA_property_type prop;
               arraylen = RNA_property_array_length prop
           in if arraylen = 0 then
                (if ty = PROP_FLOAT then
                   (let v = RNA_property_float_get prop in Some (make_float4 v v v float_1))
                 else if ty = PROP_INT then
                   (let v = float_of_int (RNA_property_int_get prop)
                    in Some (make_float4 v v v float_1))
                 else None)
              else if ty = PROP_FLOAT \<and> arraylen \<le> 4 then
                Some (float_get_array_into
                        (take arraylen (RNA_property_float_get_array prop))
                        (make_float4 float_0 float_0 float_0 float_1))
              else None))"

text \<open>\<open>a || b\<close> over two lookups that write the same \<open>value\<close>: the first success.\<close>

definition or_else :: "'a option \<Rightarrow> 'a option \<Rightarrow> 'a option" where
  "or_else a b = (case a of Some v \<Rightarrow> Some v | None \<Rightarrow> b)"

text \<open>\<open>string_printf("[\"%s\"]", name)\<close>.\<close>

definition idprop_name :: "string \<Rightarrow> string" where
  "idprop_name nm = [CHR ''['', CHR 0x22] @ nm @ [CHR 0x22, CHR '']'']"

definition lookup_instance_property ::
  "BL_DepsgraphObjectInstance \<Rightarrow> string \<Rightarrow> bool \<Rightarrow> float4" where
  "lookup_instance_property b_instance nm use_instancer =
     (case (if use_instancer \<and> is_instance b_instance then
              or_else
                (case particle_system b_instance of
                   None \<Rightarrow> None
                 | Some b_psys \<Rightarrow>
                     or_else (lookup_property (Some (settings b_psys)) (idprop_name nm))
                             (lookup_property (Some (settings b_psys)) nm))
                (or_else
                   (lookup_property (Some (ob_ptr (rna (instance_parent b_instance))))
                      (idprop_name nm))
                   (lookup_property (Some (ob_ptr (rna (instance_parent b_instance)))) nm))
            else None) of
        Some v \<Rightarrow> v
      | None \<Rightarrow>
          (let b_ob = object b_instance;
               b_data = map_option id_ptr (data (rna b_ob))
           in case or_else (lookup_property (Some (ob_ptr (rna b_ob))) (idprop_name nm))
                   (or_else (lookup_property (Some (ob_ptr (rna b_ob))) nm)
                   (or_else (lookup_property b_data (idprop_name nm))
                            (lookup_property b_data nm))) of
                Some v \<Rightarrow> v
              | None \<Rightarrow> make_float4 float_0 float_0 float_0 float_0))"

section \<open>The render scene\<close>

datatype MotionType = MOTION_NONE | MOTION_PASS | MOTION_BLUR

datatype BlenderAttributeType =
  attribute_type_GEOMETRY | attribute_type_OBJECT | attribute_type_INSTANCER

text \<open>
  A stored attribute. Every one this code stores is built as
  \<open>ParamValue(name, TypeDesc::TypeFloat4, 1, &value)\<close>: a name and sixteen bytes.
\<close>

datatype ParamValue = ParamValue (pv_name: string) (pv_data: float4)

text \<open>A \<open>Geometry *\<close>; the geometry nodes of the scene are held in a store by address.\<close>

type_synonym geom_id = nat

text \<open>
  A geometry node, as far as object synchronisation reads and writes it:
  \<open>needed_attributes()\<close> (the names of the \<open>AttributeRequestSet\<close>, in order), the two
  motion sockets, and \<open>is_modified()\<close>.
\<close>

record Geometry =
  needed_attributes :: "string list"
  get_use_motion_blur :: bool
  get_motion_steps :: nat
  geometry_is_modified :: bool

datatype socket =
    SOCKET_geometry | SOCKET_use_holdout | SOCKET_visibility | SOCKET_is_shadow_catcher
  | SOCKET_shadow_terminator_offset | SOCKET_asset_name | SOCKET_pass_id | SOCKET_color
  | SOCKET_tfm | SOCKET_motion | SOCKET_dupli_generated | SOCKET_dupli_uv
  | SOCKET_random_id | SOCKET_particle

text \<open>
  The sockets that \<open>sync_dupli_particle\<close> writes: \<open>hide_on_missing_motion\<close>,
  \<open>particle_system\<close> (an address) and \<open>particle_index\<close>.
\<close>

type_synonym particle_sockets = "bool \<times> nat option \<times> int"

text \<open>
  The render entity. \<open>name\<close> and \<open>attributes\<close> are plain members; every \<open>get_x\<close> is
  the socket that \<open>set_x\<close> writes; \<open>socket_modified\<close> holds the sockets flagged as
  modified.
\<close>

record Object =
  name :: string
  attributes :: "ParamValue list"
  get_geometry :: "geom_id option"
  get_use_holdout :: bool
  get_visibility :: uint
  get_is_shadow_catcher :: bool
  get_shadow_terminator_offset :: float_number
  get_asset_name :: string
  get_pass_id :: int
  get_color :: float3
  get_tfm :: Transform
  get_motion :: "Transform list"
  get_dupli_generated :: float3
  get_dupli_uv :: float2
  get_random_id :: uint
  get_particle :: particle_sockets
  socket_modified :: "socket set"

subsection \<open>Node sockets\<close>

text \<open>
  Modelled from the spec: the socket setters and modified flags of a render node
  (\<open>Node::set\<close>, \<open>is_modified\<close>, \<open>x_is_modified\<close>; of graph/node.h). A setter stores the new content and flags the socket when the content
  differs from the stored one; a flag, once set, stays set until the scene update clears
  it, which no function here does (the flags are monotone within a pass).
\<close>

definition node_set ::
  "socket \<Rightarrow> (Object \<Rightarrow> 'a) \<Rightarrow> (('a \<Rightarrow> 'a) \<Rightarrow> Object \<Rightarrow> Object) \<Rightarrow> 'a \<Rightarrow> Object \<Rightarrow> Object" where
  "node_set s getter updater v ob =
     (if getter ob = v then ob
      else (updater (\<lambda>_. v) ob)\<lparr>socket_modified := insert s (socket_modified ob)\<rparr>)"

definition set_geometry :: "geom_id option \<Rightarrow> Object \<Rightarrow> Object" where
  "set_geometry = node_set SOCKET_geometry get_geometry get_geometry_update"

definition set_use_holdout :: "bool \<Rightarrow> Object \<Rightarrow> Object" where
  "set_use_holdout = node_set SOCKET_use_holdout get_use_holdout get_use_holdout_update"

definition set_visibility :: "uint \<Rightarrow> Object \<Rightarrow> Object" where
  "set_visibility = node_set SOCKET_visibility get_visibility get_visibility_update"

definition set_is_shadow_catcher :: "bool \<Rightarrow> Object \<Rightarrow> Object" where
  "set_is_shadow_catcher =
     node_set SOCKET_is_shadow_catcher get_is_shadow_catcher get_is_shadow_catcher_update"

definition set_shadow_terminator_offset :: "float_number \<Rightarrow> Object \<Rightarrow> Object" where
  "set_shadow_terminator_offset =
     node_set SOCKET_shadow_terminator_offset get_shadow_terminator_offset
       get_shadow_terminator_offset_update"

definition set_asset_name :: "string \<Rightarrow> Object \<Rightarrow> Object" where
  "set_asset_name = node_set SOCKET_asset_name get_asset_name get_asset_name_update"

definition set_pass_id :: "int \<Rightarrow> Object \<Rightarrow> Object" where
  "set_pass_id = node_set SOCKET_pass_id get_pass_id get_pass_id_update"

definition set_color :: "float3 \<Rightarrow> Object \<Rightarrow> Object" where
  "set_color = node_set SOCKET_color get_color get_color_update"

definition set_tfm :: "Transform \<Rightarrow> Object \<Rightarrow> Object" where
  "set_tfm = node_set SOCKET_tfm get_tfm get_tfm_update"

definition set_motion :: "Transform list \<Rightarrow> Object \<Rightarrow> Object" where
  "set_motion = node_set SOCKET_motion get_motion get_motion_update"

definition set_dupli_generated :: "float3 \<Rightarrow> Object \<Rightarrow> Object" where
  "set_dupli_generated =
     node_set SOCKET_dupli_generated get_dupli_generated get_dupli_generated_update"

definition set_dupli_uv :: "float2 \<Rightarrow> Object \<Rightarrow> Object" where
  "set_dupli_uv = node_set SOCKET_dupli_uv get_dupli_uv get_dupli_uv_update"

definition set_random_id :: "uint \<Rightarrow> Object \<Rightarrow> Object" where
  "set_random_id = node_set SOCKET_random_id get_random_id get_random_id_update"

definition set_particle :: "particle_sockets \<Rightarrow> Object \<Rightarrow> Object" where
  "set_particle = node_set SOCKET_particle get_particle get_particle_update"

definition is_modified :: "Object \<Rightarrow> bool" where
  "is_modified ob = (socket_modified ob \<noteq> {})"

definition use_holdout_is_modified :: "Object \<Rightarrow> bool" where
  "use_holdout_is_modified ob = (SOCKET_use_holdout \<in> socket_modified ob)"

definition set_use_motion_blur :: "bool \<Rightarrow> Geometry \<Rightarrow> Geometry" where
  "set_use_motion_blur v geom =
     (if get_use_motion_blur geom = v then geom
      else geom\<lparr>get_use_motion_blur := v, geometry_is_modified := True\<rparr>)"

definition set_motion_steps :: "nat \<Rightarrow> Geometry \<Rightarrow> Geometry" where
  "set_motion_steps v geom =
     (if get_motion_steps geom = v then geom
      else geom\<lparr>get_motion_steps := v, geometry_is_modified := True\<rparr>)"

subsection \<open>Motion samples of an entity\<close>

text \<open>
  Modelled from the spec: \<open>Object::use_motion\<close>, \<open>Object::motion_time\<close> and
  \<open>Object::motion_step\<close> (of render/object.cpp). An
  entity has the motion capability when its motion array holds more than one sample; the
  relative time offsets of its samples are evenly spaced over [-1, 1], symmetric about 0;
  \<open>motion_step\<close> is the index of the sample whose offset is the given time, -1 when
  there is none.
\<close>

definition use_motion :: "Object \<Rightarrow> bool" where
  "use_motion ob = (length (get_motion ob) > 1)"

definition motion_time :: "Object \<Rightarrow> nat \<Rightarrow> float_number" where
  "motion_time ob step =
     (if use_motion ob then 2 * of_nat step / of_nat (length (get_motion ob) - 1) - 1 else 0)"

fun motion_step_from :: "Object \<Rightarrow> float_number \<Rightarrow> nat \<Rightarrow> nat \<Rightarrow> int" where
  "motion_step_from ob t step 0 = -1"
| "motion_step_from ob t step (Suc remaining) =
     (if t = motion_time ob step then int step
      else motion_step_from ob t (Suc step) remaining)"

definition motion_step :: "Object \<Rightarrow> float_number \<Rightarrow> int" where
  "motion_step ob t =
     (if use_motion ob then motion_step_from ob t 0 (length (get_motion ob)) else -1)"

subsection \<open>The identity map\<close>

text \<open>
  Modelled from the spec: \<open>ObjectKey\<close> and the identity map \<open>object_map\<close> with its
  \<open>pre_sync\<close>, \<open>find\<close>, \<open>add_or_update\<close> and \<open>post_sync\<close> (of blender_id_map.h). The
  key is the tuple of parent handle, persistent id (or absent), instanced-object handle and
  variant flag, compared by content. \<open>find\<close> is a lookup that changes nothing.
  \<open>add_or_update\<close>, which is given the object and its parent with the key, allocates an
  entity from the factory and reports true when the key is absent; otherwise it marks the
  entry as seen and reports whether the slot moved: whether the host has tagged the
  object, or its parent when that is another object, as changed since the last pass
  (\<open>b_recalc\<close> below, by the address of the object). \<open>pre_sync\<close> marks every entry as
  not yet seen; \<open>post_sync\<close> deletes every entry not seen. An entity is held by its key, so
  a write through the \<open>Object *\<close> is an update of the map at that key.
\<close>

datatype ObjectKey = ObjectKey nat "int list option" nat bool

datatype TaskPool = geom_task_pool

datatype sync_map =
  Light_map | Geometry_map | Object_map | Procedural_map | Particle_system_map

text \<open>
  Calls that leave this file, in the order they are made. The collaborators behind them
  are not modelled beyond what the code here reads back; each call is recorded with the
  arguments that matter below (objects by address, a task pool as present or null).
\<close>

datatype event =
    Sync_light nat "int list option" nat nat uint Transform
  | Sync_geometry nat bool bool "TaskPool option"
  | Sync_geometry_motion nat float_number bool "TaskPool option"
  | Sync_dupli_particle nat ObjectKey
  | Tag_update_HOLDOUT_MODIFIED
  | Object_tag_update ObjectKey
  | Sync_procedural nat
  | Culling_init_object nat
  | Progress_get_cancel
  | Pool_wait_work
  | Progress_set_sync_status
  | Sync_background_light bool
  | Pre_sync sync_map
  | Post_sync sync_map
  | Motion_times_clear
  | Geometry_motion_synced_clear

text \<open>
  The collaborators and constants that the code takes from other files, as parameters:
  kernel constants; converters and per-object queries of blender_util.h; the culling test;
  \<open>scene->need_motion()\<close>; the factory's fresh entity; \<open>transform_empty()\<close>; the hash
  functions; geometry, light and particle synchronisation, each by what it hands back
  (\<open>sync_geometry\<close>: the geometry and the geometry store it leaves;
  \<open>sync_geometry_motion\<close>: the store it leaves; \<open>sync_dupli_particle\<close>: the particle
  sockets it leaves on the entity; \<open>sync_light\<close>: the portal flag it leaves);
  \<open>BlenderViewportParameters(b_v3d).use_scene_lights\<close>; \<open>progress.get_cancel()\<close>, by
  the number of earlier polls; and the host's tags of changed objects, by address.
\<close>

record env =
  PATH_RAY_CAMERA :: uint
  PATH_RAY_ALL_VISIBILITY :: uint
  MAX_MOTION_STEPS :: nat
  get_transform :: "float list \<Rightarrow> Transform"
  get_float3 :: "float_number list \<Rightarrow> float3"
  get_float2 :: "float_number list \<Rightarrow> float2"
  object_ray_visibility :: "BL_Object \<Rightarrow> uint"
  object_motion_steps :: "BL_Object \<Rightarrow> BL_Object \<Rightarrow> nat \<Rightarrow> nat"
  object_use_deform_motion :: "BL_Object \<Rightarrow> BL_Object \<Rightarrow> bool"
  object_has_particle_hair :: "BL_Object \<Rightarrow> bool"
  blender_attribute_name_split_type :: "string \<Rightarrow> BlenderAttributeType \<times> string"
  culling_test :: "BL_Object \<Rightarrow> Transform \<Rightarrow> bool"
  need_motion :: MotionType
  create_node_Object :: Object
  transform_empty :: Transform
  hash_string :: "string \<Rightarrow> uint"
  hash_uint2 :: "uint \<Rightarrow> uint \<Rightarrow> uint"
  sync_geometry ::
    "BL_Object \<Rightarrow> bool \<Rightarrow> bool \<Rightarrow> TaskPool option \<Rightarrow> (geom_id \<Rightarrow> Geometry) \<Rightarrow>
       geom_id \<times> (geom_id \<Rightarrow> Geometry)"
  sync_geometry_motion ::
    "BL_Object \<Rightarrow> Object \<Rightarrow> float_number \<Rightarrow> bool \<Rightarrow> TaskPool option \<Rightarrow> (geom_id \<Rightarrow> Geometry) \<Rightarrow>
       (geom_id \<Rightarrow> Geometry)"
  sync_dupli_particle :: "BL_Object \<Rightarrow> BL_DepsgraphObjectInstance \<Rightarrow> Object \<Rightarrow> particle_sockets"
  sync_light :: "BL_Object \<Rightarrow> bool \<Rightarrow> bool"
  use_scene_lights :: bool
  get_cancel :: "nat \<Rightarrow> bool"
  b_recalc :: "nat \<Rightarrow> bool"

text \<open>
  The state of the synchroniser that this file touches: the identity map of entities with
  its seen marks, the geometry nodes, the motion time set, the portal flag and the count of
  cancel polls of the running pass, and the record of outgoing calls.
\<close>

record BlenderSync =
  object_map :: "ObjectKey \<rightharpoonup> Object"
  object_map_used :: "ObjectKey set"
  geometries :: "geom_id \<Rightarrow> Geometry"
  motion_times :: "float_number set"
  use_portal :: bool
  cancel_polls :: nat
  events :: "event list"

definition emit :: "event \<Rightarrow> BlenderSync \<Rightarrow> BlenderSync" where
  "emit e st = st\<lparr>events := events st @ [e]\<rparr>"

definition object_map_pre_sync :: "BlenderSync \<Rightarrow> BlenderSync" where
  "object_map_pre_sync st = emit (Pre_sync Object_map) (st\<lparr>object_map_used := {}\<rparr>)"

definition object_map_find :: "ObjectKey \<Rightarrow> BlenderSync \<Rightarrow> Object option" where
  "object_map_find key st = object_map st key"

definition object_map_add_or_update ::
  "env \<Rightarrow> BL_Object \<Rightarrow> BL_Object \<Rightarrow> ObjectKey \<Rightarrow> BlenderSync \<Rightarrow>
     Object \<times> bool \<times> BlenderSync" where
  "object_map_add_or_update e b_id b_parent key st =
     (case object_map_find key st of
        None \<Rightarrow>
          (create_node_Object e, True,
           st\<lparr>object_map := (object_map st)(key \<mapsto> create_node_Object e),
              object_map_used := insert key (object_map_used st)\<rparr>)
      | Some ob \<Rightarrow>
          (ob,
           b_recalc e (ptr_data (rna b_id)) \<or>
           (ptr_data (rna b_parent) \<noteq> ptr_data (rna b_id) \<and>
            b_recalc e (ptr_data (rna b_parent))),
           st\<lparr>object_map_used := insert key (object_map_used st)\<rparr>))"

definition object_map_post_sync :: "BlenderSync \<Rightarrow> BlenderSync" where
  "object_map_post_sync st =
     emit (Post_sync Object_map)
       (st\<lparr>object_map := (\<lambda>key. if key \<in> object_map_used st then object_map st key else None)\<rparr>)"

section \<open>Attribute reconciliation\<close>

text \<open>\<open>AttributeRequestSet::find\<close>: whether a request of that name is in the set.\<close>

definition requests_find :: "string list \<Rightarrow> string \<Rightarrow> bool" where
  "requests_find requests nm = (nm \<in> set requests)"

text \<open>
  The deletion loop, \<open>for (int i = attributes.size() - 1; i >= 0; i--)\<close>; the counter of
  the model is \<open>i + 1\<close>.
\<close>

fun delete_unneeded ::
  "string list \<Rightarrow> nat \<Rightarrow> ParamValue list \<times> bool \<Rightarrow> ParamValue list \<times> bool" where
  "delete_unneeded requests 0 (attrs, changed) = (attrs, changed)"
| "delete_unneeded requests (Suc i) (attrs, changed) =
     (if \<not> requests_find requests (pv_name (attrs ! i))
      then delete_unneeded requests i (take i attrs @ drop (Suc i) attrs, True)
      else delete_unneeded requests i (attrs, changed))"

text \<open>The search for the existing attribute: the first index that holds the name.\<close>

fun find_param :: "string \<Rightarrow> ParamValue list \<Rightarrow> nat option" where
  "find_param nm [] = None"
| "find_param nm (p # ps) =
     (if pv_name p = nm then Some 0 else map_option Suc (find_param nm ps))"

text \<open>
  The body of the loop over the requests. The stored value and the resolved one are
  compared by \<open>memcmp\<close> over the 16 bytes of a \<open>float4\<close>, which is equality of the four
  bit patterns.
\<close>

definition update_attribute ::
  "env \<Rightarrow> BL_DepsgraphObjectInstance \<Rightarrow> string \<Rightarrow> ParamValue list \<times> bool \<Rightarrow>
     ParamValue list \<times> bool" where
  "update_attribute e b_instance nm acc =
     (case acc of (attrs, changed) \<Rightarrow>
        (case blender_attribute_name_split_type e nm of (ty, real_name) \<Rightarrow>
           if ty \<noteq> attribute_type_GEOMETRY then
             (let use_instancer = (ty = attribute_type_INSTANCER);
                  v = lookup_instance_property b_instance real_name use_instancer;
                  new_param = ParamValue nm v
              in case find_param nm attrs of
                   None \<Rightarrow> (attrs @ [new_param], True)
                 | Some i \<Rightarrow>
                     if pv_data (attrs ! i) \<noteq> v then (attrs[i := new_param], True)
                     else (attrs, changed))
           else (attrs, changed)))"

text \<open>
  \<open>sync_object_attributes\<close>, on the requests of the entity's geometry and the entity's
  stored attributes: the attributes it leaves and the flag it returns.
\<close>

definition sync_object_attributes ::
  "env \<Rightarrow> BL_DepsgraphObjectInstance \<Rightarrow> string list \<Rightarrow> ParamValue list \<Rightarrow>
     ParamValue list \<times> bool" where
  "sync_object_attributes e b_instance requests attrs =
     fold (update_attribute e b_instance) requests
       (delete_unneeded requests (length attrs) (attrs, False))"

section \<open>Object\<close>

text \<open>\<open>k * v\<close> and \<open>v - w\<close> on vectors of three floats.\<close>

fun float3_scale :: "float_number \<Rightarrow> float3 \<Rightarrow> float3" where
  "float3_scale k (make_float3 x y z) = make_float3 (k * x) (k * y) (k * z)"

fun float3_sub :: "float3 \<Rightarrow> float3 \<Rightarrow> float3" where
  "float3_sub (make_float3 x y z) (make_float3 x' y' z') = make_float3 (x - x') (y - y') (z - z')"

text \<open>\<open>b_parent\<close> and \<open>b_ob_instance\<close>, as \<open>sync_object\<close> picks them.\<close>

definition b_parent_of :: "BL_DepsgraphObjectInstance \<Rightarrow> BL_Object" where
  "b_parent_of b_instance =
     (if is_instance b_instance then instance_parent b_instance else object b_instance)"

definition b_ob_instance_of :: "BL_DepsgraphObjectInstance \<Rightarrow> BL_Object" where
  "b_ob_instance_of b_instance =
     (if is_instance b_instance then instance_object b_instance else object b_instance)"

text \<open>Visibility flags for both parent and child, with the holdout flag.\<close>

definition sync_object_visibility :: "env \<Rightarrow> BL_Object \<Rightarrow> BL_Object \<Rightarrow> bool \<times> uint" where
  "sync_object_visibility e b_ob b_parent =
     (let use_holdout =
            (get_boolean (cycles (rna b_ob)) ''is_holdout'' \<or> holdout_get (rna b_parent));
          visibility0 = object_ray_visibility e b_ob AND PATH_RAY_ALL_VISIBILITY e;
          visibility1 =
            (if ptr_data (rna b_parent) \<noteq> ptr_data (rna b_ob)
             then visibility0 AND object_ray_visibility e b_parent else visibility0);
          use_indirect_only = (\<not> use_holdout \<and> indirect_only_get (rna b_parent));
          visibility2 =
            (if use_indirect_only then visibility1 AND NOT (PATH_RAY_CAMERA e) else visibility1)
      in (use_holdout, visibility2))"

text \<open>The motion vector case.\<close>

definition sync_object_motion ::
  "env \<Rightarrow> BL_DepsgraphObjectInstance \<Rightarrow> float_number \<Rightarrow> bool \<Rightarrow> TaskPool option \<Rightarrow> ObjectKey \<Rightarrow>
     Transform \<Rightarrow> BlenderSync \<Rightarrow> Object option \<times> BlenderSync" where
  "sync_object_motion e b_instance t use_particle_hair object_geom_task_pool key tfm st =
     (case object_map_find key st of
        None \<Rightarrow> (None, st)
      | Some ob \<Rightarrow>
          if use_motion ob then
            (let time_index = motion_step ob t;
                 ob1 = (if time_index \<ge> 0
                        then set_motion ((get_motion ob)[nat time_index := tfm]) ob else ob);
                 st1 = st\<lparr>object_map := (object_map st)(key \<mapsto> ob1)\<rparr>;
                 st2 = (if get_geometry ob1 \<noteq> None then
                          emit (Sync_geometry_motion (ptr_data (rna (b_ob_instance_of b_instance)))
                                  t use_particle_hair object_geom_task_pool)
                            (st1\<lparr>geometries :=
                                   sync_geometry_motion e (b_ob_instance_of b_instance) ob1 t
                                     use_particle_hair object_geom_task_pool (geometries st1)\<rparr>)
                        else st1)
             in (Some ob1, st2))
          else (Some ob, st))"

text \<open>The walk to the root of the parent chain, and the asset name for Cryptomatte.\<close>

fun root_parent :: "BL_Object \<Rightarrow> BL_Object" where
  "root_parent (BL_Object r None) = BL_Object r None"
| "root_parent (BL_Object r (Some p)) = root_parent p"

definition asset_name :: "BL_Object \<Rightarrow> string" where
  "asset_name b_ob =
     (case parent b_ob of
        Some p \<Rightarrow> ob_name (rna (root_parent p))
      | None \<Rightarrow> ob_name (rna b_ob))"

text \<open>The test that guards the object sync block.\<close>

definition sync_object_changed ::
  "Object \<Rightarrow> bool \<Rightarrow> (geom_id \<Rightarrow> Geometry) \<Rightarrow> Transform \<Rightarrow> bool" where
  "sync_object_changed ob object_updated geoms tfm =
     (is_modified ob \<or> object_updated \<or>
      (case get_geometry ob of None \<Rightarrow> False | Some g \<Rightarrow> geometry_is_modified (geoms g)) \<or>
      tfm \<noteq> get_tfm ob)"

text \<open>The motion blur part of the object sync block.\<close>

definition sync_object_motion_blur ::
  "env \<Rightarrow> BL_Object \<Rightarrow> BL_Object \<Rightarrow> Transform \<Rightarrow> Object \<times> BlenderSync \<Rightarrow> Object \<times> BlenderSync" where
  "sync_object_motion_blur e b_parent b_ob tfm acc =
     (case acc of (ob, st) \<Rightarrow>
        (case get_geometry ob of
           None \<Rightarrow> (ob, st)
         | Some g \<Rightarrow>
             if need_motion e \<noteq> MOTION_NONE then
               (let geom0 = set_motion_steps 0 (set_use_motion_blur False (geometries st g));
                    steps = (if need_motion e = MOTION_BLUR
                             then object_motion_steps e b_parent b_ob (MAX_MOTION_STEPS e)
                             else 3);
                    geom1 = set_motion_steps steps geom0;
                    geom2 = (if need_motion e = MOTION_BLUR \<and> steps \<noteq> 0 \<and>
                                object_use_deform_motion e b_parent b_ob
                             then set_use_motion_blur True geom1 else geom1);
                    st1 = st\<lparr>geometries := (geometries st)(g := geom2)\<rparr>;
                    motion = replicate steps (transform_empty e)
                in if steps \<noteq> 0 then
                     (let ob1 = set_motion (motion[steps div 2 := tfm]) ob
                      in (ob1,
                          st1\<lparr>motion_times :=
                                fold (\<lambda>step times. insert (motion_time ob1 step) times)
                                  [0..<steps] (motion_times st1)\<rparr>))
                   else (ob, st1))
             else (ob, st)))"

text \<open>The object sync block: what runs when the test holds.\<close>

definition sync_object_update ::
  "env \<Rightarrow> BL_DepsgraphObjectInstance \<Rightarrow> ObjectKey \<Rightarrow> Transform \<Rightarrow> Object \<times> BlenderSync \<Rightarrow>
     Object \<times> BlenderSync" where
  "sync_object_update e b_instance key tfm acc =
     (case acc of (ob, st) \<Rightarrow>
        (let b_ob = object b_instance;
             ob1 = set_motion []
                     (set_tfm tfm
                       (set_color (get_float3 e (ob_color (rna b_ob)))
                         (set_pass_id (pass_index (rna b_ob))
                           (ob\<lparr>name := ob_name (rna b_ob)\<rparr>))))
         in case sync_object_motion_blur e (b_parent_of b_instance) b_ob tfm (ob1, st) of
              (ob2, st1) \<Rightarrow>
                (let ob3 =
                       (if is_instance b_instance then
                          set_random_id (instance_random_id b_instance)
                            (set_dupli_uv (get_float2 e (uv b_instance))
                              (set_dupli_generated
                                 (float3_sub
                                    (float3_scale (1 / 2) (get_float3 e (orco b_instance)))
                                    (make_float3 (1 / 2) (1 / 2) (1 / 2)))
                                 ob2))
                        else
                          set_random_id (hash_uint2 e (hash_string e (name ob2)) 0)
                            (set_dupli_uv (make_float2 0 0)
                              (set_dupli_generated (make_float3 0 0 0) ob2)))
                 in (ob3, emit (Object_tag_update key) st1))))"

text \<open>
  The first part of the sync of the non-motion case, from \<open>add_or_update\<close> to the asset
  name: the entity as it stands before the test, the flag \<open>object_updated\<close>, and the
  state. The entity is read from the map and written through its pointer.
\<close>

definition sync_object_fields ::
  "env \<Rightarrow> BL_DepsgraphObjectInstance \<Rightarrow> bool \<Rightarrow> TaskPool option \<Rightarrow> ObjectKey \<Rightarrow>
     bool \<Rightarrow> uint \<Rightarrow> BlenderSync \<Rightarrow> Object \<times> bool \<times> BlenderSync" where
  "sync_object_fields e b_instance use_particle_hair object_geom_task_pool key use_holdout
       visibility st =
     (let b_ob = object b_instance;
          b_ob_instance = b_ob_instance_of b_instance
      in case object_map_add_or_update e b_ob (b_parent_of b_instance) key st of
        (ob0, recalc, st1) \<Rightarrow>
       (case sync_geometry e b_ob_instance recalc use_particle_hair object_geom_task_pool
               (geometries st1) of
        (geom, geoms) \<Rightarrow>
       (let st2 = emit (Sync_geometry (ptr_data (rna b_ob_instance)) recalc use_particle_hair
                          object_geom_task_pool)
                    (st1\<lparr>geometries := geoms\<rparr>);
            ob1 = set_geometry (Some geom) ob0
        in case sync_object_attributes e b_instance (needed_attributes (geometries st2 geom))
                  (attributes ob1) of
        (attrs, attrs_changed) \<Rightarrow>
       (let object_updated = (recalc \<or> attrs_changed);
            ob2 = set_use_holdout use_holdout (ob1\<lparr>attributes := attrs\<rparr>);
            st3 = (if use_holdout_is_modified ob2
                   then emit Tag_update_HOLDOUT_MODIFIED st2 else st2);
            ob3 = set_asset_name (asset_name b_ob)
                    (set_shadow_terminator_offset
                       (get_float (cycles (rna b_ob)) ''shadow_terminator_offset'')
                       (set_is_shadow_catcher
                          (get_boolean (cycles (rna b_ob)) ''is_shadow_catcher'')
                          (set_visibility visibility ob2)))
        in (ob3, object_updated, st3)))))"

text \<open>
  The sync of the non-motion case: the first part, the object sync block under its test,
  and the particle data of an instance. The map holds the outcome at the key.
\<close>

definition sync_object_full ::
  "env \<Rightarrow> BL_DepsgraphObjectInstance \<Rightarrow> bool \<Rightarrow> TaskPool option \<Rightarrow> ObjectKey \<Rightarrow> Transform \<Rightarrow>
     bool \<Rightarrow> uint \<Rightarrow> BlenderSync \<Rightarrow> Object option \<times> BlenderSync" where
  "sync_object_full e b_instance use_particle_hair object_geom_task_pool key tfm use_holdout
       visibility st =
     (case sync_object_fields e b_instance use_particle_hair object_geom_task_pool key
             use_holdout visibility st of
        (ob3, object_updated, st3) \<Rightarrow>
       (case (if sync_object_changed ob3 object_updated (geometries st3) tfm
              then sync_object_update e b_instance key tfm (ob3, st3) else (ob3, st3)) of
        (ob4, st4) \<Rightarrow>
          if is_instance b_instance then
            (let ob5 = set_particle
                         (sync_dupli_particle e (b_parent_of b_instance) b_instance ob4) ob4
             in (Some ob5,
                 emit (Sync_dupli_particle (ptr_data (rna (b_parent_of b_instance))) key)
                   (st4\<lparr>object_map := (object_map st4)(key \<mapsto> ob5)\<rparr>)))
          else (Some ob4, st4\<lparr>object_map := (object_map st4)(key \<mapsto> ob4)\<rparr>)))"

text \<open>
  The locals that \<open>sync_object\<close> sets up first: the persistent id (null unless the
  element is an instance), the transform, and the key to look the object up.
\<close>

definition persistent_id_of :: "BL_DepsgraphObjectInstance \<Rightarrow> int list option" where
  "persistent_id_of b_instance =
     (if is_instance b_instance then Some (persistent_id b_instance) else None)"

definition object_tfm :: "env \<Rightarrow> BL_DepsgraphObjectInstance \<Rightarrow> Transform" where
  "object_tfm e b_instance = get_transform e (matrix_world (rna (object b_instance)))"

definition object_key :: "BL_DepsgraphObjectInstance \<Rightarrow> bool \<Rightarrow> ObjectKey" where
  "object_key b_instance use_particle_hair =
     ObjectKey (ptr_data (rna (b_parent_of b_instance))) (persistent_id_of b_instance)
       (ptr_data (rna (b_ob_instance_of b_instance))) use_particle_hair"

definition sync_object ::
  "env \<Rightarrow> BL_DepsgraphObjectInstance \<Rightarrow> float_number \<Rightarrow> bool \<Rightarrow> bool \<Rightarrow> TaskPool option \<Rightarrow>
     BlenderSync \<Rightarrow> Object option \<times> BlenderSync" where
  "sync_object e b_instance t use_particle_hair show_lights task_pool st =
     (let b_ob = object b_instance;
          b_parent = b_parent_of b_instance;
          b_ob_instance = b_ob_instance_of b_instance;
          motion = (t \<noteq> 0);
          tfm = object_tfm e b_instance
      in if \<not> motion \<and> object_is_light b_ob then
           (if \<not> show_lights then (None, st)
            else (None,
                  emit (Sync_light (ptr_data (rna b_parent)) (persistent_id_of b_instance)
                          (ptr_data (rna b_ob)) (ptr_data (rna b_ob_instance))
                          (if is_instance b_instance then instance_random_id b_instance else 0)
                          tfm)
                    (st\<lparr>use_portal := sync_light e b_ob (use_portal st)\<rparr>)))
         else if \<not> object_is_geometry b_ob then (None, st)
         else if culling_test e b_ob tfm then (None, st)
         else
           (case sync_object_visibility e b_ob b_parent of
              (use_holdout, visibility) \<Rightarrow>
                if visibility = 0 then (None, st)
                else
                  (let object_geom_task_pool =
                         (if is_instance b_instance then None else task_pool);
                       key = object_key b_instance use_particle_hair
                   in if motion then
                        sync_object_motion e b_instance t use_particle_hair
                          object_geom_task_pool key tfm st
                      else
                        sync_object_full e b_instance use_particle_hair
                          object_geom_task_pool key tfm use_holdout visibility st)))"

section \<open>Object loop\<close>

definition object_alembic_cache_find :: "BL_Object \<Rightarrow> bool" where
  "object_alembic_cache_find b_ob =
     (length (modifiers (rna b_ob)) > 0 \<and>
      modifiers (rna b_ob) ! (length (modifiers (rna b_ob)) - 1) = type_MESH_SEQUENCE_CACHE)"

text \<open>
  \<open>sync_procedural\<close> returns at once in a motion pass; otherwise it works on the procedural
  map and the scene only, which is recorded as one call.
\<close>

definition sync_procedural :: "BL_Object \<Rightarrow> float_number \<Rightarrow> BlenderSync \<Rightarrow> BlenderSync" where
  "sync_procedural b_ob t st =
     (if t \<noteq> 0 then st else emit (Sync_procedural (ptr_data (rna b_ob))) st)"

text \<open>\<open>cancel = progress.get_cancel()\<close>: one poll.\<close>

definition progress_get_cancel :: "env \<Rightarrow> BlenderSync \<Rightarrow> bool \<times> BlenderSync" where
  "progress_get_cancel e st =
     (get_cancel e (cancel_polls st),
      emit Progress_get_cancel (st\<lparr>cancel_polls := Suc (cancel_polls st)\<rparr>))"

text \<open>The body of the object loop, for one instance that passed the loop condition.\<close>

definition sync_objects_body ::
  "env \<Rightarrow> bool \<Rightarrow> float_number \<Rightarrow> BL_DepsgraphObjectInstance \<Rightarrow> BlenderSync \<Rightarrow> BlenderSync" where
  "sync_objects_body e b_v3d t b_instance st =
     (let b_ob = object b_instance;
          show_lights = use_scene_lights e;
          st1 = emit (Culling_init_object (ptr_data (rna b_ob))) st;
          sync_hair = (show_particles b_instance \<and> object_has_particle_hair e b_ob);
          st2 = (if show_self b_instance then
                   (if object_alembic_cache_find b_ob then sync_procedural b_ob t st1
                    else snd (sync_object e b_instance t False show_lights
                                (if sync_hair then None else Some geom_task_pool) st1))
                 else st1);
          st3 = (if sync_hair then
                   snd (sync_object e b_instance t True show_lights (Some geom_task_pool) st2)
                 else st2)
      in st3)"

text \<open>
  The object loop. \<open>b_v3d\<close> tells whether the viewport handle is non-null. The loop ends
  with the instances or when \<open>cancel\<close> is set; an instance hidden in the viewport is passed
  over by \<open>continue\<close>.
\<close>

fun sync_objects_loop ::
  "env \<Rightarrow> bool \<Rightarrow> float_number \<Rightarrow> BL_DepsgraphObjectInstance list \<Rightarrow> bool \<Rightarrow> BlenderSync \<Rightarrow>
     bool \<times> BlenderSync" where
  "sync_objects_loop e b_v3d t [] cancel st = (cancel, st)"
| "sync_objects_loop e b_v3d t (b_instance # rest) cancel st =
     (if cancel then (cancel, st)
      else if \<not> (\<not> b_v3d \<or> visible_in_viewport_get (rna (object b_instance)))
      then sync_objects_loop e b_v3d t rest cancel st
      else
        (case progress_get_cancel e (sync_objects_body e b_v3d t b_instance st) of
           (cancel', st') \<Rightarrow> sync_objects_loop e b_v3d t rest cancel' st'))"

definition sync_objects ::
  "env \<Rightarrow> bool \<Rightarrow> float_number \<Rightarrow> BL_DepsgraphObjectInstance list \<Rightarrow> BlenderSync \<Rightarrow> BlenderSync" where
  "sync_objects e b_v3d t object_instances st =
     (let motion = (t \<noteq> 0);
          st1 = (if \<not> motion then
                   emit Motion_times_clear
                     ((emit (Pre_sync Particle_system_map)
                        (emit (Pre_sync Procedural_map)
                          (object_map_pre_sync
                            (emit (Pre_sync Geometry_map)
                              (emit (Pre_sync Light_map) st)))))\<lparr>motion_times := {}\<rparr>)
                 else emit Geometry_motion_synced_clear st)
      in case sync_objects_loop e b_v3d t object_instances False
                (st1\<lparr>use_portal := False, cancel_polls := 0\<rparr>) of
        (cancel, st2) \<Rightarrow>
          (let st3 = emit Progress_set_sync_status (emit Pool_wait_work st2);
               st4 = (if \<not> cancel \<and> \<not> motion then
                        emit (Post_sync Procedural_map)
                          (emit (Post_sync Particle_system_map)
                            (object_map_post_sync
                              (emit (Post_sync Geometry_map)
                                (emit (Post_sync Light_map)
                                  (emit (Sync_background_light (use_portal st3)) st3)))))
                      else st3)
           in if motion then emit Geometry_motion_synced_clear st4 else st4))"

section \<open>A small scene\<close>

text \<open>
  Concrete collaborators and a concrete scene, on which the theorems below are exercised:
  the kernel's ray flags, a column-major matrix converter, full ray visibility, three
  motion steps per object, attribute names split at the prefixes \<open>object:\<close> and
  \<open>instancer:\<close>, no culling, motion blur on, a geometry per object address that
  geometry sync leaves untouched, and a cancel flag that is never set.
\<close>

definition zero_transform :: Transform where
  "zero_transform =
     make_transform (make_float4 float_0 float_0 float_0 float_0) (make_float4 float_0 float_0 float_0 float_0) (make_float4 float_0 float_0 float_0 float_0)"

definition new_object :: Object where
  "new_object =
     \<lparr>name = [], attributes = [], get_geometry = None, get_use_holdout = False,
      get_visibility = 0, get_is_shadow_catcher = False, get_shadow_terminator_offset = 0,
      get_asset_name = [], get_pass_id = 0, get_color = make_float3 0 0 0,
      get_tfm = zero_transform, get_motion = [], get_dupli_generated = make_float3 0 0 0,
      get_dupli_uv = make_float2 0 0, get_random_id = 0, get_particle = (False, None, 0),
      socket_modified = {}\<rparr>"

definition example_env :: env where
  "example_env =
     \<lparr>PATH_RAY_CAMERA = 1, PATH_RAY_ALL_VISIBILITY = 16383, MAX_MOTION_STEPS = 129,
      get_transform =
        (\<lambda>m. make_transform (make_float4 (m ! 0) (m ! 4) (m ! 8) (m ! 12))
                (make_float4 (m ! 1) (m ! 5) (m ! 9) (m ! 13))
                (make_float4 (m ! 2) (m ! 6) (m ! 10) (m ! 14))),
      get_float3 = (\<lambda>a. make_float3 (a ! 0) (a ! 1) (a ! 2)),
      get_float2 = (\<lambda>a. make_float2 (a ! 0) (a ! 1)),
      object_ray_visibility = (\<lambda>b. 16383),
      object_motion_steps = (\<lambda>p b m. 3),
      object_use_deform_motion = (\<lambda>p b. False),
      object_has_particle_hair = (\<lambda>b. False),
      blender_attribute_name_split_type =
        (\<lambda>nm. if take 7 nm = ''object:'' then (attribute_type_OBJECT, drop 7 nm)
              else if take 10 nm = ''instancer:'' then (attribute_type_INSTANCER, drop 10 nm)
              else (attribute_type_GEOMETRY, nm)),
      culling_test = (\<lambda>b tfm. False),
      need_motion = MOTION_BLUR,
      create_node_Object = new_object,
      transform_empty = zero_transform,
      hash_string = (\<lambda>s. of_nat (length s)),
      hash_uint2 = (\<lambda>a b. a + b),
      sync_geometry = (\<lambda>b upd hair pool geoms. (ptr_data (rna b), geoms)),
      sync_geometry_motion = (\<lambda>b ob t hair pool geoms. geoms),
      sync_dupli_particle = (\<lambda>p i ob. get_particle ob),
      sync_light = (\<lambda>b p. p),
      use_scene_lights = True,
      get_cancel = (\<lambda>n. False),
      b_recalc = (\<lambda>a. False)\<rparr>"

definition identity_matrix :: "float list" where
  "identity_matrix =
     [float_1, float_0, float_0, float_0, float_0, float_1, float_0, float_0,
      float_0, float_0, float_1, float_0, float_0, float_0, float_0, float_1]"

definition mesh_data :: BL_ID where
  "mesh_data =
     \<lparr>id_ptr = (\<lambda>p. None), is_a = (\<lambda>s. s = RNA_Mesh), bevel_object = False, extrude = 0,
      bevel_depth = 0, dimensions = dimensions_3D\<rparr>"

definition light_data :: BL_ID where
  "light_data =
     \<lparr>id_ptr = (\<lambda>p. None), is_a = (\<lambda>s. s = RNA_Light), bevel_object = False, extrude = 0,
      bevel_depth = 0, dimensions = dimensions_3D\<rparr>"

definition cube_rna :: BL_Object_rna where
  "cube_rna =
     \<lparr>ptr_data = 1, ob_ptr = (\<lambda>p. None), ob_type = type_MESH, data = Some mesh_data,
      modifiers = [], matrix_world = identity_matrix, ob_name = ''Cube'', pass_index = 0,
      ob_color = [1, 1, 1, 1],
      cycles = \<lparr>get_boolean = (\<lambda>s. False), get_float = (\<lambda>s. 0)\<rparr>,
      holdout_get = False, indirect_only_get = False, visible_in_viewport_get = True\<rparr>"

definition cube :: BL_Object where
  "cube = BL_Object cube_rna None"

definition lamp :: BL_Object where
  "lamp = BL_Object
            (cube_rna\<lparr>ptr_data := 2, ob_type := type_LIGHT, data := Some light_data,
                      ob_name := ''Light''\<rparr>) None"

definition instance_of :: "BL_Object \<Rightarrow> BL_DepsgraphObjectInstance" where
  "instance_of b_ob =
     \<lparr>is_instance = False, object = b_ob, instance_parent = b_ob, instance_object = b_ob,
      persistent_id = [], instance_random_id = 0, orco = [0, 0, 0], uv = [0, 0],
      particle_system = None, show_self = True, show_particles = False\<rparr>"

definition empty_geometry :: Geometry where
  "empty_geometry =
     \<lparr>needed_attributes = [], get_use_motion_blur = False, get_motion_steps = 0,
      geometry_is_modified = False\<rparr>"

definition empty_sync :: BlenderSync where
  "empty_sync =
     \<lparr>object_map = Map.empty, object_map_used = {}, geometries = (\<lambda>g. empty_geometry),
      motion_times = {}, use_portal = False, cancel_polls = 0, events = []\<rparr>"

definition float_property :: "float \<Rightarrow> PropertyRNA" where
  "float_property v =
     \<lparr>RNA_property_type = PROP_FLOAT, RNA_property_array_length = 0,
      RNA_property_float_get = v, RNA_property_int_get = 0,
      RNA_property_float_get_array = []\<rparr>"

text \<open>A block on which the path \<open>foo\<close>, and no other, names a float property.\<close>

definition property_foo :: "float \<Rightarrow> string \<Rightarrow> PropertyRNA option" where
  "property_foo v path = (if path = ''foo'' then Some (float_property v) else None)"

text \<open>
  An instance of the cube scattered by a particle system of an emitter: the path
  \<open>foo\<close> is 1 on the particle settings, 2 on the emitter, 3 on the cube and 4 on its mesh.
\<close>

definition emitter :: BL_Object where
  "emitter = BL_Object (cube_rna\<lparr>ptr_data := 3, ob_name := ''Emitter'',
                                 ob_ptr := property_foo (float_of_int 2)\<rparr>) None"

definition scattered_cube :: BL_DepsgraphObjectInstance where
  "scattered_cube =
     \<lparr>is_instance = True,
      object = BL_Object (cube_rna\<lparr>ob_ptr := property_foo (float_of_int 3),
                                   data := Some (mesh_data\<lparr>id_ptr := property_foo (float_of_int 4)\<rparr>)\<rparr>) None,
      instance_parent = emitter, instance_object = cube, persistent_id = [7, 0],
      instance_random_id = 99, orco = [1, 1, 1], uv = [0, 0],
      particle_system = Some \<lparr>settings = property_foo (float_of_int 1)\<rparr>,
      show_self = True, show_particles = False\<rparr>"

text \<open>
  The state after a base pass over the cube on the empty scene, with no scene update
  after it.
\<close>

definition cube_first_pass :: BlenderSync where
  "cube_first_pass =
     snd (sync_object example_env (instance_of cube) 0 False True (Some geom_task_pool)
            empty_sync)"

text \<open>The environment in which the host has tagged the cube as changed.\<close>

definition recalc_env :: env where
  "recalc_env = example_env\<lparr>b_recalc := (\<lambda>a. a = 1)\<rparr>"

text \<open>The cube with \<open>-0.0f\<close> at the path \<open>foo\<close>.\<close>

definition float_minus_0 :: float where
  "float_minus_0 = float_of_bits 0x80000000"

definition minus_zero_cube :: BL_DepsgraphObjectInstance where
  "minus_zero_cube =
     instance_of (BL_Object (cube_rna\<lparr>ob_ptr := property_foo float_minus_0\<rparr>) None)"

text \<open>A parent that is indirect-only in the view layer.\<close>

definition indirect_parent :: BL_Object where
  "indirect_parent = BL_Object (cube_rna\<lparr>ptr_data := 4, ob_name := ''Collection'',
                                         indirect_only_get := True\<rparr>) None"

text \<open>
  The scene after a base pass over the cube and the scene update that follows it: the
  entity of the cube with three motion samples, its flags cleared, and the three motion
  steps on its geometry.
\<close>

definition identity_transform :: Transform where
  "identity_transform =
     make_transform (make_float4 float_1 float_0 float_0 float_0) (make_float4 float_0 float_1 float_0 float_0) (make_float4 float_0 float_0 float_1 float_0)"

definition cube_key :: ObjectKey where
  "cube_key = ObjectKey 1 None 1 False"

definition cube_entity :: Object where
  "cube_entity =
     \<lparr>name = ''Cube'', attributes = [], get_geometry = Some 1, get_use_holdout = False,
      get_visibility = 16383, get_is_shadow_catcher = False, get_shadow_terminator_offset = 0,
      get_asset_name = ''Cube'', get_pass_id = 0, get_color = make_float3 1 1 1,
      get_tfm = identity_transform,
      get_motion = [zero_transform, identity_transform, zero_transform],
      get_dupli_generated = make_float3 0 0 0, get_dupli_uv = make_float2 0 0,
      get_random_id = 4, get_particle = (False, None, 0), socket_modified = {}\<rparr>"

definition cube_synced :: BlenderSync where
  "cube_synced =
     \<lparr>object_map = [cube_key \<mapsto> cube_entity], object_map_used = {cube_key},
      geometries = (\<lambda>g. empty_geometry)(1 := empty_geometry\<lparr>get_motion_steps := 3\<rparr>),
      motion_times = {}, use_portal = False, cancel_polls = 0, events = []\<rparr>"

text \<open>The cube with its holdout flag set.\<close>

definition holdout_cube :: BL_Object where
  "holdout_cube =
     BL_Object (cube_rna\<lparr>cycles := \<lparr>get_boolean = (\<lambda>s. s = ''is_holdout''),
                                     get_float = (\<lambda>s. 0)\<rparr>\<rparr>) None"

text \<open>
  The state after a base pass over the cube with its holdout flag set, run on the synced
  scene, with no scene update after it.
\<close>

definition cube_holdout_synced :: BlenderSync where
  "cube_holdout_synced =
     snd (sync_object example_env (instance_of holdout_cube) 0 False True
            (Some geom_task_pool) cube_synced)"

text \<open>
  The synced scene after the cube's shader came to read the object attribute \<open>foo\<close>:
  the geometry requests it, and nothing else differs.
\<close>

definition cube_synced_shaded :: BlenderSync where
  "cube_synced_shaded =
     cube_synced\<lparr>geometries :=
       (\<lambda>g. empty_geometry\<lparr>get_motion_steps := 3, needed_attributes := [''object:foo'']\<rparr>)\<rparr>"

section \<open>The specification's notions\<close>

text \<open>
  The definitions of this section follow the words of the specification; the theorems
  compare them with the code above.
\<close>

text \<open>
  Holdout: the object's holdout flag or the parent's holdout flag of the view layer.
\<close>

definition holdout :: "BL_Object \<Rightarrow> BL_Object \<Rightarrow> bool" where
  "holdout b_ob b_parent =
     (get_boolean (cycles (rna b_ob)) ''is_holdout'' \<or> holdout_get (rna b_parent))"

text \<open>
  Visibility composition: the mask is \<open>(V_o & V_p) & ~(I & ~H ? CAMERA : 0)\<close>, where
  \<open>V_o\<close> starts from the object's own flags intersected with the mask of all visibility
  kinds and the parent's flags are intersected in only when object and parent differ.
\<close>

definition visibility_mask :: "env \<Rightarrow> BL_Object \<Rightarrow> BL_Object \<Rightarrow> uint" where
  "visibility_mask e b_ob b_parent =
     (let V_o = object_ray_visibility e b_ob AND PATH_RAY_ALL_VISIBILITY e;
          V_p = object_ray_visibility e b_parent;
          H = holdout b_ob b_parent;
          I = indirect_only_get (rna b_parent);
          inherited = (if ptr_data (rna b_parent) \<noteq> ptr_data (rna b_ob)
                       then V_o AND V_p else V_o)
      in inherited AND NOT (if I \<and> \<not> H then PATH_RAY_CAMERA e else 0))"

text \<open>
  Geometry-bearing data: volume and hair types count; a curve counts with a bevel object,
  a non-zero extrude, a non-zero bevel depth, 2D dimensions or a modifier; any other type
  counts by its data being a mesh, a curve or a metaball. An element without a data block
  has no geometry-bearing data.
\<close>

definition is_geometry_bearing :: "BL_Object \<Rightarrow> bool" where
  "is_geometry_bearing b_ob =
     (case data (rna b_ob) of
        None \<Rightarrow> False
      | Some d \<Rightarrow>
          (ob_type (rna b_ob) = type_VOLUME \<or> ob_type (rna b_ob) = type_HAIR) \<or>
          (ob_type (rna b_ob) = type_CURVE \<and>
             (bevel_object d \<or> extrude d \<noteq> 0 \<or> bevel_depth d \<noteq> 0 \<or>
              dimensions d = dimensions_2D \<or> modifiers (rna b_ob) \<noteq> [])) \<or>
          (ob_type (rna b_ob) \<noteq> type_VOLUME \<and> ob_type (rna b_ob) \<noteq> type_HAIR \<and>
           ob_type (rna b_ob) \<noteq> type_CURVE \<and>
             (is_a d RNA_Mesh \<or> is_a d RNA_Curve \<or> is_a d RNA_MetaBall)))"

text \<open>The states of the object sync driver, and its transition logic: first match wins.\<close>

datatype sync_outcome = LightSync | Skip | MotionUpdate | FullSync

definition transition ::
  "env \<Rightarrow> BL_DepsgraphObjectInstance \<Rightarrow> float_number \<Rightarrow> bool \<Rightarrow> sync_outcome" where
  "transition e b_instance t show_lights =
     (if t = 0 \<and> object_is_light (object b_instance) then
        (if show_lights then LightSync else Skip)
      else if \<not> is_geometry_bearing (object b_instance) then Skip
      else if culling_test e (object b_instance) (object_tfm e b_instance) then Skip
      else if visibility_mask e (object b_instance) (b_parent_of b_instance) = 0 then Skip
      else if t \<noteq> 0 then MotionUpdate
      else FullSync)"

text \<open>
  Attribute resolution: the ordered fallback chain of lookups, and its outcome: the first
  successful resolution wins, and the zero vector stands for none.
\<close>

definition attribute_fallback_chain ::
  "BL_DepsgraphObjectInstance \<Rightarrow> string \<Rightarrow> bool \<Rightarrow> float4 option list" where
  "attribute_fallback_chain b_instance nm use_instancer =
     (if use_instancer \<and> is_instance b_instance then
        (case particle_system b_instance of
           None \<Rightarrow> []
         | Some b_psys \<Rightarrow>
             [lookup_property (Some (settings b_psys)) (idprop_name nm),
              lookup_property (Some (settings b_psys)) nm]) @
        [lookup_property (Some (ob_ptr (rna (instance_parent b_instance)))) (idprop_name nm),
         lookup_property (Some (ob_ptr (rna (instance_parent b_instance)))) nm]
      else []) @
     [lookup_property (Some (ob_ptr (rna (object b_instance)))) (idprop_name nm),
      lookup_property (Some (ob_ptr (rna (object b_instance)))) nm,
      lookup_property (map_option id_ptr (data (rna (object b_instance)))) (idprop_name nm),
      lookup_property (map_option id_ptr (data (rna (object b_instance)))) nm]"

fun first_resolved :: "float4 option list \<Rightarrow> float4" where
  "first_resolved [] = make_float4 float_0 float_0 float_0 float_0"
| "first_resolved (None # rest) = first_resolved rest"
| "first_resolved (Some v # rest) = v"

text \<open>The entity that \<open>add_or_update\<close> hands out for a key, and the calls made since a state.\<close>

definition entity_before :: "env \<Rightarrow> ObjectKey \<Rightarrow> BlenderSync \<Rightarrow> Object" where
  "entity_before e key st =
     (case object_map st key of None \<Rightarrow> create_node_Object e | Some ob \<Rightarrow> ob)"

text \<open>
  A freshly created or moved slot of the identity map: the key is not in the map, or the
  host has tagged the object, or its parent when that is another object, as changed.
\<close>

definition created_or_moved ::
  "env \<Rightarrow> BL_DepsgraphObjectInstance \<Rightarrow> ObjectKey \<Rightarrow> BlenderSync \<Rightarrow> bool" where
  "created_or_moved e b_instance key st =
     (object_map st key = None \<or>
      b_recalc e (ptr_data (rna (object b_instance))) \<or>
      (ptr_data (rna (b_parent_of b_instance)) \<noteq> ptr_data (rna (object b_instance)) \<and>
       b_recalc e (ptr_data (rna (b_parent_of b_instance)))))"

definition new_events :: "BlenderSync \<Rightarrow> BlenderSync \<Rightarrow> event list" where
  "new_events st st' = drop (length (events st)) (events st')"

text \<open>
  Attribute reconciliation: whether a requested name is one to resolve (it is not of the
  raw-geometry kind), the vector resolved for it, and the stored attributes whose names
  are still needed.
\<close>

definition attribute_is_resolved :: "env \<Rightarrow> string \<Rightarrow> bool" where
  "attribute_is_resolved e nm =
     (fst (blender_attribute_name_split_type e nm) \<noteq> attribute_type_GEOMETRY)"

definition attribute_value :: "env \<Rightarrow> BL_DepsgraphObjectInstance \<Rightarrow> string \<Rightarrow> float4" where
  "attribute_value e b_instance nm =
     lookup_instance_property b_instance (snd (blender_attribute_name_split_type e nm))
       (fst (blender_attribute_name_split_type e nm) = attribute_type_INSTANCER)"

definition still_needed :: "string list \<Rightarrow> ParamValue list \<Rightarrow> ParamValue list" where
  "still_needed requests attrs = filter (\<lambda>p. pv_name p \<in> set requests) attrs"

text \<open>
  A stored attribute list is settled for a requested name when the name is not one to
  resolve, or the first attribute of that name holds the vector resolved for it.
\<close>

definition attribute_settled ::
  "env \<Rightarrow> BL_DepsgraphObjectInstance \<Rightarrow> ParamValue list \<Rightarrow> string \<Rightarrow> bool" where
  "attribute_settled e b_instance attrs nm =
     (\<not> attribute_is_resolved e nm \<or>
      (case find_param nm attrs of
         None \<Rightarrow> False
       | Some i \<Rightarrow> pv_data (attrs ! i) = attribute_value e b_instance nm))"

text \<open>
  The pass driver: the arguments of a geometry sync call (the hair flag and the task pool);
  the calls that are made while instances are enumerated; the two calls that frame the
  turn of an instance, the culling initialisation at its start and the cancel poll at its
  end; whether an instance is shown (there is no viewport, or the object is visible in
  it); and the instances that the enumeration reaches when the cancel flag is polled after
  each of them, by the number of earlier polls: it stops after the first one whose poll
  finds the flag set.
\<close>

fun geometry_sync_args :: "event \<Rightarrow> (bool \<times> TaskPool option) option" where
  "geometry_sync_args (Sync_geometry a upd hair pool) = Some (hair, pool)"
| "geometry_sync_args (Sync_geometry_motion a t hair pool) = Some (hair, pool)"
| "geometry_sync_args ev = None"

fun enumeration_event :: "event \<Rightarrow> bool" where
  "enumeration_event (Sync_light a pid b c rid tfm) = True"
| "enumeration_event (Sync_geometry a upd hair pool) = True"
| "enumeration_event (Sync_geometry_motion a t hair pool) = True"
| "enumeration_event (Sync_dupli_particle a key) = True"
| "enumeration_event Tag_update_HOLDOUT_MODIFIED = True"
| "enumeration_event (Object_tag_update key) = True"
| "enumeration_event (Sync_procedural a) = True"
| "enumeration_event (Culling_init_object a) = True"
| "enumeration_event Progress_get_cancel = True"
| "enumeration_event ev = False"

fun turn_event :: "event \<Rightarrow> bool" where
  "turn_event (Culling_init_object a) = True"
| "turn_event Progress_get_cancel = True"
| "turn_event ev = False"

definition shown_in_viewport :: "bool \<Rightarrow> BL_DepsgraphObjectInstance \<Rightarrow> bool" where
  "shown_in_viewport b_v3d b_instance =
     (\<not> b_v3d \<or> visible_in_viewport_get (rna (object b_instance)))"

fun enumerated_until_cancel :: "(nat \<Rightarrow> bool) \<Rightarrow> nat \<Rightarrow> 'a list \<Rightarrow> 'a list" where
  "enumerated_until_cancel cancelled polls [] = []"
| "enumerated_until_cancel cancelled polls (x # xs) =
     x # (if cancelled polls then [] else enumerated_until_cancel cancelled (Suc polls) xs)"

text \<open>The cube hidden in the viewport.\<close>

definition hidden_cube :: BL_Object where
  "hidden_cube =
     BL_Object (cube_rna\<lparr>ptr_data := 5, ob_name := ''Hidden'',
                         visible_in_viewport_get := False\<rparr>) None"

text \<open>An environment in which every object has particle hair, and instances that show it.\<close>

definition hair_env :: env where
  "hair_env = example_env\<lparr>object_has_particle_hair := (\<lambda>b_ob. True)\<rparr>"

definition hairy_cube :: BL_DepsgraphObjectInstance where
  "hairy_cube = (instance_of cube)\<lparr>show_particles := True\<rparr>"

definition hairy_scattered_cube :: BL_DepsgraphObjectInstance where
  "hairy_scattered_cube = scattered_cube\<lparr>show_particles := True\<rparr>"

text \<open>An environment in which the first cancel poll finds the flag set.\<close>

definition cancel_env :: env where
  "cancel_env = example_env\<lparr>get_cancel := (\<lambda>polls. polls = 0)\<rparr>"

section \<open>Socket setters\<close>

lemma set_geometry_get [simp]:
  shows "get_geometry (set_geometry v ob) = v"
    and "name (set_geometry v ob) = name ob"
    and "attributes (set_geometry v ob) = attributes ob"
    and "get_use_holdout (set_geometry v ob) = get_use_holdout ob"
    and "get_visibility (set_geometry v ob) = get_visibility ob"
    and "get_is_shadow_catcher (set_geometry v ob) = get_is_shadow_catcher ob"
    and "get_shadow_terminator_offset (set_geometry v ob) = get_shadow_terminator_offset ob"
    and "get_asset_name (set_geometry v ob) = get_asset_name ob"
    and "get_pass_id (set_geometry v ob) = get_pass_id ob"
    and "get_color (set_geometry v ob) = get_color ob"
    and "get_tfm (set_geometry v ob) = get_tfm ob"
    and "get_motion (set_geometry v ob) = get_motion ob"
    and "get_dupli_generated (set_geometry v ob) = get_dupli_generated ob"
    and "get_dupli_uv (set_geometry v ob) = get_dupli_uv ob"
    and "get_random_id (set_geometry v ob) = get_random_id ob"
    and "get_particle (set_geometry v ob) = get_particle ob"
  by (simp_all add: set_geometry_def node_set_def)

lemma socket_modified_set_geometry:
  "socket_modified (set_geometry v ob) =
     (if get_geometry ob = v then socket_modified ob
      else insert SOCKET_geometry (socket_modified ob))"
  by (simp add: set_geometry_def node_set_def)

lemma set_geometry_same [simp]: "get_geometry ob = v \<Longrightarrow> set_geometry v ob = ob"
  by (simp add: set_geometry_def node_set_def)

lemma set_use_holdout_get [simp]:
  shows "get_use_holdout (set_use_holdout v ob) = v"
    and "name (set_use_holdout v ob) = name ob"
    and "attributes (set_use_holdout v ob) = attributes ob"
    and "get_geometry (set_use_holdout v ob) = get_geometry ob"
    and "get_visibility (set_use_holdout v ob) = get_visibility ob"
    and "get_is_shadow_catcher (set_use_holdout v ob) = get_is_shadow_catcher ob"
    and "get_shadow_terminator_offset (set_use_holdout v ob) = get_shadow_terminator_offset ob"
    and "get_asset_name (set_use_holdout v ob) = get_asset_name ob"
    and "get_pass_id (set_use_holdout v ob) = get_pass_id ob"
    and "get_color (set_use_holdout v ob) = get_color ob"
    and "get_tfm (set_use_holdout v ob) = get_tfm ob"
    and "get_motion (set_use_holdout v ob) = get_motion ob"
    and "get_dupli_generated (set_use_holdout v ob) = get_dupli_generated ob"
    and "get_dupli_uv (set_use_holdout v ob) = get_dupli_uv ob"
    and "get_random_id (set_use_holdout v ob) = get_random_id ob"
    and "get_particle (set_use_holdout v ob) = get_particle ob"
  by (simp_all add: set_use_holdout_def node_set_def)

lemma socket_modified_set_use_holdout:
  "socket_modified (set_use_holdout v ob) =
     (if get_use_holdout ob = v then socket_modified ob
      else insert SOCKET_use_holdout (socket_modified ob))"
  by (simp add: set_use_holdout_def node_set_def)

lemma set_use_holdout_same [simp]: "get_use_holdout ob = v \<Longrightarrow> set_use_holdout v ob = ob"
  by (simp add: set_use_holdout_def node_set_def)

lemma set_visibility_get [simp]:
  shows "get_visibility (set_visibility v ob) = v"
    and "name (set_visibility v ob) = name ob"
    and "attributes (set_visibility v ob) = attributes ob"
    and "get_geometry (set_visibility v ob) = get_geometry ob"
    and "get_use_holdout (set_visibility v ob) = get_use_holdout ob"
    and "get_is_shadow_catcher (set_visibility v ob) = get_is_shadow_catcher ob"
    and "get_shadow_terminator_offset (set_visibility v ob) = get_shadow_terminator_offset ob"
    and "get_asset_name (set_visibility v ob) = get_asset_name ob"
    and "get_pass_id (set_visibility v ob) = get_pass_id ob"
    and "get_color (set_visibility v ob) = get_color ob"
    and "get_tfm (set_visibility v ob) = get_tfm ob"
    and "get_motion (set_visibility v ob) = get_motion ob"
    and "get_dupli_generated (set_visibility v ob) = get_dupli_generated ob"
    and "get_dupli_uv (set_visibility v ob) = get_dupli_uv ob"
    and "get_random_id (set_visibility v ob) = get_random_id ob"
    and "get_particle (set_visibility v ob) = get_particle ob"
  by (simp_all add: set_visibility_def node_set_def)

lemma socket_modified_set_visibility:
  "socket_modified (set_visibility v ob) =
     (if get_visibility ob = v then socket_modified ob
      else insert SOCKET_visibility (socket_modified ob))"
  by (simp add: set_visibility_def node_set_def)

lemma set_visibility_same [simp]: "get_visibility ob = v \<Longrightarrow> set_visibility v ob = ob"
  by (simp add: set_visibility_def node_set_def)

lemma set_is_shadow_catcher_get [simp]:
  shows "get_is_shadow_catcher (set_is_shadow_catcher v ob) = v"
    and "name (set_is_shadow_catcher v ob) = name ob"
    and "attributes (set_is_shadow_catcher v ob) = attributes ob"
    and "get_geometry (set_is_shadow_catcher v ob) = get_geometry ob"
    and "get_use_holdout (set_is_shadow_catcher v ob) = get_use_holdout ob"
    and "get_visibility (set_is_shadow_catcher v ob) = get_visibility ob"
    and "get_shadow_terminator_offset (set_is_shadow_catcher v ob) = get_shadow_terminator_offset ob"
    and "get_asset_name (set_is_shadow_catcher v ob) = get_asset_name ob"
    and "get_pass_id (set_is_shadow_catcher v ob) = get_pass_id ob"
    and "get_color (set_is_shadow_catcher v ob) = get_color ob"
    and "get_tfm (set_is_shadow_catcher v ob) = get_tfm ob"
    and "get_motion (set_is_shadow_catcher v ob) = get_motion ob"
    and "get_dupli_generated (set_is_shadow_catcher v ob) = get_dupli_generated ob"
    and "get_dupli_uv (set_is_shadow_catcher v ob) = get_dupli_uv ob"
    and "get_random_id (set_is_shadow_catcher v ob) = get_random_id ob"
    and "get_particle (set_is_shadow_catcher v ob) = get_particle ob"
  by (simp_all add: set_is_shadow_catcher_def node_set_def)

lemma socket_modified_set_is_shadow_catcher:
  "socket_modified (set_is_shadow_catcher v ob) =
     (if get_is_shadow_catcher ob = v then socket_modified ob
      else insert SOCKET_is_shadow_catcher (socket_modified ob))"
  by (simp add: set_is_shadow_catcher_def node_set_def)

lemma set_is_shadow_catcher_same [simp]: "get_is_shadow_catcher ob = v \<Longrightarrow> set_is_shadow_catcher v ob = ob"
  by (simp add: set_is_shadow_catcher_def node_set_def)

lemma set_shadow_terminator_offset_get [simp]:
  shows "get_shadow_terminator_offset (set_shadow_terminator_offset v ob) = v"
    and "name (set_shadow_terminator_offset v ob) = name ob"
    and "attributes (set_shadow_terminator_offset v ob) = attributes ob"
    and "get_geometry (set_shadow_terminator_offset v ob) = get_geometry ob"
    and "get_use_holdout (set_shadow_terminator_offset v ob) = get_use_holdout ob"
    and "get_visibility (set_shadow_terminator_offset v ob) = get_visibility ob"
    and "get_is_shadow_catcher (set_shadow_terminator_offset v ob) = get_is_shadow_catcher ob"
    and "get_asset_name (set_shadow_terminator_offset v ob) = get_asset_name ob"
    and "get_pass_id (set_shadow_terminator_offset v ob) = get_pass_id ob"
    and "get_color (set_shadow_terminator_offset v ob) = get_color ob"
    and "get_tfm (set_shadow_terminator_offset v ob) = get_tfm ob"
    and "get_motion (set_shadow_terminator_offset v ob) = get_motion ob"
    and "get_dupli_generated (set_shadow_terminator_offset v ob) = get_dupli_generated ob"
    and "get_dupli_uv (set_shadow_terminator_offset v ob) = get_dupli_uv ob"
    and "get_random_id (set_shadow_terminator_offset v ob) = get_random_id ob"
    and "get_particle (set_shadow_terminator_offset v ob) = get_particle ob"
  by (simp_all add: set_shadow_terminator_offset_def node_set_def)

lemma socket_modified_set_shadow_terminator_offset:
  "socket_modified (set_shadow_terminator_offset v ob) =
     (if get_shadow_terminator_offset ob = v then socket_modified ob
      else insert SOCKET_shadow_terminator_offset (socket_modified ob))"
  by (simp add: set_shadow_terminator_offset_def node_set_def)

lemma set_shadow_terminator_offset_same [simp]: "get_shadow_terminator_offset ob = v \<Longrightarrow> set_shadow_terminator_offset v ob = ob"
  by (simp add: set_shadow_terminator_offset_def node_set_def)

lemma set_asset_name_get [simp]:
  shows "get_asset_name (set_asset_name v ob) = v"
    and "name (set_asset_name v ob) = name ob"
    and "attributes (set_asset_name v ob) = attributes ob"
    and "get_geometry (set_asset_name v ob) = get_geometry ob"
    and "get_use_holdout (set_asset_name v ob) = get_use_holdout ob"
    and "get_visibility (set_asset_name v ob) = get_visibility ob"
    and "get_is_shadow_catcher (set_asset_name v ob) = get_is_shadow_catcher ob"
    and "get_shadow_terminator_offset (set_asset_name v ob) = get_shadow_terminator_offset ob"
    and "get_pass_id (set_asset_name v ob) = get_pass_id ob"
    and "get_color (set_asset_name v ob) = get_color ob"
    and "get_tfm (set_asset_name v ob) = get_tfm ob"
    and "get_motion (set_asset_name v ob) = get_motion ob"
    and "get_dupli_generated (set_asset_name v ob) = get_dupli_generated ob"
    and "get_dupli_uv (set_asset_name v ob) = get_dupli_uv ob"
    and "get_random_id (set_asset_name v ob) = get_random_id ob"
    and "get_particle (set_asset_name v ob) = get_particle ob"
  by (simp_all add: set_asset_name_def node_set_def)

lemma socket_modified_set_asset_name:
  "socket_modified (set_asset_name v ob) =
     (if get_asset_name ob = v then socket_modified ob
      else insert SOCKET_asset_name (socket_modified ob))"
  by (simp add: set_asset_name_def node_set_def)

lemma set_asset_name_same [simp]: "get_asset_name ob = v \<Longrightarrow> set_asset_name v ob = ob"
  by (simp add: set_asset_name_def node_set_def)

lemma set_pass_id_get [simp]:
  shows "get_pass_id (set_pass_id v ob) = v"
    and "name (set_pass_id v ob) = name ob"
    and "attributes (set_pass_id v ob) = attributes ob"
    and "get_geometry (set_pass_id v ob) = get_geometry ob"
    and "get_use_holdout (set_pass_id v ob) = get_use_holdout ob"
    and "get_visibility (set_pass_id v ob) = get_visibility ob"
    and "get_is_shadow_catcher (set_pass_id v ob) = get_is_shadow_catcher ob"
    and "get_shadow_terminator_offset (set_pass_id v ob) = get_shadow_terminator_offset ob"
    and "get_asset_name (set_pass_id v ob) = get_asset_name ob"
    and "get_color (set_pass_id v ob) = get_color ob"
    and "get_tfm (set_pass_id v ob) = get_tfm ob"
    and "get_motion (set_pass_id v ob) = get_motion ob"
    and "get_dupli_generated (set_pass_id v ob) = get_dupli_generated ob"
    and "get_dupli_uv (set_pass_id v ob) = get_dupli_uv ob"
    and "get_random_id (set_pass_id v ob) = get_random_id ob"
    and "get_particle (set_pass_id v ob) = get_particle ob"
  by (simp_all add: set_pass_id_def node_set_def)

lemma socket_modified_set_pass_id:
  "socket_modified (set_pass_id v ob) =
     (if get_pass_id ob = v then socket_modified ob
      else insert SOCKET_pass_id (socket_modified ob))"
  by (simp add: set_pass_id_def node_set_def)

lemma set_pass_id_same [simp]: "get_pass_id ob = v \<Longrightarrow> set_pass_id v ob = ob"
  by (simp add: set_pass_id_def node_set_def)

lemma set_color_get [simp]:
  shows "get_color (set_color v ob) = v"
    and "name (set_color v ob) = name ob"
    and "attributes (set_color v ob) = attributes ob"
    and "get_geometry (set_color v ob) = get_geometry ob"
    and "get_use_holdout (set_color v ob) = get_use_holdout ob"
    and "get_visibility (set_color v ob) = get_visibility ob"
    and "get_is_shadow_catcher (set_color v ob) = get_is_shadow_catcher ob"
    and "get_shadow_terminator_offset (set_color v ob) = get_shadow_terminator_offset ob"
    and "get_asset_name (set_color v ob) = get_asset_name ob"
    and "get_pass_id (set_color v ob) = get_pass_id ob"
    and "get_tfm (set_color v ob) = get_tfm ob"
    and "get_motion (set_color v ob) = get_motion ob"
    and "get_dupli_generated (set_color v ob) = get_dupli_generated ob"
    and "get_dupli_uv (set_color v ob) = get_dupli_uv ob"
    and "get_random_id (set_color v ob) = get_random_id ob"
    and "get_particle (set_color v ob) = get_particle ob"
  by (simp_all add: set_color_def node_set_def)

lemma socket_modified_set_color:
  "socket_modified (set_color v ob) =
     (if get_color ob = v then socket_modified ob
      else insert SOCKET_color (socket_modified ob))"
  by (simp add: set_color_def node_set_def)

lemma set_color_same [simp]: "get_color ob = v \<Longrightarrow> set_color v ob = ob"
  by (simp add: set_color_def node_set_def)

lemma set_tfm_get [simp]:
  shows "get_tfm (set_tfm v ob) = v"
    and "name (set_tfm v ob) = name ob"
    and "attributes (set_tfm v ob) = attributes ob"
    and "get_geometry (set_tfm v ob) = get_geometry ob"
    and "get_use_holdout (set_tfm v ob) = get_use_holdout ob"
    and "get_visibility (set_tfm v ob) = get_visibility ob"
    and "get_is_shadow_catcher (set_tfm v ob) = get_is_shadow_catcher ob"
    and "get_shadow_terminator_offset (set_tfm v ob) = get_shadow_terminator_offset ob"
    and "get_asset_name (set_tfm v ob) = get_asset_name ob"
    and "get_pass_id (set_tfm v ob) = get_pass_id ob"
    and "get_color (set_tfm v ob) = get_color ob"
    and "get_motion (set_tfm v ob) = get_motion ob"
    and "get_dupli_generated (set_tfm v ob) = get_dupli_generated ob"
    and "get_dupli_uv (set_tfm v ob) = get_dupli_uv ob"
    and "get_random_id (set_tfm v ob) = get_random_id ob"
    and "get_particle (set_tfm v ob) = get_particle ob"
  by (simp_all add: set_tfm_def node_set_def)

lemma socket_modified_set_tfm:
  "socket_modified (set_tfm v ob) =
     (if get_tfm ob = v then socket_modified ob
      else insert SOCKET_tfm (socket_modified ob))"
  by (simp add: set_tfm_def node_set_def)

lemma set_tfm_same [simp]: "get_tfm ob = v \<Longrightarrow> set_tfm v ob = ob"
  by (simp add: set_tfm_def node_set_def)

lemma set_motion_get [simp]:
  shows "get_motion (set_motion v ob) = v"
    and "name (set_motion v ob) = name ob"
    and "attributes (set_motion v ob) = attributes ob"
    and "get_geometry (set_motion v ob) = get_geometry ob"
    and "get_use_holdout (set_motion v ob) = get_use_holdout ob"
    and "get_visibility (set_motion v ob) = get_visibility ob"
    and "get_is_shadow_catcher (set_motion v ob) = get_is_shadow_catcher ob"
    and "get_shadow_terminator_offset (set_motion v ob) = get_shadow_terminator_offset ob"
    and "get_asset_name (set_motion v ob) = get_asset_name ob"
    and "get_pass_id (set_motion v ob) = get_pass_id ob"
    and "get_color (set_motion v ob) = get_color ob"
    and "get_tfm (set_motion v ob) = get_tfm ob"
    and "get_dupli_generated (set_motion v ob) = get_dupli_generated ob"
    and "get_dupli_uv (set_motion v ob) = get_dupli_uv ob"
    and "get_random_id (set_motion v ob) = get_random_id ob"
    and "get_particle (set_motion v ob) = get_particle ob"
  by (simp_all add: set_motion_def node_set_def)

lemma socket_modified_set_motion:
  "socket_modified (set_motion v ob) =
     (if get_motion ob = v then socket_modified ob
      else insert SOCKET_motion (socket_modified ob))"
  by (simp add: set_motion_def node_set_def)

lemma set_motion_same [simp]: "get_motion ob = v \<Longrightarrow> set_motion v ob = ob"
  by (simp add: set_motion_def node_set_def)

lemma set_dupli_generated_get [simp]:
  shows "get_dupli_generated (set_dupli_generated v ob) = v"
    and "name (set_dupli_generated v ob) = name ob"
    and "attributes (set_dupli_generated v ob) = attributes ob"
    and "get_geometry (set_dupli_generated v ob) = get_geometry ob"
    and "get_use_holdout (set_dupli_generated v ob) = get_use_holdout ob"
    and "get_visibility (set_dupli_generated v ob) = get_visibility ob"
    and "get_is_shadow_catcher (set_dupli_generated v ob) = get_is_shadow_catcher ob"
    and "get_shadow_terminator_offset (set_dupli_generated v ob) = get_shadow_terminator_offset ob"
    and "get_asset_name (set_dupli_generated v ob) = get_asset_name ob"
    and "get_pass_id (set_dupli_generated v ob) = get_pass_id ob"
    and "get_color (set_dupli_generated v ob) = get_color ob"
    and "get_tfm (set_dupli_generated v ob) = get_tfm ob"
    and "get_motion (set_dupli_generated v ob) = get_motion ob"
    and "get_dupli_uv (set_dupli_generated v ob) = get_dupli_uv ob"
    and "get_random_id (set_dupli_generated v ob) = get_random_id ob"
    and "get_particle (set_dupli_generated v ob) = get_particle ob"
  by (simp_all add: set_dupli_generated_def node_set_def)

lemma socket_modified_set_dupli_generated:
  "socket_modified (set_dupli_generated v ob) =
     (if get_dupli_generated ob = v then socket_modified ob
      else insert SOCKET_dupli_generated (socket_modified ob))"
  by (simp add: set_dupli_generated_def node_set_def)

lemma set_dupli_generated_same [simp]: "get_dupli_generated ob = v \<Longrightarrow> set_dupli_generated v ob = ob"
  by (simp add: set_dupli_generated_def node_set_def)

lemma set_dupli_uv_get [simp]:
  shows "get_dupli_uv (set_dupli_uv v ob) = v"
    and "name (set_dupli_uv v ob) = name ob"
    and "attributes (set_dupli_uv v ob) = attributes ob"
    and "get_geometry (set_dupli_uv v ob) = get_geometry ob"
    and "get_use_holdout (set_dupli_uv v ob) = get_use_holdout ob"
    and "get_visibility (set_dupli_uv v ob) = get_visibility ob"
    and "get_is_shadow_catcher (set_dupli_uv v ob) = get_is_shadow_catcher ob"
    and "get_shadow_terminator_offset (set_dupli_uv v ob) = get_shadow_terminator_offset ob"
    and "get_asset_name (set_dupli_uv v ob) = get_asset_name ob"
    and "get_pass_id (set_dupli_uv v ob) = get_pass_id ob"
    and "get_color (set_dupli_uv v ob) = get_color ob"
    and "get_tfm (set_dupli_uv v ob) = get_tfm ob"
    and "get_motion (set_dupli_uv v ob) = get_motion ob"
    and "get_dupli_generated (set_dupli_uv v ob) = get_dupli_generated ob"
    and "get_random_id (set_dupli_uv v ob) = get_random_id ob"
    and "get_particle (set_dupli_uv v ob) = get_particle ob"
  by (simp_all add: set_dupli_uv_def node_set_def)

lemma socket_modified_set_dupli_uv:
  "socket_modified (set_dupli_uv v ob) =
     (if get_dupli_uv ob = v then socket_modified ob
      else insert SOCKET_dupli_uv (socket_modified ob))"
  by (simp add: set_dupli_uv_def node_set_def)

lemma set_dupli_uv_same [simp]: "get_dupli_uv ob = v \<Longrightarrow> set_dupli_uv v ob = ob"
  by (simp add: set_dupli_uv_def node_set_def)

lemma set_random_id_get [simp]:
  shows "get_random_id (set_random_id v ob) = v"
    and "name (set_random_id v ob) = name ob"
    and "attributes (set_random_id v ob) = attributes ob"
    and "get_geometry (set_random_id v ob) = get_geometry ob"
    and "get_use_holdout (set_random_id v ob) = get_use_holdout ob"
    and "get_visibility (set_random_id v ob) = get_visibility ob"
    and "get_is_shadow_catcher (set_random_id v ob) = get_is_shadow_catcher ob"
    and "get_shadow_terminator_offset (set_random_id v ob) = get_shadow_terminator_offset ob"
    and "get_asset_name (set_random_id v ob) = get_asset_name ob"
    and "get_pass_id (set_random_id v ob) = get_pass_id ob"
    and "get_color (set_random_id v ob) = get_color ob"
    and "get_tfm (set_random_id v ob) = get_tfm ob"
    and "get_motion (set_random_id v ob) = get_motion ob"
    and "get_dupli_generated (set_random_id v ob) = get_dupli_generated ob"
    and "get_dupli_uv (set_random_id v ob) = get_dupli_uv ob"
    and "get_particle (set_random_id v ob) = get_particle ob"
  by (simp_all add: set_random_id_def node_set_def)

lemma socket_modified_set_random_id:
  "socket_modified (set_random_id v ob) =
     (if get_random_id ob = v then socket_modified ob
      else insert SOCKET_random_id (socket_modified ob))"
  by (simp add: set_random_id_def node_set_def)

lemma set_random_id_same [simp]: "get_random_id ob = v \<Longrightarrow> set_random_id v ob = ob"
  by (simp add: set_random_id_def node_set_def)

lemma set_particle_get [simp]:
  shows "get_particle (set_particle v ob) = v"
    and "name (set_particle v ob) = name ob"
    and "attributes (set_particle v ob) = attributes ob"
    and "get_geometry (set_particle v ob) = get_geometry ob"
    and "get_use_holdout (set_particle v ob) = get_use_holdout ob"
    and "get_visibility (set_particle v ob) = get_visibility ob"
    and "get_is_shadow_catcher (set_particle v ob) = get_is_shadow_catcher ob"
    and "get_shadow_terminator_offset (set_particle v ob) = get_shadow_terminator_offset ob"
    and "get_asset_name (set_particle v ob) = get_asset_name ob"
    and "get_pass_id (set_particle v ob) = get_pass_id ob"
    and "get_color (set_particle v ob) = get_color ob"
    and "get_tfm (set_particle v ob) = get_tfm ob"
    and "get_motion (set_particle v ob) = get_motion ob"
    and "get_dupli_generated (set_particle v ob) = get_dupli_generated ob"
    and "get_dupli_uv (set_particle v ob) = get_dupli_uv ob"
    and "get_random_id (set_particle v ob) = get_random_id ob"
  by (simp_all add: set_particle_def node_set_def)

lemma socket_modified_set_particle:
  "socket_modified (set_particle v ob) =
     (if get_particle ob = v then socket_modified ob
      else insert SOCKET_particle (socket_modified ob))"
  by (simp add: set_particle_def node_set_def)

lemma set_particle_same [simp]: "get_particle ob = v \<Longrightarrow> set_particle v ob = ob"
  by (simp add: set_particle_def node_set_def)

lemmas socket_modified_set =
  socket_modified_set_geometry socket_modified_set_use_holdout socket_modified_set_visibility
  socket_modified_set_is_shadow_catcher socket_modified_set_shadow_terminator_offset socket_modified_set_asset_name
  socket_modified_set_pass_id socket_modified_set_color socket_modified_set_tfm
  socket_modified_set_motion socket_modified_set_dupli_generated socket_modified_set_dupli_uv
  socket_modified_set_random_id socket_modified_set_particle

lemma object_is_geometry_bearing: "object_is_geometry b_ob = is_geometry_bearing b_ob"
  by (auto simp: object_is_geometry_def is_geometry_bearing_def split: option.splits)

lemma sync_object_visibility_eq:
  "sync_object_visibility e b_ob b_parent =
     (holdout b_ob b_parent, visibility_mask e b_ob b_parent)"
  by (simp add: sync_object_visibility_def visibility_mask_def holdout_def Let_def)

lemma events_emit [simp]: "events (emit ev st) = events st @ [ev]"
  by (simp add: emit_def)

lemma emit_frame [simp]:
  "object_map (emit ev st) = object_map st"
  "object_map_used (emit ev st) = object_map_used st"
  "geometries (emit ev st) = geometries st"
  "motion_times (emit ev st) = motion_times st"
  "use_portal (emit ev st) = use_portal st"
  "cancel_polls (emit ev st) = cancel_polls st"
  by (simp_all add: emit_def)

lemma new_events_append [simp]: "events st' = events st @ evs \<Longrightarrow> new_events st st' = evs"
  by (simp add: new_events_def)

lemma new_events_same [simp]: "new_events st st = []"
  by (simp add: new_events_def)

text \<open>
  C3. For every requested attribute name and scope, the resolved vector is the first
  success of the ordered chain: for an instancer-scope attribute on an actual instance the
  particle-system settings (indexed name, then literal name) and then the instancing
  parent (same two forms); in every case then the object itself (indexed, literal) and the
  object's data block (indexed, literal); and the zero vector when every lookup fails.
\<close>

theorem lookup_instance_property_chain:
  "lookup_instance_property b_instance nm use_instancer =
     first_resolved (attribute_fallback_chain b_instance nm use_instancer)"
  by (simp add: lookup_instance_property_def attribute_fallback_chain_def or_else_def Let_def
           split: option.splits)


theorem lookup_instance_property_chain_witness:
  "lookup_instance_property scattered_cube ''foo'' True = make_float4 float_1 float_1 float_1 float_1 \<and>
   lookup_instance_property scattered_cube ''foo'' False = make_float4 (float_of_int 3) (float_of_int 3) (float_of_int 3) float_1 \<and>
   lookup_instance_property scattered_cube ''bar'' True = make_float4 float_0 float_0 float_0 float_0"
proof -
  have a: "first_resolved (attribute_fallback_chain scattered_cube ''foo'' True)
             = make_float4 float_1 float_1 float_1 float_1"
    by code_simp
  have b: "first_resolved (attribute_fallback_chain scattered_cube ''foo'' False)
             = make_float4 (float_of_int 3) (float_of_int 3) (float_of_int 3) float_1"
    by code_simp
  have c: "first_resolved (attribute_fallback_chain scattered_cube ''bar'' True)
             = make_float4 float_0 float_0 float_0 float_0"
    by code_simp
  show ?thesis
    using a b c
      lookup_instance_property_chain [of scattered_cube "''foo''" True]
      lookup_instance_property_chain [of scattered_cube "''foo''" False]
      lookup_instance_property_chain [of scattered_cube "''bar''" True]
    by simp
qed


section \<open>The stages of the object sync\<close>

lemma object_map_add_or_update_eq:
  "object_map_add_or_update e (object b_instance) (b_parent_of b_instance) key st =
     (entity_before e key st, created_or_moved e b_instance key st,
      st\<lparr>object_map := (object_map st)(key \<mapsto> entity_before e key st),
         object_map_used := insert key (object_map_used st)\<rparr>)"
proof (cases "object_map st key")
  case None
  then show ?thesis
    by (simp add: object_map_add_or_update_def object_map_find_def entity_before_def
          created_or_moved_def)
next
  case (Some ob)
  then have "(object_map st)(key \<mapsto> ob) = object_map st"
    by (simp add: fun_upd_idem)
  with Some show ?thesis
    by (simp add: object_map_add_or_update_def object_map_find_def entity_before_def
          created_or_moved_def)
qed

lemma sync_object_fields_eq:
  "sync_object_fields e b_instance use_particle_hair pool key H vis st =
     (let ob0 = entity_before e key st;
          recalc = (created_or_moved e b_instance key st);
          gs = sync_geometry e (b_ob_instance_of b_instance) recalc use_particle_hair pool
                 (geometries st);
          ar = sync_object_attributes e b_instance (needed_attributes (snd gs (fst gs)))
                 (attributes ob0);
          ob2 = set_use_holdout H ((set_geometry (Some (fst gs)) ob0)\<lparr>attributes := fst ar\<rparr>);
          st2 = emit (Sync_geometry (ptr_data (rna (b_ob_instance_of b_instance))) recalc
                        use_particle_hair pool)
                  (st\<lparr>object_map := (object_map st)(key \<mapsto> ob0),
                      object_map_used := insert key (object_map_used st),
                      geometries := snd gs\<rparr>)
      in (set_asset_name (asset_name (object b_instance))
            (set_shadow_terminator_offset
               (get_float (cycles (rna (object b_instance))) ''shadow_terminator_offset'')
               (set_is_shadow_catcher
                  (get_boolean (cycles (rna (object b_instance))) ''is_shadow_catcher'')
                  (set_visibility vis ob2))),
          recalc \<or> snd ar,
          if use_holdout_is_modified ob2 then emit Tag_update_HOLDOUT_MODIFIED st2 else st2))"
  by (simp add: sync_object_fields_def object_map_add_or_update_eq Let_def
           split: prod.splits)

lemma sync_object_motion_blur_frame:
  assumes "sync_object_motion_blur e b_parent b_ob tfm (ob, st) = (ob', st')"
  shows "object_map st' = object_map st"
    and "object_map_used st' = object_map_used st"
    and "use_portal st' = use_portal st"
    and "cancel_polls st' = cancel_polls st"
    and "events st' = events st"
  using assms
  by (auto simp: sync_object_motion_blur_def Let_def split: option.splits if_splits)

lemma sync_object_motion_blur_entity:
  assumes "sync_object_motion_blur e b_parent b_ob tfm (ob, st) = (ob', st')"
  shows "name ob' = name ob \<and> attributes ob' = attributes ob \<and>
         get_geometry ob' = get_geometry ob \<and> get_use_holdout ob' = get_use_holdout ob \<and>
         get_visibility ob' = get_visibility ob \<and>
         get_is_shadow_catcher ob' = get_is_shadow_catcher ob \<and>
         get_shadow_terminator_offset ob' = get_shadow_terminator_offset ob \<and>
         get_asset_name ob' = get_asset_name ob \<and> get_pass_id ob' = get_pass_id ob \<and>
         get_color ob' = get_color ob \<and> get_tfm ob' = get_tfm ob \<and>
         get_dupli_generated ob' = get_dupli_generated ob \<and>
         get_dupli_uv ob' = get_dupli_uv ob \<and> get_random_id ob' = get_random_id ob \<and>
         get_particle ob' = get_particle ob"
proof -
  have "ob' = ob \<or> (\<exists>m. ob' = set_motion m ob)"
    using assms
    by (auto simp: sync_object_motion_blur_def Let_def split: option.splits if_splits)
  then show ?thesis
    by (elim disjE exE) simp_all
qed

lemma sync_object_update_frame:
  assumes "sync_object_update e b_instance key tfm (ob, st) = (ob', st')"
  shows "object_map st' = object_map st"
    and "object_map_used st' = object_map_used st"
    and "use_portal st' = use_portal st"
    and "cancel_polls st' = cancel_polls st"
    and "events st' = events st @ [Object_tag_update key]"
  using assms
  by (auto simp: sync_object_update_def Let_def split: prod.splits
           dest: sync_object_motion_blur_frame)


lemma sync_object_update_entity:
  assumes "sync_object_update e b_instance key tfm (ob, st) = (ob', st')"
  shows "attributes ob' = attributes ob \<and> get_geometry ob' = get_geometry ob \<and>
         get_use_holdout ob' = get_use_holdout ob \<and> get_visibility ob' = get_visibility ob \<and>
         get_is_shadow_catcher ob' = get_is_shadow_catcher ob \<and>
         get_shadow_terminator_offset ob' = get_shadow_terminator_offset ob \<and>
         get_asset_name ob' = get_asset_name ob \<and> get_particle ob' = get_particle ob \<and>
         name ob' = ob_name (rna (object b_instance)) \<and>
         get_pass_id ob' = pass_index (rna (object b_instance)) \<and>
         get_color ob' = get_float3 e (ob_color (rna (object b_instance))) \<and>
         get_tfm ob' = tfm"
proof -
  define ob1 where
    "ob1 = set_motion []
             (set_tfm tfm
               (set_color (get_float3 e (ob_color (rna (object b_instance))))
                 (set_pass_id (pass_index (rna (object b_instance)))
                   (ob\<lparr>name := ob_name (rna (object b_instance))\<rparr>))))"
  obtain ob2 st1 where
    mb: "sync_object_motion_blur e (b_parent_of b_instance) (object b_instance) tfm (ob1, st)
           = (ob2, st1)"
    by (cases "sync_object_motion_blur e (b_parent_of b_instance) (object b_instance) tfm
                 (ob1, st)")
  note fr = sync_object_motion_blur_entity [OF mb]
  have "ob' = (if is_instance b_instance then
                 set_random_id (instance_random_id b_instance)
                   (set_dupli_uv (get_float2 e (uv b_instance))
                     (set_dupli_generated
                        (float3_sub (float3_scale (1 / 2) (get_float3 e (orco b_instance)))
                           (make_float3 (1 / 2) (1 / 2) (1 / 2)))
                        ob2))
               else
                 set_random_id (hash_uint2 e (hash_string e (name ob2)) 0)
                   (set_dupli_uv (make_float2 0 0)
                     (set_dupli_generated (make_float3 0 0 0) ob2)))"
    using assms mb by (simp add: sync_object_update_def Let_def ob1_def)
  then show ?thesis
    using fr by (cases "is_instance b_instance") (simp_all add: ob1_def)
qed

lemma sync_object_fields_entity:
  assumes "sync_object_fields e b_instance use_particle_hair pool key H vis st = (ob, upd, st')"
  shows "get_geometry ob =
           Some (fst (sync_geometry e (b_ob_instance_of b_instance) (created_or_moved e b_instance key st)
                        use_particle_hair pool (geometries st))) \<and>
         get_use_holdout ob = H \<and> get_visibility ob = vis \<and>
         get_is_shadow_catcher ob =
           get_boolean (cycles (rna (object b_instance))) ''is_shadow_catcher'' \<and>
         get_shadow_terminator_offset ob =
           get_float (cycles (rna (object b_instance))) ''shadow_terminator_offset'' \<and>
         get_asset_name ob = asset_name (object b_instance) \<and>
         object_map st' = (object_map st)(key \<mapsto> entity_before e key st)"
  using assms
  by (auto simp: sync_object_fields_eq Let_def)

lemma sync_object_full_result:
  assumes "sync_object_full e b_instance use_particle_hair pool key tfm H vis st = (r, st')"
  shows "\<exists>ob. r = Some ob \<and> object_map st' = (object_map st)(key \<mapsto> ob) \<and>
           get_geometry ob =
             Some (fst (sync_geometry e (b_ob_instance_of b_instance) (created_or_moved e b_instance key st)
                          use_particle_hair pool (geometries st))) \<and>
           get_use_holdout ob = H \<and> get_visibility ob = vis \<and>
           get_is_shadow_catcher ob =
             get_boolean (cycles (rna (object b_instance))) ''is_shadow_catcher'' \<and>
           get_shadow_terminator_offset ob =
             get_float (cycles (rna (object b_instance))) ''shadow_terminator_offset'' \<and>
           get_asset_name ob = asset_name (object b_instance)"
proof -
  obtain ob3 upd st3 where
    f: "sync_object_fields e b_instance use_particle_hair pool key H vis st = (ob3, upd, st3)"
    by (cases "sync_object_fields e b_instance use_particle_hair pool key H vis st")
  note f3 = sync_object_fields_entity [OF f]
  obtain ob4 st4 where
    u: "(if sync_object_changed ob3 upd (geometries st3) tfm
         then sync_object_update e b_instance key tfm (ob3, st3) else (ob3, st3)) = (ob4, st4)"
    by (cases "if sync_object_changed ob3 upd (geometries st3) tfm
               then sync_object_update e b_instance key tfm (ob3, st3) else (ob3, st3)")
  have u4: "get_geometry ob4 = get_geometry ob3 \<and> get_use_holdout ob4 = get_use_holdout ob3 \<and>
            get_visibility ob4 = get_visibility ob3 \<and>
            get_is_shadow_catcher ob4 = get_is_shadow_catcher ob3 \<and>
            get_shadow_terminator_offset ob4 = get_shadow_terminator_offset ob3 \<and>
            get_asset_name ob4 = get_asset_name ob3 \<and> object_map st4 = object_map st3"
  proof (cases "sync_object_changed ob3 upd (geometries st3) tfm")
    case True
    with u have "sync_object_update e b_instance key tfm (ob3, st3) = (ob4, st4)" by simp
    from sync_object_update_entity [OF this] sync_object_update_frame(1) [OF this]
    show ?thesis by simp
  next
    case False
    with u show ?thesis by simp
  qed
  have r: "(r, st') =
             (if is_instance b_instance then
                (Some (set_particle
                         (sync_dupli_particle e (b_parent_of b_instance) b_instance ob4) ob4),
                 emit (Sync_dupli_particle (ptr_data (rna (b_parent_of b_instance))) key)
                   (st4\<lparr>object_map := (object_map st4)(key \<mapsto>
                      set_particle
                        (sync_dupli_particle e (b_parent_of b_instance) b_instance ob4) ob4)\<rparr>))
              else (Some ob4, st4\<lparr>object_map := (object_map st4)(key \<mapsto> ob4)\<rparr>))"
    using assms f u
    by (cases "is_instance b_instance") (auto simp: sync_object_full_def Let_def)
  show ?thesis
    using r f3 u4 by (cases "is_instance b_instance") simp_all
qed


lemma sync_object_Skip:
  assumes "transition e b_instance t show_lights = Skip"
  shows "sync_object e b_instance t use_particle_hair show_lights task_pool st = (None, st)"
  using assms
  by (simp add: transition_def sync_object_def object_is_geometry_bearing
        sync_object_visibility_eq Let_def split: if_splits)

lemma sync_object_LightSync:
  assumes "transition e b_instance t show_lights = LightSync"
  shows "sync_object e b_instance t use_particle_hair show_lights task_pool st =
           (None,
            emit (Sync_light (ptr_data (rna (b_parent_of b_instance)))
                    (persistent_id_of b_instance) (ptr_data (rna (object b_instance)))
                    (ptr_data (rna (b_ob_instance_of b_instance)))
                    (if is_instance b_instance then instance_random_id b_instance else 0)
                    (object_tfm e b_instance))
              (st\<lparr>use_portal := sync_light e (object b_instance) (use_portal st)\<rparr>))"
  using assms
  by (simp add: transition_def sync_object_def Let_def split: if_splits)

lemma sync_object_MotionUpdate:
  assumes "transition e b_instance t show_lights = MotionUpdate"
  shows "sync_object e b_instance t use_particle_hair show_lights task_pool st =
           sync_object_motion e b_instance t use_particle_hair
             (if is_instance b_instance then None else task_pool)
             (object_key b_instance use_particle_hair) (object_tfm e b_instance) st"
  using assms
  by (simp add: transition_def sync_object_def object_is_geometry_bearing
        sync_object_visibility_eq Let_def split: if_splits)

lemma sync_object_FullSync:
  assumes "transition e b_instance t show_lights = FullSync"
  shows "sync_object e b_instance t use_particle_hair show_lights task_pool st =
           sync_object_full e b_instance use_particle_hair
             (if is_instance b_instance then None else task_pool)
             (object_key b_instance use_particle_hair) (object_tfm e b_instance)
             (holdout (object b_instance) (b_parent_of b_instance))
             (visibility_mask e (object b_instance) (b_parent_of b_instance)) st"
  using assms
  by (simp add: transition_def sync_object_def object_is_geometry_bearing
        sync_object_visibility_eq Let_def split: if_splits)

lemma transition_FullSync_base: "transition e b_instance t show_lights = FullSync \<Longrightarrow> t = 0"
  by (simp add: transition_def split: if_splits)

lemma transition_MotionUpdate_motion:
  "transition e b_instance t show_lights = MotionUpdate \<Longrightarrow> t \<noteq> 0"
  by (simp add: transition_def split: if_splits)

text \<open>
  C2. The visibility mask that \<open>sync_object\<close> computes is the composition of the
  specification: the object's ray-visibility flags intersected with the mask of all
  visibility kinds, intersected with the parent's flags when object and parent differ, and
  with the camera bit cleared exactly when indirect-only holds, that is when the parent is
  indirect-only and holdout does not hold. A full sync stores this mask on the entity. When
  both flag words are the mask of all kinds, holdout is off and indirect-only is on, the
  mask holds every visibility bit but the camera bits and nothing else.
\<close>

theorem sync_object_visibility_mask:
  "sync_object_visibility e b_ob b_parent =
     (holdout b_ob b_parent, visibility_mask e b_ob b_parent) \<and>
   visibility_mask e b_ob b_parent =
     (let inherited =
            (if ptr_data (rna b_parent) \<noteq> ptr_data (rna b_ob)
             then object_ray_visibility e b_ob AND PATH_RAY_ALL_VISIBILITY e AND
                  object_ray_visibility e b_parent
             else object_ray_visibility e b_ob AND PATH_RAY_ALL_VISIBILITY e)
      in if indirect_only_get (rna b_parent) \<and> \<not> holdout b_ob b_parent
         then inherited AND NOT (PATH_RAY_CAMERA e) else inherited) \<and>
   (transition e b_instance t show_lights = FullSync \<longrightarrow>
      map_option get_visibility
        (fst (sync_object e b_instance t use_particle_hair show_lights task_pool st)) =
      Some (visibility_mask e (object b_instance) (b_parent_of b_instance))) \<and>
   (object_ray_visibility e b_ob = PATH_RAY_ALL_VISIBILITY e \<and>
    object_ray_visibility e b_parent = PATH_RAY_ALL_VISIBILITY e \<and>
    \<not> holdout b_ob b_parent \<and> indirect_only_get (rna b_parent) \<longrightarrow>
      visibility_mask e b_ob b_parent = PATH_RAY_ALL_VISIBILITY e AND NOT (PATH_RAY_CAMERA e) \<and>
      (\<forall>n. bit (visibility_mask e b_ob b_parent) n =
            (bit (PATH_RAY_ALL_VISIBILITY e) n \<and> \<not> bit (PATH_RAY_CAMERA e) n)))"
proof (intro conjI impI)
  show "sync_object_visibility e b_ob b_parent =
          (holdout b_ob b_parent, visibility_mask e b_ob b_parent)"
    by (rule sync_object_visibility_eq)
  show "visibility_mask e b_ob b_parent =
     (let inherited =
            (if ptr_data (rna b_parent) \<noteq> ptr_data (rna b_ob)
             then object_ray_visibility e b_ob AND PATH_RAY_ALL_VISIBILITY e AND
                  object_ray_visibility e b_parent
             else object_ray_visibility e b_ob AND PATH_RAY_ALL_VISIBILITY e)
      in if indirect_only_get (rna b_parent) \<and> \<not> holdout b_ob b_parent
         then inherited AND NOT (PATH_RAY_CAMERA e) else inherited)"
    by (simp add: visibility_mask_def Let_def and.assoc)
next
  assume fs: "transition e b_instance t show_lights = FullSync"
  let ?f = "sync_object_full e b_instance use_particle_hair
              (if is_instance b_instance then None else task_pool)
              (object_key b_instance use_particle_hair) (object_tfm e b_instance)
              (holdout (object b_instance) (b_parent_of b_instance))
              (visibility_mask e (object b_instance) (b_parent_of b_instance)) st"
  have "?f = (fst ?f, snd ?f)" by simp
  from sync_object_full_result [OF this]
  have "map_option get_visibility (fst ?f) =
          Some (visibility_mask e (object b_instance) (b_parent_of b_instance))"
    by auto
  with fs show "map_option get_visibility
        (fst (sync_object e b_instance t use_particle_hair show_lights task_pool st)) =
      Some (visibility_mask e (object b_instance) (b_parent_of b_instance))"
    by (simp add: sync_object_FullSync)
next
  assume all: "object_ray_visibility e b_ob = PATH_RAY_ALL_VISIBILITY e \<and>
    object_ray_visibility e b_parent = PATH_RAY_ALL_VISIBILITY e \<and>
    \<not> holdout b_ob b_parent \<and> indirect_only_get (rna b_parent)"
  then show m: "visibility_mask e b_ob b_parent =
                  PATH_RAY_ALL_VISIBILITY e AND NOT (PATH_RAY_CAMERA e)"
    by (simp add: visibility_mask_def Let_def)
  show "\<forall>n. bit (visibility_mask e b_ob b_parent) n =
            (bit (PATH_RAY_ALL_VISIBILITY e) n \<and> \<not> bit (PATH_RAY_CAMERA e) n)"
    unfolding m by (auto simp: bit_and_iff bit_not_iff dest: bit_imp_le_length)
qed

theorem sync_object_visibility_mask_witness:
  "transition example_env (instance_of cube) 0 True = FullSync \<and>
   map_option get_visibility
     (fst (sync_object example_env (instance_of cube) 0 False True (Some geom_task_pool)
             empty_sync)) = Some 16383 \<and>
   visibility_mask example_env cube indirect_parent = 16382 \<and>
   bit (visibility_mask example_env cube indirect_parent) 0 = False \<and>
   bit (visibility_mask example_env cube indirect_parent) 1 = True"
proof -
  have a: "transition example_env (instance_of cube) 0 True = FullSync"
    by code_simp
  have b: "visibility_mask example_env (object (instance_of cube))
             (b_parent_of (instance_of cube)) = 16383"
    by code_simp
  have d: "object_ray_visibility example_env cube = PATH_RAY_ALL_VISIBILITY example_env \<and>
           object_ray_visibility example_env indirect_parent
             = PATH_RAY_ALL_VISIBILITY example_env \<and>
           \<not> holdout cube indirect_parent \<and> indirect_only_get (rna indirect_parent)"
    by code_simp
  have f: "PATH_RAY_ALL_VISIBILITY example_env AND NOT (PATH_RAY_CAMERA example_env) = 16382"
    by code_simp
  have g: "bit (PATH_RAY_ALL_VISIBILITY example_env) (0::nat) \<and>
           bit (PATH_RAY_CAMERA example_env) (0::nat) \<and>
           bit (PATH_RAY_ALL_VISIBILITY example_env) (1::nat) \<and>
           \<not> bit (PATH_RAY_CAMERA example_env) (1::nat)"
    by (simp add: example_env_def)
  note th = sync_object_visibility_mask [where e = example_env and b_ob = cube
        and b_parent = indirect_parent and b_instance = "instance_of cube" and t = 0
        and show_lights = True and use_particle_hair = False
        and task_pool = "Some geom_task_pool" and st = empty_sync]
  from th a b have 1: "map_option get_visibility
     (fst (sync_object example_env (instance_of cube) 0 False True (Some geom_task_pool)
             empty_sync)) = Some 16383"
    by (elim conjE) simp
  from th d have 2: "visibility_mask example_env cube indirect_parent =
      PATH_RAY_ALL_VISIBILITY example_env AND NOT (PATH_RAY_CAMERA example_env)"
    and 3: "\<forall>n. bit (visibility_mask example_env cube indirect_parent) n =
            (bit (PATH_RAY_ALL_VISIBILITY example_env) n \<and>
             \<not> bit (PATH_RAY_CAMERA example_env) n)"
    by (elim conjE, blast)+
  show ?thesis
    using a 1 2 3 [rule_format, of 0] 3 [rule_format, of 1] f g by simp
qed


section \<open>Attribute reconciliation\<close>

lemma delete_unneeded_append:
  "delete_unneeded requests (length xs) (xs @ ys, c) =
     (still_needed requests xs @ ys, c \<or> still_needed requests xs \<noteq> xs)"
proof (induction xs arbitrary: ys c rule: rev_induct)
  case Nil
  show ?case by (simp add: still_needed_def)
next
  case (snoc x xs)
  have len: "length (still_needed requests xs) \<le> length xs"
    by (simp add: still_needed_def)
  have neq: "still_needed requests xs \<noteq> xs @ [x]"
    using len by (metis length_append_singleton Suc_n_not_le_n)
  have app: "still_needed requests xs @ [x] = xs @ [x] \<longleftrightarrow> still_needed requests xs = xs"
    by simp
  show ?case
    using snoc.IH [of "x # ys" c] snoc.IH [of ys True] neq
    by (auto simp: requests_find_def nth_append still_needed_def)
qed

lemma delete_unneeded_eq:
  "delete_unneeded requests (length attrs) (attrs, c) =
     (still_needed requests attrs, c \<or> still_needed requests attrs \<noteq> attrs)"
  using delete_unneeded_append [of requests attrs "[]" c] by simp

lemma update_attribute_eq:
  "update_attribute e b_instance nm (attrs, c) =
     (if attribute_is_resolved e nm then
        (case find_param nm attrs of
           None \<Rightarrow> (attrs @ [ParamValue nm (attribute_value e b_instance nm)], True)
         | Some i \<Rightarrow>
             if pv_data (attrs ! i) \<noteq> attribute_value e b_instance nm
             then (attrs[i := ParamValue nm (attribute_value e b_instance nm)], True)
             else (attrs, c))
      else (attrs, c))"
  by (cases "blender_attribute_name_split_type e nm")
     (simp add: update_attribute_def attribute_is_resolved_def attribute_value_def Let_def
        split: option.splits)

lemma find_param_Some:
  "find_param nm attrs = Some i \<Longrightarrow> i < length attrs \<and> pv_name (attrs ! i) = nm"
  by (induction attrs arbitrary: i) (auto split: if_splits)

lemma find_param_None: "find_param nm attrs = None \<longleftrightarrow> nm \<notin> pv_name ` set attrs"
  by (induction attrs) auto

lemma find_param_names:
  "map pv_name attrs = map pv_name attrs' \<Longrightarrow> find_param nm attrs = find_param nm attrs'"
proof (induction attrs arbitrary: attrs')
  case Nil
  then show ?case by simp
next
  case (Cons p ps)
  then obtain q qs where "attrs' = q # qs" by (cases attrs') auto
  with Cons show ?case by auto
qed

lemma find_param_append:
  "find_param nm (attrs @ [p]) =
     (case find_param nm attrs of
        Some i \<Rightarrow> Some i
      | None \<Rightarrow> if pv_name p = nm then Some (length attrs) else None)"
  by (induction attrs) (auto split: option.splits)

lemma find_param_update:
  assumes "i < length attrs" and "pv_name p = pv_name (attrs ! i)"
  shows "find_param nm (attrs[i := p]) = find_param nm attrs"
proof (rule find_param_names)
  show "map pv_name (attrs[i := p]) = map pv_name attrs"
    using assms by (simp add: map_update list_update_same_conv)
qed


text \<open>
  What the loop over the requests keeps true, from the attributes \<open>A0\<close> it starts on:
  no attribute is dropped, and one that was there is as it was or holds, under its name,
  the vector resolved for that name, which differs from what it held.
\<close>

lemma update_attribute_kept:
  assumes inv: "length A0 \<le> length attrs"
      "\<And>i. i < length A0 \<Longrightarrow>
         attrs ! i = A0 ! i \<or>
         (attrs ! i = ParamValue (pv_name (A0 ! i)) (attribute_value e b_instance (pv_name (A0 ! i)))
          \<and> pv_data (A0 ! i) \<noteq> attribute_value e b_instance (pv_name (A0 ! i)))"
    and flag: "c = (c0 \<or> attrs \<noteq> A0)"
    and step: "update_attribute e b_instance nm (attrs, c) = (attrs', c')"
  shows "length A0 \<le> length attrs'"
    and "\<And>i. i < length A0 \<Longrightarrow>
         attrs' ! i = A0 ! i \<or>
         (attrs' ! i = ParamValue (pv_name (A0 ! i)) (attribute_value e b_instance (pv_name (A0 ! i)))
          \<and> pv_data (A0 ! i) \<noteq> attribute_value e b_instance (pv_name (A0 ! i)))"
    and "c' = (c0 \<or> attrs' \<noteq> A0)"
proof -
  let ?v = "attribute_value e b_instance nm"
  consider (same) "attrs' = attrs" "c' = c"
    | (push) "attribute_is_resolved e nm" "find_param nm attrs = None"
        "attrs' = attrs @ [ParamValue nm ?v]" "c'"
    | (rewrite) j where "attribute_is_resolved e nm" "find_param nm attrs = Some j"
        "pv_data (attrs ! j) \<noteq> ?v" "attrs' = attrs[j := ParamValue nm ?v]" "c'"
    using step by (auto simp: update_attribute_eq split: if_splits option.splits)
  then have "length A0 \<le> length attrs' \<and>
      (\<forall>i < length A0.
         attrs' ! i = A0 ! i \<or>
         (attrs' ! i = ParamValue (pv_name (A0 ! i)) (attribute_value e b_instance (pv_name (A0 ! i)))
          \<and> pv_data (A0 ! i) \<noteq> attribute_value e b_instance (pv_name (A0 ! i)))) \<and>
      c' = (c0 \<or> attrs' \<noteq> A0)"
  proof cases
    case same
    then show ?thesis using inv flag by simp
  next
    case push
    have "attrs @ [ParamValue nm ?v] \<noteq> A0"
      using inv(1) by (metis length_append_singleton Suc_n_not_le_n)
    then show ?thesis
      using push inv by (auto simp: nth_append)
  next
    case rewrite
    from find_param_Some [OF rewrite(2)]
    have j: "j < length attrs" and nmj: "pv_name (attrs ! j) = nm" by simp_all
    have neq: "attrs[j := ParamValue nm ?v] \<noteq> A0"
    proof (cases "j < length A0")
      case True
      from inv(2) [OF True] rewrite(3) nmj
      have "attrs ! j = A0 ! j" by auto
      with rewrite(3) have "pv_data ((attrs[j := ParamValue nm ?v]) ! j) \<noteq> pv_data (A0 ! j)"
        using j by simp
      then show ?thesis by auto
    next
      case False
      with j have "length (attrs[j := ParamValue nm ?v]) \<noteq> length A0" by simp
      then show ?thesis by auto
    qed
    have "attrs' ! i = A0 ! i \<or>
         (attrs' ! i = ParamValue (pv_name (A0 ! i)) (attribute_value e b_instance (pv_name (A0 ! i)))
          \<and> pv_data (A0 ! i) \<noteq> attribute_value e b_instance (pv_name (A0 ! i)))"
      if i: "i < length A0" for i
    proof (cases "i = j")
      case True
      from inv(2) [OF i] rewrite(3) nmj True
      have "attrs ! j = A0 ! j" by auto
      with True rewrite nmj j show ?thesis by auto
    next
      case False
      with inv(2) [OF i] rewrite(4) show ?thesis by simp
    qed
    with rewrite neq inv(1) show ?thesis by simp
  qed
  then show "length A0 \<le> length attrs'"
    and "\<And>i. i < length A0 \<Longrightarrow>
         attrs' ! i = A0 ! i \<or>
         (attrs' ! i = ParamValue (pv_name (A0 ! i)) (attribute_value e b_instance (pv_name (A0 ! i)))
          \<and> pv_data (A0 ! i) \<noteq> attribute_value e b_instance (pv_name (A0 ! i)))"
    and "c' = (c0 \<or> attrs' \<noteq> A0)"
    by blast+
qed

lemma fold_update_attribute_kept:
  assumes "length A0 \<le> length attrs"
      "\<And>i. i < length A0 \<Longrightarrow>
         attrs ! i = A0 ! i \<or>
         (attrs ! i = ParamValue (pv_name (A0 ! i)) (attribute_value e b_instance (pv_name (A0 ! i)))
          \<and> pv_data (A0 ! i) \<noteq> attribute_value e b_instance (pv_name (A0 ! i)))"
    and "c = (c0 \<or> attrs \<noteq> A0)"
    and "fold (update_attribute e b_instance) requests (attrs, c) = (attrs', c')"
  shows "length A0 \<le> length attrs' \<and>
      (\<forall>i < length A0.
         attrs' ! i = A0 ! i \<or>
         (attrs' ! i = ParamValue (pv_name (A0 ! i)) (attribute_value e b_instance (pv_name (A0 ! i)))
          \<and> pv_data (A0 ! i) \<noteq> attribute_value e b_instance (pv_name (A0 ! i)))) \<and>
      c' = (c0 \<or> attrs' \<noteq> A0)"
  using assms
proof (induction requests arbitrary: attrs c)
  case Nil
  then show ?case by auto
next
  case (Cons nm requests)
  obtain attrs1 c1 where
    s: "update_attribute e b_instance nm (attrs, c) = (attrs1, c1)"
    by (cases "update_attribute e b_instance nm (attrs, c)")
  note k = update_attribute_kept [OF Cons.prems(1) Cons.prems(2) Cons.prems(3) s]
  show ?case
    using Cons.IH [OF k(1) k(2) k(3)] Cons.prems(4) s by simp
qed


lemma update_attribute_cases:
  assumes "update_attribute e b_instance nm (attrs, c) = (attrs', c')"
  obtains (same) "attrs' = attrs" "c' = c" "attribute_settled e b_instance attrs nm"
    | (push) "attribute_is_resolved e nm" "find_param nm attrs = None"
        "attrs' = attrs @ [ParamValue nm (attribute_value e b_instance nm)]" "c'"
    | (rewrite) j where "attribute_is_resolved e nm" "find_param nm attrs = Some j"
        "pv_data (attrs ! j) \<noteq> attribute_value e b_instance nm"
        "attrs' = attrs[j := ParamValue nm (attribute_value e b_instance nm)]" "c'"
  using assms
  by (auto simp: update_attribute_eq attribute_settled_def split: if_splits option.splits)

lemma update_attribute_settles:
  assumes "update_attribute e b_instance nm (attrs, c) = (attrs', c')"
  shows "attribute_settled e b_instance attrs' nm"
  using assms
proof (cases rule: update_attribute_cases)
  case same
  then show ?thesis by simp
next
  case push
  then show ?thesis
    by (simp add: attribute_settled_def find_param_append)
next
  case (rewrite j)
  from find_param_Some [OF rewrite(2)]
  have j: "j < length attrs" "pv_name (attrs ! j) = nm" by simp_all
  then have "find_param nm attrs' = Some j"
    using rewrite by (simp add: find_param_update)
  then show ?thesis
    using rewrite j by (simp add: attribute_settled_def)
qed

lemma update_attribute_settled:
  assumes "update_attribute e b_instance nm (attrs, c) = (attrs', c')"
    and "attribute_settled e b_instance attrs nm'"
  shows "attribute_settled e b_instance attrs' nm'"
proof (cases "attribute_is_resolved e nm'")
  case False
  then show ?thesis by (simp add: attribute_settled_def)
next
  case True
  with assms(2) obtain i where
    i: "find_param nm' attrs = Some i"
       "pv_data (attrs ! i) = attribute_value e b_instance nm'"
    by (auto simp: attribute_settled_def split: option.splits)
  from find_param_Some [OF i(1)]
  have il: "i < length attrs" "pv_name (attrs ! i) = nm'" by simp_all
  from assms(1) show ?thesis
  proof (cases rule: update_attribute_cases)
    case same
    with assms(2) show ?thesis by simp
  next
    case push
    then show ?thesis
      using i il by (simp add: attribute_settled_def find_param_append nth_append)
  next
    case (rewrite j)
    from find_param_Some [OF rewrite(2)]
    have j: "j < length attrs" "pv_name (attrs ! j) = nm" by simp_all
    have f: "find_param nm' attrs' = Some i"
      using rewrite j i by (simp add: find_param_update)
    show ?thesis
    proof (cases "i = j")
      case True
      with il j have "nm' = nm" by simp
      with True f rewrite j show ?thesis
        by (simp add: attribute_settled_def)
    next
      case False
      with f rewrite i show ?thesis
        by (simp add: attribute_settled_def)
    qed
  qed
qed

lemma update_attribute_names:
  assumes "update_attribute e b_instance nm (attrs, c) = (attrs', c')"
  shows "pv_name ` set attrs' \<subseteq> insert nm (pv_name ` set attrs)"
  using assms
proof (cases rule: update_attribute_cases)
  case same
  then show ?thesis by auto
next
  case push
  then show ?thesis by auto
next
  case (rewrite j)
  from find_param_Some [OF rewrite(2)]
  have j: "j < length attrs" "pv_name (attrs ! j) = nm" by simp_all
  have "map pv_name attrs' = map pv_name attrs"
    using rewrite j by (simp add: map_update list_update_same_conv)
  then have "pv_name ` set attrs' = pv_name ` set attrs"
    by (metis list.set_map)
  then show ?thesis by auto
qed

lemma fold_update_attribute_settled:
  assumes "fold (update_attribute e b_instance) requests (attrs, c) = (attrs', c')"
  shows "(\<forall>nm \<in> set requests. attribute_settled e b_instance attrs' nm) \<and>
         (\<forall>nm. attribute_settled e b_instance attrs nm \<longrightarrow>
                attribute_settled e b_instance attrs' nm) \<and>
         pv_name ` set attrs' \<subseteq> set requests \<union> pv_name ` set attrs"
  using assms
proof (induction requests arbitrary: attrs c)
  case Nil
  then show ?case by auto
next
  case (Cons nm requests)
  obtain attrs1 c1 where
    s: "update_attribute e b_instance nm (attrs, c) = (attrs1, c1)"
    by (cases "update_attribute e b_instance nm (attrs, c)")
  with Cons.prems have
    f: "fold (update_attribute e b_instance) requests (attrs1, c1) = (attrs', c')"
    by simp
  note ih = Cons.IH [OF f]
  note a = update_attribute_settles [OF s]
  note b = update_attribute_settled [OF s]
  note n = update_attribute_names [OF s]
  have 1: "\<forall>x \<in> set (nm # requests). attribute_settled e b_instance attrs' x"
    using ih a by auto
  have 2: "\<forall>x. attribute_settled e b_instance attrs x \<longrightarrow>
               attribute_settled e b_instance attrs' x"
    using ih b by blast
  have "pv_name ` set attrs' \<subseteq> set requests \<union> pv_name ` set attrs1"
    using ih by blast
  with n have "pv_name ` set attrs' \<subseteq> set requests \<union> insert nm (pv_name ` set attrs)"
    by (meson Un_mono order_refl subset_trans)
  then have 3: "pv_name ` set attrs' \<subseteq> set (nm # requests) \<union> pv_name ` set attrs"
    by simp
  from 1 2 3 show ?case by blast
qed

lemma fold_update_attribute_stable:
  assumes "\<forall>nm \<in> set requests. attribute_settled e b_instance attrs nm"
  shows "fold (update_attribute e b_instance) requests (attrs, c) = (attrs, c)"
  using assms
proof (induction requests)
  case Nil
  show ?case by simp
next
  case (Cons nm requests)
  then have "attribute_settled e b_instance attrs nm" by simp
  then have "update_attribute e b_instance nm (attrs, c) = (attrs, c)"
    by (auto simp: update_attribute_eq attribute_settled_def split: option.splits)
  with Cons show ?case by simp
qed

lemma still_needed_names: "pv_name ` set (still_needed requests attrs) \<subseteq> set requests"
  by (auto simp: still_needed_def)

lemma still_needed_id:
  "pv_name ` set attrs \<subseteq> set requests \<Longrightarrow> still_needed requests attrs = attrs"
  by (auto simp: still_needed_def filter_id_conv)

lemma sync_object_attributes_fold:
  "sync_object_attributes e b_instance requests attrs =
     fold (update_attribute e b_instance) requests
       (still_needed requests attrs, still_needed requests attrs \<noteq> attrs)"
  by (simp add: sync_object_attributes_def delete_unneeded_eq)

lemma sync_object_attributes_names:
  "pv_name ` set (fst (sync_object_attributes e b_instance requests attrs)) \<subseteq> set requests"
proof -
  obtain attrs' c' where
    f: "fold (update_attribute e b_instance) requests
          (still_needed requests attrs, still_needed requests attrs \<noteq> attrs) = (attrs', c')"
    by (cases "fold (update_attribute e b_instance) requests
                 (still_needed requests attrs, still_needed requests attrs \<noteq> attrs)")
  from fold_update_attribute_settled [OF f] still_needed_names [of requests attrs]
  have "pv_name ` set attrs' \<subseteq> set requests" by blast
  with f show ?thesis by (simp add: sync_object_attributes_fold)
qed

lemma sync_object_attributes_settled:
  "\<forall>nm \<in> set requests.
     attribute_settled e b_instance (fst (sync_object_attributes e b_instance requests attrs)) nm"
proof -
  obtain attrs' c' where
    f: "fold (update_attribute e b_instance) requests
          (still_needed requests attrs, still_needed requests attrs \<noteq> attrs) = (attrs', c')"
    by (cases "fold (update_attribute e b_instance) requests
                 (still_needed requests attrs, still_needed requests attrs \<noteq> attrs)")
  from fold_update_attribute_settled [OF f]
  have "\<forall>nm \<in> set requests. attribute_settled e b_instance attrs' nm" by blast
  with f show ?thesis by (simp add: sync_object_attributes_fold)
qed

lemma sync_object_attributes_stable:
  assumes "pv_name ` set attrs \<subseteq> set requests"
    and "\<forall>nm \<in> set requests. attribute_settled e b_instance attrs nm"
  shows "sync_object_attributes e b_instance requests attrs = (attrs, False)"
  using assms
  by (simp add: sync_object_attributes_fold still_needed_id fold_update_attribute_stable)

lemma sync_object_attributes_again:
  "sync_object_attributes e b_instance requests
     (fst (sync_object_attributes e b_instance requests attrs)) =
   (fst (sync_object_attributes e b_instance requests attrs), False)"
  by (rule sync_object_attributes_stable
        [OF sync_object_attributes_names sync_object_attributes_settled])

lemma sync_object_attributes_kept:
  "length (still_needed requests attrs)
     \<le> length (fst (sync_object_attributes e b_instance requests attrs)) \<and>
   (\<forall>i < length (still_needed requests attrs).
      fst (sync_object_attributes e b_instance requests attrs) ! i
        = still_needed requests attrs ! i \<or>
      (fst (sync_object_attributes e b_instance requests attrs) ! i =
         ParamValue (pv_name (still_needed requests attrs ! i))
           (attribute_value e b_instance (pv_name (still_needed requests attrs ! i))) \<and>
       pv_data (still_needed requests attrs ! i) \<noteq>
         attribute_value e b_instance (pv_name (still_needed requests attrs ! i)))) \<and>
   snd (sync_object_attributes e b_instance requests attrs) =
     (fst (sync_object_attributes e b_instance requests attrs) \<noteq> attrs)"
proof -
  let ?A0 = "still_needed requests attrs"
  obtain attrs' c' where
    f: "fold (update_attribute e b_instance) requests (?A0, ?A0 \<noteq> attrs) = (attrs', c')"
    by (cases "fold (update_attribute e b_instance) requests (?A0, ?A0 \<noteq> attrs)")
  have k: "length ?A0 \<le> length attrs' \<and>
      (\<forall>i < length ?A0.
         attrs' ! i = ?A0 ! i \<or>
         (attrs' ! i = ParamValue (pv_name (?A0 ! i)) (attribute_value e b_instance (pv_name (?A0 ! i)))
          \<and> pv_data (?A0 ! i) \<noteq> attribute_value e b_instance (pv_name (?A0 ! i)))) \<and>
      c' = ((?A0 \<noteq> attrs) \<or> attrs' \<noteq> ?A0)"
    by (rule fold_update_attribute_kept [OF _ _ _ f]) simp_all
  have names: "pv_name ` set attrs' \<subseteq> set requests"
    using fold_update_attribute_settled [OF f] still_needed_names [of requests attrs]
    by blast
  have "c' = (attrs' \<noteq> attrs)"
  proof (cases "?A0 = attrs")
    case True
    with k show ?thesis by simp
  next
    case False
    then have "\<not> pv_name ` set attrs \<subseteq> set requests"
      using still_needed_id by blast
    with names have "attrs' \<noteq> attrs" by blast
    with False k show ?thesis by simp
  qed
  with k f show ?thesis
    by (simp add: sync_object_attributes_fold)
qed


text \<open>
  C7. Attribute reconciliation is minimal. Run again on the attributes it left, with the
  same requests and the same resolved vectors, \<open>sync_object_attributes\<close> returns false and
  leaves the stored sequence as it is. The flag it returns is true exactly when the stored
  sequence it leaves differs from the one it was given. Every attribute it leaves has a
  requested name: one whose name is no longer needed is removed. The attributes that stay
  keep their places, and each of them is as it was, or holds under its name the vector
  resolved for that name, which then differs from the vector it held. Vectors are compared
  as sequences of bytes: a stored \<open>+0.0f\<close> is rewritten by a resolved \<open>-0.0f\<close>.
\<close>

theorem sync_object_attributes_minimal:
  "sync_object_attributes e b_instance requests
     (fst (sync_object_attributes e b_instance requests attrs)) =
     (fst (sync_object_attributes e b_instance requests attrs), False) \<and>
   snd (sync_object_attributes e b_instance requests attrs) =
     (fst (sync_object_attributes e b_instance requests attrs) \<noteq> attrs) \<and>
   (\<forall>p \<in> set (fst (sync_object_attributes e b_instance requests attrs)).
      pv_name p \<in> set requests) \<and>
   length (still_needed requests attrs)
     \<le> length (fst (sync_object_attributes e b_instance requests attrs)) \<and>
   (\<forall>i < length (still_needed requests attrs).
      fst (sync_object_attributes e b_instance requests attrs) ! i
        = still_needed requests attrs ! i \<or>
      (fst (sync_object_attributes e b_instance requests attrs) ! i =
         ParamValue (pv_name (still_needed requests attrs ! i))
           (attribute_value e b_instance (pv_name (still_needed requests attrs ! i))) \<and>
       pv_data (still_needed requests attrs ! i) \<noteq>
         attribute_value e b_instance (pv_name (still_needed requests attrs ! i))))"
proof -
  have "\<forall>p \<in> set (fst (sync_object_attributes e b_instance requests attrs)).
          pv_name p \<in> set requests"
    using sync_object_attributes_names [of e b_instance requests attrs] by blast
  then show ?thesis
    using sync_object_attributes_again [of e b_instance requests attrs]
      sync_object_attributes_kept [of requests attrs e b_instance]
    by blast
qed

theorem sync_object_attributes_minimal_witness:
  "sync_object_attributes example_env scattered_cube [''object:foo'', ''uv'']
     [ParamValue ''old'' (make_float4 float_0 float_0 float_0 float_0),
      ParamValue ''object:foo'' (make_float4 float_0 float_0 float_0 float_0)]
     = ([ParamValue ''object:foo''
           (make_float4 (float_of_int 3) (float_of_int 3) (float_of_int 3) float_1)], True) \<and>
   sync_object_attributes example_env scattered_cube [''object:foo'', ''uv'']
     [ParamValue ''object:foo''
        (make_float4 (float_of_int 3) (float_of_int 3) (float_of_int 3) float_1)]
     = ([ParamValue ''object:foo''
           (make_float4 (float_of_int 3) (float_of_int 3) (float_of_int 3) float_1)], False) \<and>
   sync_object_attributes example_env minus_zero_cube [''object:foo'']
     [ParamValue ''object:foo'' (make_float4 float_0 float_0 float_0 float_1)]
     = ([ParamValue ''object:foo''
           (make_float4 float_minus_0 float_minus_0 float_minus_0 float_1)], True)"
proof -
  have a: "sync_object_attributes example_env scattered_cube [''object:foo'', ''uv'']
     [ParamValue ''old'' (make_float4 float_0 float_0 float_0 float_0),
      ParamValue ''object:foo'' (make_float4 float_0 float_0 float_0 float_0)]
     = ([ParamValue ''object:foo''
           (make_float4 (float_of_int 3) (float_of_int 3) (float_of_int 3) float_1)], True)"
    by code_simp
  have z: "sync_object_attributes example_env minus_zero_cube [''object:foo'']
     [ParamValue ''object:foo'' (make_float4 float_0 float_0 float_0 float_1)]
     = ([ParamValue ''object:foo''
           (make_float4 float_minus_0 float_minus_0 float_minus_0 float_1)], True)"
    by code_simp
  have "sync_object_attributes example_env scattered_cube [''object:foo'', ''uv'']
     [ParamValue ''object:foo''
        (make_float4 (float_of_int 3) (float_of_int 3) (float_of_int 3) float_1)]
     = ([ParamValue ''object:foo''
           (make_float4 (float_of_int 3) (float_of_int 3) (float_of_int 3) float_1)], False)"
    using sync_object_attributes_minimal [where e = example_env and b_instance = scattered_cube
        and requests = "[''object:foo'', ''uv'']"
        and attrs = "[ParamValue ''old'' (make_float4 float_0 float_0 float_0 float_0),
                      ParamValue ''object:foo'' (make_float4 float_0 float_0 float_0 float_0)]"]
    unfolding a by simp
  with a z show ?thesis by (intro conjI)
qed


section \<open>The motion pass\<close>

lemma motion_step_from_found:
  "0 \<le> motion_step_from ob t step n \<Longrightarrow>
     step \<le> nat (motion_step_from ob t step n) \<and>
     nat (motion_step_from ob t step n) < step + n \<and>
     motion_time ob (nat (motion_step_from ob t step n)) = t"
proof (induction n arbitrary: step)
  case 0
  then show ?case by simp
next
  case (Suc n)
  show ?case
  proof (cases "t = motion_time ob step")
    case True
    then show ?thesis by simp
  next
    case False
    with Suc.prems have "0 \<le> motion_step_from ob t (Suc step) n" by simp
    from Suc.IH [OF this] False show ?thesis by simp
  qed
qed

lemma motion_step_found:
  assumes "0 \<le> motion_step ob t"
  shows "use_motion ob \<and> nat (motion_step ob t) < length (get_motion ob) \<and>
         motion_time ob (nat (motion_step ob t)) = t"
proof -
  from assms have u: "use_motion ob"
    by (simp add: motion_step_def split: if_splits)
  with assms have "0 \<le> motion_step_from ob t 0 (length (get_motion ob))"
    by (simp add: motion_step_def)
  from motion_step_from_found [OF this] u show ?thesis
    by (simp add: motion_step_def)
qed

lemma motion_step_no_motion: "\<not> use_motion ob \<Longrightarrow> motion_step ob t = -1"
  by (simp add: motion_step_def)

lemma sync_object_motion_eq:
  "sync_object_motion e b_instance t use_particle_hair pool key tfm st =
     (case object_map st key of
        None \<Rightarrow> (None, st)
      | Some ob \<Rightarrow>
          (let ob' = (if 0 \<le> motion_step ob t
                      then set_motion ((get_motion ob)[nat (motion_step ob t) := tfm]) ob
                      else ob)
           in (Some ob',
               if use_motion ob then
                 (if get_geometry ob \<noteq> None then
                    emit (Sync_geometry_motion (ptr_data (rna (b_ob_instance_of b_instance))) t
                            use_particle_hair pool)
                      (st\<lparr>object_map := (object_map st)(key \<mapsto> ob'),
                          geometries :=
                            sync_geometry_motion e (b_ob_instance_of b_instance) ob' t
                              use_particle_hair pool (geometries st)\<rparr>)
                  else st\<lparr>object_map := (object_map st)(key \<mapsto> ob')\<rparr>)
               else st)))"
proof (cases "object_map st key")
  case None
  then show ?thesis
    by (simp add: sync_object_motion_def object_map_find_def)
next
  case (Some ob)
  show ?thesis
  proof (cases "use_motion ob")
    case True
    with Some show ?thesis
      by (simp add: sync_object_motion_def object_map_find_def Let_def)
  next
    case False
    then have "\<not> 0 \<le> motion_step ob t"
      by (simp add: motion_step_no_motion)
    with False Some show ?thesis
      by (simp add: sync_object_motion_def object_map_find_def Let_def)
  qed
qed


text \<open>
  C6. In a motion pass that reaches the motion update, \<open>sync_object\<close> looks the entity up
  without changing the map. On a miss it returns no entity and leaves the state as it is.
  On a hit it returns the entity, and the identity map differs at most at that key: no key
  is added, and the seen marks, the motion time set, the portal flag and the poll count
  are as before. The entity differs at most in its motion array and the flag of that
  socket: when \<open>motion_step\<close> of the pass's time is not negative, the sample at that index,
  which is inside the array and has that time as its offset, is set to the transform, and
  no other sample is touched; when it is negative nothing is written. The one outgoing call
  is the geometry's motion sync, made when the entity has the motion capability and a
  geometry; otherwise the geometry store is untouched.
\<close>

theorem sync_object_motion_pass:
  assumes "transition e b_instance t show_lights = MotionUpdate"
  shows
    "(let key = object_key b_instance use_particle_hair;
          tfm = object_tfm e b_instance;
          pool = (if is_instance b_instance then None else task_pool);
          r = sync_object e b_instance t use_particle_hair show_lights task_pool st
      in t \<noteq> 0 \<and>
         (case object_map st key of
            None \<Rightarrow> r = (None, st)
          | Some ob \<Rightarrow>
              (let idx = motion_step ob t;
                   ob' = (if 0 \<le> idx then set_motion ((get_motion ob)[nat idx := tfm]) ob
                          else ob)
               in fst r = Some ob' \<and>
                  object_map (snd r) = (object_map st)(key \<mapsto> ob') \<and>
                  dom (object_map (snd r)) = dom (object_map st) \<and>
                  object_map_used (snd r) = object_map_used st \<and>
                  motion_times (snd r) = motion_times st \<and>
                  use_portal (snd r) = use_portal st \<and>
                  cancel_polls (snd r) = cancel_polls st \<and>
                  new_events st (snd r) =
                    (if use_motion ob \<and> get_geometry ob \<noteq> None
                     then [Sync_geometry_motion (ptr_data (rna (b_ob_instance_of b_instance)))
                             t use_particle_hair pool]
                     else []) \<and>
                  (\<not> (use_motion ob \<and> get_geometry ob \<noteq> None) \<longrightarrow>
                     geometries (snd r) = geometries st) \<and>
                  ob'\<lparr>get_motion := get_motion ob, socket_modified := socket_modified ob\<rparr> = ob \<and>
                  get_motion ob' =
                    (if 0 \<le> idx then (get_motion ob)[nat idx := tfm] else get_motion ob) \<and>
                  (0 \<le> idx \<longrightarrow>
                     use_motion ob \<and> nat idx < length (get_motion ob) \<and>
                     motion_time ob (nat idx) = t))))"
proof -
  let ?key = "object_key b_instance use_particle_hair"
  let ?tfm = "object_tfm e b_instance"
  let ?pool = "if is_instance b_instance then None else task_pool"
  let ?r = "sync_object e b_instance t use_particle_hair show_lights task_pool st"
  have r: "?r = sync_object_motion e b_instance t use_particle_hair ?pool ?key ?tfm st"
    by (rule sync_object_MotionUpdate [OF assms])
  have t: "t \<noteq> 0"
    by (rule transition_MotionUpdate_motion [OF assms])
  show ?thesis
  proof (cases "object_map st ?key")
    case None
    then have "?r = (None, st)"
      unfolding r by (simp add: sync_object_motion_eq)
    with None t show ?thesis
      by (simp only: Let_def option.case simp_thms)
  next
    case (Some ob)
    define idx where "idx = motion_step ob t"
    define ob' where
      "ob' = (if 0 \<le> idx then set_motion ((get_motion ob)[nat idx := ?tfm]) ob else ob)"
    have found: "0 \<le> idx \<longrightarrow>
                   use_motion ob \<and> nat idx < length (get_motion ob) \<and>
                   motion_time ob (nat idx) = t"
      unfolding idx_def using motion_step_found [of ob t] by blast
    have still: "\<not> use_motion ob \<Longrightarrow> ob' = ob"
      unfolding ob'_def idx_def by (simp add: motion_step_no_motion)
    have frame: "ob'\<lparr>get_motion := get_motion ob, socket_modified := socket_modified ob\<rparr> = ob"
      unfolding ob'_def by (simp add: set_motion_def node_set_def)
    have motion: "get_motion ob' =
                    (if 0 \<le> idx then (get_motion ob)[nat idx := ?tfm] else get_motion ob)"
      unfolding ob'_def by simp
    have dom: "dom ((object_map st)(?key \<mapsto> ob')) = dom (object_map st)"
      using Some by auto
    have res: "?r =
                 (Some ob',
                  if use_motion ob then
                    (if get_geometry ob \<noteq> None then
                       emit (Sync_geometry_motion (ptr_data (rna (b_ob_instance_of b_instance)))
                               t use_particle_hair ?pool)
                         (st\<lparr>object_map := (object_map st)(?key \<mapsto> ob'),
                             geometries :=
                               sync_geometry_motion e (b_ob_instance_of b_instance) ob' t
                                 use_particle_hair ?pool (geometries st)\<rparr>)
                     else st\<lparr>object_map := (object_map st)(?key \<mapsto> ob')\<rparr>)
                  else st)"
      unfolding r ob'_def idx_def using Some by (simp add: sync_object_motion_eq Let_def)
    have fst_r: "fst ?r = Some ob'"
      unfolding res by simp
    have map_r: "object_map (snd ?r) = (object_map st)(?key \<mapsto> ob')"
    proof (cases "use_motion ob")
      case True
      then show ?thesis unfolding res by simp
    next
      case False
      with still Some have "(object_map st)(?key \<mapsto> ob') = object_map st"
        by (simp add: fun_upd_idem)
      with False show ?thesis unfolding res by simp
    qed
    have dom_r: "dom (object_map (snd ?r)) = dom (object_map st)"
      unfolding map_r by (rule dom)
    have rest: "object_map_used (snd ?r) = object_map_used st \<and>
                motion_times (snd ?r) = motion_times st \<and>
                use_portal (snd ?r) = use_portal st \<and>
                cancel_polls (snd ?r) = cancel_polls st"
      unfolding res by simp
    have ev: "new_events st (snd ?r) =
                (if use_motion ob \<and> get_geometry ob \<noteq> None
                 then [Sync_geometry_motion (ptr_data (rna (b_ob_instance_of b_instance)))
                         t use_particle_hair ?pool]
                 else [])"
      unfolding res by simp
    have geo: "\<not> (use_motion ob \<and> get_geometry ob \<noteq> None) \<longrightarrow>
                 geometries (snd ?r) = geometries st"
      unfolding res by auto
    have "fst ?r = Some ob' \<and>
          object_map (snd ?r) = (object_map st)(?key \<mapsto> ob') \<and>
          dom (object_map (snd ?r)) = dom (object_map st) \<and>
          object_map_used (snd ?r) = object_map_used st \<and>
          motion_times (snd ?r) = motion_times st \<and>
          use_portal (snd ?r) = use_portal st \<and>
          cancel_polls (snd ?r) = cancel_polls st \<and>
          new_events st (snd ?r) =
            (if use_motion ob \<and> get_geometry ob \<noteq> None
             then [Sync_geometry_motion (ptr_data (rna (b_ob_instance_of b_instance)))
                     t use_particle_hair ?pool]
             else []) \<and>
          (\<not> (use_motion ob \<and> get_geometry ob \<noteq> None) \<longrightarrow>
             geometries (snd ?r) = geometries st) \<and>
          ob'\<lparr>get_motion := get_motion ob, socket_modified := socket_modified ob\<rparr> = ob \<and>
          get_motion ob' =
            (if 0 \<le> idx then (get_motion ob)[nat idx := ?tfm] else get_motion ob) \<and>
          (0 \<le> idx \<longrightarrow>
             use_motion ob \<and> nat idx < length (get_motion ob) \<and>
             motion_time ob (nat idx) = t)"
      using fst_r map_r dom_r rest ev geo frame motion found by blast
    then show ?thesis
      unfolding Let_def Some option.case ob'_def idx_def using t by blast
  qed
qed


theorem sync_object_motion_pass_witness:
  "transition example_env (instance_of cube) 1 True = MotionUpdate \<and>
   object_map cube_synced (object_key (instance_of cube) False) = Some cube_entity \<and>
   motion_step cube_entity 1 = 2 \<and>
   map_option get_motion
     (fst (sync_object example_env (instance_of cube) 1 False True (Some geom_task_pool)
             cube_synced))
     = Some [zero_transform, identity_transform, identity_transform] \<and>
   dom (object_map
          (snd (sync_object example_env (instance_of cube) 1 False True (Some geom_task_pool)
                  cube_synced))) = {cube_key}"
proof -
  have a: "transition example_env (instance_of cube) 1 True = MotionUpdate"
    by code_simp
  have b: "object_map cube_synced (object_key (instance_of cube) False) = Some cube_entity"
    by code_simp
  have c: "motion_step cube_entity 1 = 2"
    by code_simp
  have d: "object_tfm example_env (instance_of cube) = identity_transform"
    by code_simp
  have f: "get_motion cube_entity = [zero_transform, identity_transform, zero_transform]"
    by (simp add: cube_entity_def)
  have g: "dom (object_map cube_synced) = {cube_key}"
    by (simp add: cube_synced_def)
  have h: "object_key (instance_of cube) False = cube_key"
    by code_simp
  note th = sync_object_motion_pass [OF a, where use_particle_hair = False
              and task_pool = "Some geom_task_pool" and st = cube_synced]
  show ?thesis
    using th a b c
    by (simp add: Let_def d f g h)
qed


section \<open>The full sync\<close>

lemma use_holdout_is_modified_after:
  "use_holdout_is_modified (set_use_holdout H ((set_geometry g ob0)\<lparr>attributes := a\<rparr>)) \<longleftrightarrow>
     get_use_holdout ob0 \<noteq> H \<or> SOCKET_use_holdout \<in> socket_modified ob0"
  by (simp add: use_holdout_is_modified_def set_use_holdout_def set_geometry_def node_set_def)

lemma sync_object_fields_state:
  assumes "sync_object_fields e b_instance use_particle_hair pool key H vis st = (ob3, upd, st3)"
  shows "events st3 =
           events st @
           [Sync_geometry (ptr_data (rna (b_ob_instance_of b_instance)))
              (created_or_moved e b_instance key st) use_particle_hair pool] @
           (if get_use_holdout (entity_before e key st) \<noteq> H \<or>
               SOCKET_use_holdout \<in> socket_modified (entity_before e key st)
            then [Tag_update_HOLDOUT_MODIFIED] else []) \<and>
         geometries st3 =
           snd (sync_geometry e (b_ob_instance_of b_instance) (created_or_moved e b_instance key st)
                  use_particle_hair pool (geometries st)) \<and>
         motion_times st3 = motion_times st \<and>
         object_map_used st3 = insert key (object_map_used st) \<and>
         use_portal st3 = use_portal st \<and> cancel_polls st3 = cancel_polls st"
proof -
  let ?st2 = "emit (Sync_geometry (ptr_data (rna (b_ob_instance_of b_instance)))
                      (created_or_moved e b_instance key st) use_particle_hair pool)
                (st\<lparr>object_map := (object_map st)(key \<mapsto> entity_before e key st),
                    object_map_used := insert key (object_map_used st),
                    geometries :=
                      snd (sync_geometry e (b_ob_instance_of b_instance)
                             (created_or_moved e b_instance key st) use_particle_hair pool
                             (geometries st))\<rparr>)"
  have "st3 = (if get_use_holdout (entity_before e key st) \<noteq> H \<or>
                  SOCKET_use_holdout \<in> socket_modified (entity_before e key st)
               then emit Tag_update_HOLDOUT_MODIFIED ?st2 else ?st2)"
    using assms
    by (simp add: sync_object_fields_eq Let_def use_holdout_is_modified_after)
  then show ?thesis
    by (cases "get_use_holdout (entity_before e key st) \<noteq> H \<or>
               SOCKET_use_holdout \<in> socket_modified (entity_before e key st)") simp_all
qed


lemma sync_object_fields_rest:
  assumes "sync_object_fields e b_instance use_particle_hair pool key H vis st = (ob3, upd, st3)"
  shows "name ob3 = name (entity_before e key st) \<and>
         get_pass_id ob3 = get_pass_id (entity_before e key st) \<and>
         get_color ob3 = get_color (entity_before e key st) \<and>
         get_tfm ob3 = get_tfm (entity_before e key st) \<and>
         get_motion ob3 = get_motion (entity_before e key st) \<and>
         get_dupli_generated ob3 = get_dupli_generated (entity_before e key st) \<and>
         get_dupli_uv ob3 = get_dupli_uv (entity_before e key st) \<and>
         get_random_id ob3 = get_random_id (entity_before e key st) \<and>
         get_particle ob3 = get_particle (entity_before e key st) \<and>
         attributes ob3 =
           fst (sync_object_attributes e b_instance
                  (needed_attributes
                     (snd (sync_geometry e (b_ob_instance_of b_instance)
                             (created_or_moved e b_instance key st) use_particle_hair pool (geometries st))
                        (fst (sync_geometry e (b_ob_instance_of b_instance)
                                (created_or_moved e b_instance key st) use_particle_hair pool
                                (geometries st)))))
                  (attributes (entity_before e key st))) \<and>
         upd = (created_or_moved e b_instance key st \<or>
                snd (sync_object_attributes e b_instance
                  (needed_attributes
                     (snd (sync_geometry e (b_ob_instance_of b_instance)
                             (created_or_moved e b_instance key st) use_particle_hair pool (geometries st))
                        (fst (sync_geometry e (b_ob_instance_of b_instance)
                                (created_or_moved e b_instance key st) use_particle_hair pool
                                (geometries st)))))
                  (attributes (entity_before e key st))))"
  using assms
  by (auto simp: sync_object_fields_eq Let_def)


lemma sync_object_full_split:
  assumes "sync_object_fields e b_instance use_particle_hair pool key H vis st = (ob3, upd, st3)"
    and "(if sync_object_changed ob3 upd (geometries st3) tfm
          then sync_object_update e b_instance key tfm (ob3, st3) else (ob3, st3)) = (ob4, st4)"
  shows "sync_object_full e b_instance use_particle_hair pool key tfm H vis st =
           (if is_instance b_instance then
              (Some (set_particle
                       (sync_dupli_particle e (b_parent_of b_instance) b_instance ob4) ob4),
               emit (Sync_dupli_particle (ptr_data (rna (b_parent_of b_instance))) key)
                 (st4\<lparr>object_map := (object_map st4)(key \<mapsto>
                    set_particle
                      (sync_dupli_particle e (b_parent_of b_instance) b_instance ob4) ob4)\<rparr>))
            else (Some ob4, st4\<lparr>object_map := (object_map st4)(key \<mapsto> ob4)\<rparr>))"
  using assms
  by (cases "is_instance b_instance") (auto simp: sync_object_full_def Let_def)


lemma sync_object_full_events:
  assumes f: "sync_object_fields e b_instance use_particle_hair pool key H vis st
                = (ob3, upd, st3)"
  shows "events (snd (sync_object_full e b_instance use_particle_hair pool key tfm H vis st)) =
           events st @
           [Sync_geometry (ptr_data (rna (b_ob_instance_of b_instance)))
              (created_or_moved e b_instance key st) use_particle_hair pool] @
           (if get_use_holdout (entity_before e key st) \<noteq> H \<or>
               SOCKET_use_holdout \<in> socket_modified (entity_before e key st)
            then [Tag_update_HOLDOUT_MODIFIED] else []) @
           (if sync_object_changed ob3 upd (geometries st3) tfm
            then [Object_tag_update key] else []) @
           (if is_instance b_instance
            then [Sync_dupli_particle (ptr_data (rna (b_parent_of b_instance))) key] else [])"
proof -
  obtain ob4 st4 where
    u: "(if sync_object_changed ob3 upd (geometries st3) tfm
         then sync_object_update e b_instance key tfm (ob3, st3) else (ob3, st3)) = (ob4, st4)"
    by (cases "if sync_object_changed ob3 upd (geometries st3) tfm
               then sync_object_update e b_instance key tfm (ob3, st3) else (ob3, st3)")
  have e4: "events st4 =
              events st3 @
              (if sync_object_changed ob3 upd (geometries st3) tfm
               then [Object_tag_update key] else [])"
  proof (cases "sync_object_changed ob3 upd (geometries st3) tfm")
    case True
    with u have "sync_object_update e b_instance key tfm (ob3, st3) = (ob4, st4)" by simp
    from sync_object_update_frame(5) [OF this] True show ?thesis by simp
  next
    case False
    with u show ?thesis by simp
  qed
  have e3: "events st3 =
           events st @
           [Sync_geometry (ptr_data (rna (b_ob_instance_of b_instance)))
              (created_or_moved e b_instance key st) use_particle_hair pool] @
           (if get_use_holdout (entity_before e key st) \<noteq> H \<or>
               SOCKET_use_holdout \<in> socket_modified (entity_before e key st)
            then [Tag_update_HOLDOUT_MODIFIED] else [])"
    using sync_object_fields_state [OF f] by blast
  show ?thesis
    unfolding sync_object_full_split [OF f u]
    by (cases "is_instance b_instance") (simp_all add: e4 e3)
qed


text \<open>
  C10, amended. On every call in the base pass that reaches the full sync, the entity that
  \<open>sync_object\<close> returns, which is the one the map holds at the key, has the geometry that
  geometry sync handed back, the holdout flag, the visibility mask, the shadow-catcher flag,
  the shadow-terminator offset and the asset name of this call, whatever the test of the
  object sync block says. The holdout tag is raised exactly when the holdout socket is
  flagged after the write: when the written flag differs from the stored one, or the socket
  was flagged already.
\<close>

theorem sync_object_unconditional_fields:
  assumes "transition e b_instance t show_lights = FullSync"
  shows
    "(let key = object_key b_instance use_particle_hair;
          pool = (if is_instance b_instance then None else task_pool);
          ob0 = entity_before e key st;
          H = holdout (object b_instance) (b_parent_of b_instance);
          r = sync_object e b_instance t use_particle_hair show_lights task_pool st
      in t = 0 \<and>
         (\<exists>ob. fst r = Some ob \<and> object_map (snd r) key = Some ob \<and>
            get_geometry ob =
              Some (fst (sync_geometry e (b_ob_instance_of b_instance)
                           (created_or_moved e b_instance key st) use_particle_hair pool (geometries st))) \<and>
            get_use_holdout ob = H \<and>
            get_visibility ob = visibility_mask e (object b_instance) (b_parent_of b_instance) \<and>
            get_is_shadow_catcher ob =
              get_boolean (cycles (rna (object b_instance))) ''is_shadow_catcher'' \<and>
            get_shadow_terminator_offset ob =
              get_float (cycles (rna (object b_instance))) ''shadow_terminator_offset'' \<and>
            get_asset_name ob = asset_name (object b_instance)) \<and>
         (Tag_update_HOLDOUT_MODIFIED \<in> set (new_events st (snd r)) \<longleftrightarrow>
            get_use_holdout ob0 \<noteq> H \<or> SOCKET_use_holdout \<in> socket_modified ob0))"
proof -
  let ?key = "object_key b_instance use_particle_hair"
  let ?pool = "if is_instance b_instance then None else task_pool"
  let ?H = "holdout (object b_instance) (b_parent_of b_instance)"
  let ?vis = "visibility_mask e (object b_instance) (b_parent_of b_instance)"
  let ?tfm = "object_tfm e b_instance"
  let ?r = "sync_object e b_instance t use_particle_hair show_lights task_pool st"
  let ?f = "sync_object_full e b_instance use_particle_hair ?pool ?key ?tfm ?H ?vis st"
  have r: "?r = ?f"
    by (rule sync_object_FullSync [OF assms])
  have t: "t = 0"
    by (rule transition_FullSync_base [OF assms])
  have "?f = (fst ?f, snd ?f)" by simp
  from sync_object_full_result [OF this]
  have ent: "\<exists>ob. fst ?f = Some ob \<and> object_map (snd ?f) ?key = Some ob \<and>
            get_geometry ob =
              Some (fst (sync_geometry e (b_ob_instance_of b_instance)
                           (created_or_moved e b_instance ?key st) use_particle_hair ?pool (geometries st))) \<and>
            get_use_holdout ob = ?H \<and> get_visibility ob = ?vis \<and>
            get_is_shadow_catcher ob =
              get_boolean (cycles (rna (object b_instance))) ''is_shadow_catcher'' \<and>
            get_shadow_terminator_offset ob =
              get_float (cycles (rna (object b_instance))) ''shadow_terminator_offset'' \<and>
            get_asset_name ob = asset_name (object b_instance)"
    by auto
  obtain ob3 upd st3 where
    f: "sync_object_fields e b_instance use_particle_hair ?pool ?key ?H ?vis st = (ob3, upd, st3)"
    by (cases "sync_object_fields e b_instance use_particle_hair ?pool ?key ?H ?vis st")
  have tag: "Tag_update_HOLDOUT_MODIFIED \<in> set (new_events st (snd ?f)) \<longleftrightarrow>
               get_use_holdout (entity_before e ?key st) \<noteq> ?H \<or>
               SOCKET_use_holdout \<in> socket_modified (entity_before e ?key st)"
    unfolding new_events_def sync_object_full_events [OF f, of ?tfm] by simp
  show ?thesis
    unfolding Let_def r by (intro conjI) (rule t, rule ent, rule tag)
qed


theorem sync_object_unconditional_fields_witness:
  "transition example_env (instance_of cube) 0 True = FullSync \<and>
   map_option get_asset_name
     (fst (sync_object example_env (instance_of cube) 0 False True (Some geom_task_pool)
             cube_synced)) = Some ''Cube'' \<and>
   map_option get_visibility
     (fst (sync_object example_env (instance_of cube) 0 False True (Some geom_task_pool)
             cube_synced)) = Some 16383 \<and>
   Tag_update_HOLDOUT_MODIFIED \<notin>
     set (new_events cube_synced
            (snd (sync_object example_env (instance_of cube) 0 False True
                    (Some geom_task_pool) cube_synced))) \<and>
   Object_tag_update cube_key \<notin>
     set (new_events cube_synced
            (snd (sync_object example_env (instance_of cube) 0 False True
                    (Some geom_task_pool) cube_synced)))"
proof -
  have a: "transition example_env (instance_of cube) 0 True = FullSync"
    by code_simp
  have b: "asset_name (object (instance_of cube)) = ''Cube''"
    by code_simp
  have c: "visibility_mask example_env (object (instance_of cube))
             (b_parent_of (instance_of cube)) = 16383"
    by code_simp
  have d: "entity_before example_env (object_key (instance_of cube) False) cube_synced
             = cube_entity"
    by (simp add: entity_before_def cube_synced_def object_key_def instance_of_def
          b_parent_of_def b_ob_instance_of_def persistent_id_of_def cube_def cube_rna_def
          cube_key_def)
  have f: "\<not> holdout (object (instance_of cube)) (b_parent_of (instance_of cube))"
    by code_simp
  have g: "\<not> get_use_holdout cube_entity \<and> socket_modified cube_entity = {}"
    by (simp add: cube_entity_def)
  have h: "Object_tag_update cube_key \<notin>
     set (new_events cube_synced
            (snd (sync_object example_env (instance_of cube) 0 False True
                    (Some geom_task_pool) cube_synced)))"
    by code_simp
  note th = sync_object_unconditional_fields [OF a, where use_particle_hair = False
              and task_pool = "Some geom_task_pool" and st = cube_synced]
  show ?thesis
    using th a h unfolding Let_def d by (auto simp: b c f g)
qed

theorem holdout_tag_counterexample:
  "transition example_env (instance_of holdout_cube) 0 True = FullSync \<and>
   map_option get_use_holdout (object_map cube_holdout_synced cube_key) = Some True \<and>
   holdout (object (instance_of holdout_cube)) (b_parent_of (instance_of holdout_cube)) \<and>
   Tag_update_HOLDOUT_MODIFIED \<in>
     set (new_events cube_holdout_synced
            (snd (sync_object example_env (instance_of holdout_cube) 0 False True
                    (Some geom_task_pool) cube_holdout_synced)))"
  by code_simp


section \<open>Change detection\<close>

lemma sync_object_changed_fields:
  assumes f: "sync_object_fields e b_instance use_particle_hair pool key H vis st
                = (ob3, upd, st3)"
  shows "sync_object_changed ob3 upd (geometries st3) tfm \<longleftrightarrow>
           is_modified ob3 \<or> created_or_moved e b_instance key st \<or>
           snd (sync_object_attributes e b_instance
                  (needed_attributes
                     (snd (sync_geometry e (b_ob_instance_of b_instance)
                             (created_or_moved e b_instance key st) use_particle_hair pool (geometries st))
                        (fst (sync_geometry e (b_ob_instance_of b_instance)
                                (created_or_moved e b_instance key st) use_particle_hair pool
                                (geometries st)))))
                  (attributes (entity_before e key st))) \<or>
           geometry_is_modified
             (snd (sync_geometry e (b_ob_instance_of b_instance)
                     (created_or_moved e b_instance key st) use_particle_hair pool (geometries st))
                (fst (sync_geometry e (b_ob_instance_of b_instance)
                        (created_or_moved e b_instance key st) use_particle_hair pool (geometries st)))) \<or>
           tfm \<noteq> get_tfm (entity_before e key st)"
proof -
  note a = sync_object_fields_entity [OF f]
  note b = sync_object_fields_state [OF f]
  note c = sync_object_fields_rest [OF f]
  from a have g: "get_geometry ob3 =
           Some (fst (sync_geometry e (b_ob_instance_of b_instance) (created_or_moved e b_instance key st)
                        use_particle_hair pool (geometries st)))" by blast
  from b have gs: "geometries st3 =
           snd (sync_geometry e (b_ob_instance_of b_instance) (created_or_moved e b_instance key st)
                  use_particle_hair pool (geometries st))" by blast
  from c have t: "get_tfm ob3 = get_tfm (entity_before e key st)" by blast
  from c have u: "upd = (created_or_moved e b_instance key st \<or>
                snd (sync_object_attributes e b_instance
                  (needed_attributes
                     (snd (sync_geometry e (b_ob_instance_of b_instance)
                             (created_or_moved e b_instance key st) use_particle_hair pool (geometries st))
                        (fst (sync_geometry e (b_ob_instance_of b_instance)
                                (created_or_moved e b_instance key st) use_particle_hair pool
                                (geometries st)))))
                  (attributes (entity_before e key st))))" by blast
  show ?thesis
    unfolding sync_object_changed_def g gs t u by auto
qed

lemma sync_object_fields_unchanged:
  assumes f: "sync_object_fields e b_instance use_particle_hair pool key H vis st
                = (ob3, upd, st3)"
    and same: "get_geometry (entity_before e key st) =
                 Some (fst (sync_geometry e (b_ob_instance_of b_instance)
                              (created_or_moved e b_instance key st) use_particle_hair pool (geometries st)))"
      "get_use_holdout (entity_before e key st) = H"
      "get_visibility (entity_before e key st) = vis"
      "get_is_shadow_catcher (entity_before e key st) =
         get_boolean (cycles (rna (object b_instance))) ''is_shadow_catcher''"
      "get_shadow_terminator_offset (entity_before e key st) =
         get_float (cycles (rna (object b_instance))) ''shadow_terminator_offset''"
      "get_asset_name (entity_before e key st) = asset_name (object b_instance)"
  shows "socket_modified ob3 = socket_modified (entity_before e key st)"
proof -
  have "\<exists>a. ob3 = (entity_before e key st)\<lparr>attributes := a\<rparr>"
    using f same
    by (simp add: sync_object_fields_eq Let_def) blast
  then show ?thesis by auto
qed

lemma sync_object_full_entity:
  assumes f: "sync_object_fields e b_instance use_particle_hair pool key H vis st
                = (ob3, upd, st3)"
  shows "\<exists>ob. fst (sync_object_full e b_instance use_particle_hair pool key tfm H vis st)
                = Some ob \<and>
           (if sync_object_changed ob3 upd (geometries st3) tfm then
              name ob = ob_name (rna (object b_instance)) \<and>
              get_pass_id ob = pass_index (rna (object b_instance)) \<and>
              get_color ob = get_float3 e (ob_color (rna (object b_instance))) \<and>
              get_tfm ob = tfm
            else
              name ob = name (entity_before e key st) \<and>
              get_pass_id ob = get_pass_id (entity_before e key st) \<and>
              get_color ob = get_color (entity_before e key st) \<and>
              get_tfm ob = get_tfm (entity_before e key st) \<and>
              get_motion ob = get_motion (entity_before e key st) \<and>
              get_dupli_generated ob = get_dupli_generated (entity_before e key st) \<and>
              get_dupli_uv ob = get_dupli_uv (entity_before e key st) \<and>
              get_random_id ob = get_random_id (entity_before e key st))"
proof -
  obtain ob4 st4 where
    u: "(if sync_object_changed ob3 upd (geometries st3) tfm
         then sync_object_update e b_instance key tfm (ob3, st3) else (ob3, st3)) = (ob4, st4)"
    by (cases "if sync_object_changed ob3 upd (geometries st3) tfm
               then sync_object_update e b_instance key tfm (ob3, st3) else (ob3, st3)")
  note c = sync_object_fields_rest [OF f]
  have ob4: "if sync_object_changed ob3 upd (geometries st3) tfm then
              name ob4 = ob_name (rna (object b_instance)) \<and>
              get_pass_id ob4 = pass_index (rna (object b_instance)) \<and>
              get_color ob4 = get_float3 e (ob_color (rna (object b_instance))) \<and>
              get_tfm ob4 = tfm
            else
              name ob4 = name (entity_before e key st) \<and>
              get_pass_id ob4 = get_pass_id (entity_before e key st) \<and>
              get_color ob4 = get_color (entity_before e key st) \<and>
              get_tfm ob4 = get_tfm (entity_before e key st) \<and>
              get_motion ob4 = get_motion (entity_before e key st) \<and>
              get_dupli_generated ob4 = get_dupli_generated (entity_before e key st) \<and>
              get_dupli_uv ob4 = get_dupli_uv (entity_before e key st) \<and>
              get_random_id ob4 = get_random_id (entity_before e key st)"
  proof (cases "sync_object_changed ob3 upd (geometries st3) tfm")
    case True
    with u have "sync_object_update e b_instance key tfm (ob3, st3) = (ob4, st4)" by simp
    from sync_object_update_entity [OF this] True show ?thesis by simp
  next
    case False
    with u have "ob4 = ob3" by simp
    with False c show ?thesis by simp
  qed
  show ?thesis
    unfolding sync_object_full_split [OF f u]
    using ob4
    by (cases "is_instance b_instance";
        cases "sync_object_changed ob3 upd (geometries st3) tfm") simp_all
qed

text \<open>
  C5, amended. In a full sync the object sync block runs, and with it the dirty tag of the
  entity, exactly when the test fires: when the entity is flagged as modified, or its slot
  in the identity map was freshly created or moved, or attribute reconciliation reported a
  change, or the geometry is flagged as modified, or the cached transform differs, as a
  sequence of bits, from the new one. When the test fires, name, pass id, color and
  transform are rewritten from the source; when it does not, name, pass id, color,
  transform, motion array, dupli coordinates and random id are the stored ones. A scene
  that did not change (the slot is neither created nor moved, the entity has no flag set
  and holds what this call would write, reconciliation reports no change, the geometry is
  not flagged, the transform is the cached one) gets no dirty tag and no holdout tag.
\<close>

theorem sync_object_change_detection:
  assumes "transition e b_instance t show_lights = FullSync"
  shows
    "(let key = object_key b_instance use_particle_hair;
          pool = (if is_instance b_instance then None else task_pool);
          tfm = object_tfm e b_instance;
          H = holdout (object b_instance) (b_parent_of b_instance);
          vis = visibility_mask e (object b_instance) (b_parent_of b_instance);
          ob0 = entity_before e key st;
          gs = sync_geometry e (b_ob_instance_of b_instance) (created_or_moved e b_instance key st)
                 use_particle_hair pool (geometries st);
          reconciled = snd (sync_object_attributes e b_instance
                              (needed_attributes (snd gs (fst gs))) (attributes ob0));
          ob3 = fst (sync_object_fields e b_instance use_particle_hair pool key H vis st);
          fires = (is_modified ob3 \<or> created_or_moved e b_instance key st \<or> reconciled \<or>
                   geometry_is_modified (snd gs (fst gs)) \<or> tfm \<noteq> get_tfm ob0);
          r = sync_object e b_instance t use_particle_hair show_lights task_pool st
      in (Object_tag_update key \<in> set (new_events st (snd r)) \<longleftrightarrow> fires) \<and>
         (\<exists>ob. fst r = Some ob \<and>
            (if fires then
               name ob = ob_name (rna (object b_instance)) \<and>
               get_pass_id ob = pass_index (rna (object b_instance)) \<and>
               get_color ob = get_float3 e (ob_color (rna (object b_instance))) \<and>
               get_tfm ob = tfm
             else
               name ob = name ob0 \<and> get_pass_id ob = get_pass_id ob0 \<and>
               get_color ob = get_color ob0 \<and> get_tfm ob = get_tfm ob0 \<and>
               get_motion ob = get_motion ob0 \<and>
               get_dupli_generated ob = get_dupli_generated ob0 \<and>
               get_dupli_uv ob = get_dupli_uv ob0 \<and> get_random_id ob = get_random_id ob0)) \<and>
         (\<not> created_or_moved e b_instance key st \<and> socket_modified ob0 = {} \<and>
          get_geometry ob0 = Some (fst gs) \<and> get_use_holdout ob0 = H \<and>
          get_visibility ob0 = vis \<and>
          get_is_shadow_catcher ob0 =
            get_boolean (cycles (rna (object b_instance))) ''is_shadow_catcher'' \<and>
          get_shadow_terminator_offset ob0 =
            get_float (cycles (rna (object b_instance))) ''shadow_terminator_offset'' \<and>
          get_asset_name ob0 = asset_name (object b_instance) \<and>
          \<not> reconciled \<and> \<not> geometry_is_modified (snd gs (fst gs)) \<and> get_tfm ob0 = tfm \<longrightarrow>
            Object_tag_update key \<notin> set (new_events st (snd r)) \<and>
            Tag_update_HOLDOUT_MODIFIED \<notin> set (new_events st (snd r))))"
proof -
  define key where "key = object_key b_instance use_particle_hair"
  define pool where "pool = (if is_instance b_instance then None else task_pool)"
  define tfm where "tfm = object_tfm e b_instance"
  define H where "H = holdout (object b_instance) (b_parent_of b_instance)"
  define vis where "vis = visibility_mask e (object b_instance) (b_parent_of b_instance)"
  define ob0 where "ob0 = entity_before e key st"
  define gs where
    "gs = sync_geometry e (b_ob_instance_of b_instance) (created_or_moved e b_instance key st)
            use_particle_hair pool (geometries st)"
  define reconciled where
    "reconciled = snd (sync_object_attributes e b_instance
                         (needed_attributes (snd gs (fst gs))) (attributes ob0))"
  obtain ob3 upd st3 where
    f: "sync_object_fields e b_instance use_particle_hair pool key H vis st = (ob3, upd, st3)"
    by (cases "sync_object_fields e b_instance use_particle_hair pool key H vis st")
  define fires where
    "fires = (is_modified ob3 \<or> created_or_moved e b_instance key st \<or> reconciled \<or>
              geometry_is_modified (snd gs (fst gs)) \<or> tfm \<noteq> get_tfm ob0)"
  define r where "r = sync_object e b_instance t use_particle_hair show_lights task_pool st"
  have r: "r = sync_object_full e b_instance use_particle_hair pool key tfm H vis st"
    unfolding r_def pool_def key_def tfm_def H_def vis_def
    by (rule sync_object_FullSync [OF assms])
  have ch: "sync_object_changed ob3 upd (geometries st3) tfm \<longleftrightarrow> fires"
    unfolding fires_def reconciled_def gs_def ob0_def
    by (rule sync_object_changed_fields [OF f])
  have ev: "new_events st (snd r) =
           [Sync_geometry (ptr_data (rna (b_ob_instance_of b_instance)))
              (created_or_moved e b_instance key st) use_particle_hair pool] @
           (if get_use_holdout ob0 \<noteq> H \<or> SOCKET_use_holdout \<in> socket_modified ob0
            then [Tag_update_HOLDOUT_MODIFIED] else []) @
           (if fires then [Object_tag_update key] else []) @
           (if is_instance b_instance
            then [Sync_dupli_particle (ptr_data (rna (b_parent_of b_instance))) key] else [])"
    unfolding new_events_def r sync_object_full_events [OF f, of tfm] ch ob0_def by simp
  have tag: "Object_tag_update key \<in> set (new_events st (snd r)) \<longleftrightarrow> fires"
    unfolding ev by simp
  have ent: "\<exists>ob. fst r = Some ob \<and>
            (if fires then
               name ob = ob_name (rna (object b_instance)) \<and>
               get_pass_id ob = pass_index (rna (object b_instance)) \<and>
               get_color ob = get_float3 e (ob_color (rna (object b_instance))) \<and>
               get_tfm ob = tfm
             else
               name ob = name ob0 \<and> get_pass_id ob = get_pass_id ob0 \<and>
               get_color ob = get_color ob0 \<and> get_tfm ob = get_tfm ob0 \<and>
               get_motion ob = get_motion ob0 \<and>
               get_dupli_generated ob = get_dupli_generated ob0 \<and>
               get_dupli_uv ob = get_dupli_uv ob0 \<and> get_random_id ob = get_random_id ob0)"
    using sync_object_full_entity [OF f, of tfm]
    unfolding r ch ob0_def by simp
  have quiet: "Object_tag_update key \<notin> set (new_events st (snd r)) \<and>
               Tag_update_HOLDOUT_MODIFIED \<notin> set (new_events st (snd r))"
    if same: "\<not> created_or_moved e b_instance key st \<and> socket_modified ob0 = {} \<and>
          get_geometry ob0 = Some (fst gs) \<and> get_use_holdout ob0 = H \<and>
          get_visibility ob0 = vis \<and>
          get_is_shadow_catcher ob0 =
            get_boolean (cycles (rna (object b_instance))) ''is_shadow_catcher'' \<and>
          get_shadow_terminator_offset ob0 =
            get_float (cycles (rna (object b_instance))) ''shadow_terminator_offset'' \<and>
          get_asset_name ob0 = asset_name (object b_instance) \<and>
          \<not> reconciled \<and> \<not> geometry_is_modified (snd gs (fst gs)) \<and> get_tfm ob0 = tfm"
  proof -
    have "socket_modified ob3 = socket_modified (entity_before e key st)"
      using same
      by (intro sync_object_fields_unchanged [OF f]) (simp_all add: ob0_def gs_def)
    with same have "\<not> is_modified ob3"
      by (simp add: is_modified_def ob0_def)
    with same have "\<not> fires"
      by (simp add: fires_def)
    with same show ?thesis
      unfolding ev by simp
  qed
  have fst_f: "fst (sync_object_fields e b_instance use_particle_hair pool key H vis st) = ob3"
    using f by simp
  show ?thesis
    unfolding Let_def
    unfolding key_def [symmetric] pool_def [symmetric] tfm_def [symmetric] H_def [symmetric]
      vis_def [symmetric]
    unfolding ob0_def [symmetric] gs_def [symmetric]
    unfolding reconciled_def [symmetric] fst_f
    unfolding fires_def [symmetric] r_def [symmetric]
    using tag ent quiet by blast
qed


theorem sync_object_change_detection_witness:
  "transition example_env (instance_of cube) 0 True = FullSync \<and>
   object_map cube_synced cube_key = Some cube_entity \<and>
   Object_tag_update cube_key \<notin> set (new_events cube_synced (snd (sync_object example_env (instance_of cube) 0 False True (Some geom_task_pool) cube_synced))) \<and>
   Tag_update_HOLDOUT_MODIFIED \<notin> set (new_events cube_synced (snd (sync_object example_env (instance_of cube) 0 False True (Some geom_task_pool) cube_synced))) \<and>
   transition recalc_env (instance_of cube) 0 True = FullSync \<and>
   Object_tag_update cube_key \<in> set (new_events cube_synced (snd (sync_object recalc_env (instance_of cube) 0 False True (Some geom_task_pool) cube_synced)))"
proof -
  have a: "transition example_env (instance_of cube) 0 True = FullSync"
    by code_simp
  have k: "object_key (instance_of cube) False = cube_key"
    by code_simp
  have m: "object_map cube_synced cube_key = Some cube_entity"
    by (simp add: cube_synced_def)
  have d: "entity_before example_env cube_key cube_synced = cube_entity"
    by (simp add: entity_before_def m)
  have i: "\<not> is_instance (instance_of cube)"
    by code_simp
  have cm: "created_or_moved example_env (instance_of cube) cube_key cube_synced = False"
    by (simp add: created_or_moved_def m example_env_def)
  have h1: "socket_modified cube_entity = {}"
    by (simp add: cube_entity_def)
  have h2: "get_geometry cube_entity = Some (fst (sync_geometry example_env (b_ob_instance_of (instance_of cube)) False False (Some geom_task_pool) (geometries cube_synced)))"
    by code_simp
  have h3: "get_use_holdout cube_entity =
              holdout (object (instance_of cube)) (b_parent_of (instance_of cube))"
    by code_simp
  have h4: "get_visibility cube_entity =
              visibility_mask example_env (object (instance_of cube))
                (b_parent_of (instance_of cube))"
    by code_simp
  have h5: "get_is_shadow_catcher cube_entity =
              get_boolean (cycles (rna (object (instance_of cube)))) ''is_shadow_catcher''"
    by code_simp
  have h6: "get_shadow_terminator_offset cube_entity =
              get_float (cycles (rna (object (instance_of cube)))) ''shadow_terminator_offset''"
    by code_simp
  have h7: "get_asset_name cube_entity = asset_name (object (instance_of cube))"
    by code_simp
  have h8: "\<not> snd (sync_object_attributes example_env (instance_of cube)
                     (needed_attributes (snd (sync_geometry example_env (b_ob_instance_of (instance_of cube)) False False (Some geom_task_pool) (geometries cube_synced)) (fst (sync_geometry example_env (b_ob_instance_of (instance_of cube)) False False (Some geom_task_pool) (geometries cube_synced))))) (attributes cube_entity))"
    by code_simp
  have h9: "\<not> geometry_is_modified (snd (sync_geometry example_env (b_ob_instance_of (instance_of cube)) False False (Some geom_task_pool) (geometries cube_synced)) (fst (sync_geometry example_env (b_ob_instance_of (instance_of cube)) False False (Some geom_task_pool) (geometries cube_synced))))"
    by code_simp
  have h10: "get_tfm cube_entity = object_tfm example_env (instance_of cube)"
    by code_simp
  note th = sync_object_change_detection [OF a, where use_particle_hair = False
              and task_pool = "Some geom_task_pool" and st = cube_synced,
              unfolded Let_def k d cm, THEN conjunct2, THEN conjunct2]
  have "Object_tag_update cube_key \<notin> set (new_events cube_synced (snd (sync_object example_env (instance_of cube) 0 False True (Some geom_task_pool) cube_synced))) \<and>
        Tag_update_HOLDOUT_MODIFIED \<notin> set (new_events cube_synced (snd (sync_object example_env (instance_of cube) 0 False True (Some geom_task_pool) cube_synced)))"
    by (rule th [rule_format]) (simp add: i m h1 h2 h3 h4 h5 h6 h7 h8 h9 h10)
  note quiet = this
  have a': "transition recalc_env (instance_of cube) 0 True = FullSync"
    by code_simp
  have cm': "created_or_moved recalc_env (instance_of cube) cube_key cube_synced"
    by (simp add: created_or_moved_def recalc_env_def instance_of_def cube_def cube_rna_def)
  note th' = sync_object_change_detection [OF a', where use_particle_hair = False
               and task_pool = "Some geom_task_pool" and st = cube_synced,
               unfolded Let_def k, THEN conjunct1]
  from th' cm' have moved:
    "Object_tag_update cube_key \<in> set (new_events cube_synced (snd (sync_object recalc_env (instance_of cube) 0 False True (Some geom_task_pool) cube_synced)))"
    by blast
  from a m quiet a' moved show ?thesis by (intro conjI) simp_all
qed

theorem change_detection_counterexample:
  "transition example_env (instance_of cube) 0 True = FullSync \<and>
   object_map cube_synced_shaded cube_key = Some cube_entity \<and>
   \<not> is_modified
        (fst (sync_object_fields example_env (instance_of cube) False (Some geom_task_pool)
                cube_key False 16383 cube_synced_shaded)) \<and>
   get_geometry
        (fst (sync_object_fields example_env (instance_of cube) False (Some geom_task_pool)
                cube_key False 16383 cube_synced_shaded)) = Some 1 \<and>
   \<not> geometry_is_modified
        (geometries
           (snd (snd (sync_object_fields example_env (instance_of cube) False
                        (Some geom_task_pool) cube_key False 16383 cube_synced_shaded))) 1) \<and>
   get_tfm cube_entity = object_tfm example_env (instance_of cube) \<and>
   \<not> created_or_moved example_env (instance_of cube) cube_key cube_synced_shaded \<and>
   Object_tag_update cube_key \<in>
     set (new_events cube_synced_shaded
            (snd (sync_object example_env (instance_of cube) 0 False True
                    (Some geom_task_pool) cube_synced_shaded))) \<and>
   \<not> created_or_moved example_env (instance_of cube) cube_key cube_first_pass \<and>
   \<not> snd (sync_object_attributes example_env (instance_of cube) []
            (attributes (the (object_map cube_first_pass cube_key)))) \<and>
   get_tfm (the (object_map cube_first_pass cube_key)) =
     object_tfm example_env (instance_of cube) \<and>
   is_modified (the (object_map cube_first_pass cube_key)) \<and>
   Object_tag_update cube_key \<in>
     set (new_events cube_first_pass
            (snd (sync_object example_env (instance_of cube) 0 False True
                    (Some geom_task_pool) cube_first_pass)))"
  by code_simp


section \<open>Motion samples of the base pass\<close>

lemma fold_insert_upt:
  "fold (\<lambda>step times. insert (f step) times) [0..<n] S = S \<union> f ` {0..<n}"
proof (induction n)
  case 0
  show ?case by simp
next
  case (Suc n)
  have "{0..<Suc n} = insert n {0..<n}" by auto
  with Suc show ?case by simp
qed

lemma motion_time_length:
  "length (get_motion ob) = length (get_motion ob') \<Longrightarrow> motion_time ob step = motion_time ob' step"
  by (simp add: motion_time_def use_motion_def)

lemma motion_time_symmetric:
  assumes "length (get_motion ob) = N" and "step < N"
  shows "motion_time ob (N - 1 - step) = - motion_time ob step"
proof (cases "N > 1")
  case False
  with assms show ?thesis by (simp add: motion_time_def use_motion_def)
next
  case True
  from assms(2) have "(of_nat (N - 1 - step) :: rat) = of_nat (N - 1) - of_nat step"
    by (simp add: of_nat_diff)
  moreover from True have "(of_nat (N - 1) :: rat) \<noteq> 0" by simp
  ultimately show ?thesis
    using assms(1) True
    by (simp add: motion_time_def use_motion_def field_simps)
qed

lemma motion_time_range:
  assumes "length (get_motion ob) = N" and "step < N"
  shows "- 1 \<le> motion_time ob step \<and> motion_time ob step \<le> 1"
proof (cases "N > 1")
  case False
  with assms show ?thesis by (simp add: motion_time_def use_motion_def)
next
  case True
  then have pos: "(0 :: rat) < of_nat (N - 1)" by simp
  from assms(2) have "step \<le> N - 1" by simp
  then have le: "(of_nat step :: rat) \<le> of_nat (N - 1)"
    using of_nat_le_iff by blast
  have "(0 :: rat) \<le> 2 * of_nat step / of_nat (N - 1)"
    using pos by simp
  moreover have "2 * of_nat step / of_nat (N - 1) \<le> (2 :: rat)"
    using pos le by (simp add: pos_divide_le_eq)
  ultimately show ?thesis
    using assms(1) True by (simp add: motion_time_def use_motion_def)
qed

lemma motion_time_center:
  assumes "length (get_motion ob) = N" and "odd N"
  shows "motion_time ob (N div 2) = 0"
proof (cases "N > 1")
  case False
  with assms show ?thesis by (simp add: motion_time_def use_motion_def)
next
  case True
  from assms(2) obtain k where k: "N = 2 * k + 1" by (auto elim: oddE)
  with True have "k > 0" by simp
  then have "(of_nat k :: rat) \<noteq> 0" by simp
  then show ?thesis
    using assms(1) True k by (simp add: motion_time_def use_motion_def)
qed

lemma sync_object_motion_blur_steps:
  assumes "sync_object_motion_blur e b_parent b_ob tfm (ob, st) = (ob', st')"
    and "get_geometry ob \<noteq> None"
    and N: "N = (if need_motion e = MOTION_BLUR
                 then object_motion_steps e b_parent b_ob (MAX_MOTION_STEPS e) else 3)"
  shows "if need_motion e \<noteq> MOTION_NONE \<and> N \<noteq> 0
         then get_motion ob' = (replicate N (transform_empty e))[N div 2 := tfm] \<and>
              motion_times st' = motion_times st \<union> motion_time ob' ` {0..<N}
         else ob' = ob \<and> motion_times st' = motion_times st"
proof -
  from assms(2) obtain g where g: "get_geometry ob = Some g" by auto
  show ?thesis
  proof (cases "need_motion e \<noteq> MOTION_NONE \<and> N \<noteq> 0")
    case True
    define ob1 where "ob1 = set_motion ((replicate N (transform_empty e))[N div 2 := tfm]) ob"
    have "ob' = ob1 \<and> motion_times st' = motion_times st \<union> motion_time ob1 ` {0..<N}"
      using assms(1) g True
      by (auto simp: sync_object_motion_blur_def Let_def N [symmetric] ob1_def [symmetric]
            fold_insert_upt)
    moreover have "get_motion ob1 = (replicate N (transform_empty e))[N div 2 := tfm]"
      by (simp add: ob1_def)
    ultimately show ?thesis
      using True by simp
  next
    case False
    then have "ob' = ob \<and> motion_times st' = motion_times st"
      using assms(1) g
      by (auto simp: sync_object_motion_blur_def Let_def N [symmetric] split: if_splits)
    with False show ?thesis
      by auto
  qed
qed

lemma sync_object_update_steps:
  assumes u: "sync_object_update e b_instance key tfm (ob, st) = (ob', st')"
    and g: "get_geometry ob \<noteq> None"
    and N: "N = (if need_motion e = MOTION_BLUR
                 then object_motion_steps e (b_parent_of b_instance) (object b_instance)
                        (MAX_MOTION_STEPS e)
                 else 3)"
  shows "if need_motion e \<noteq> MOTION_NONE \<and> N \<noteq> 0
         then get_motion ob' = (replicate N (transform_empty e))[N div 2 := tfm] \<and>
              motion_times st' = motion_times st \<union> motion_time ob' ` {0..<N}
         else get_motion ob' = [] \<and> motion_times st' = motion_times st"
proof -
  define ob1 where
    "ob1 = set_motion []
             (set_tfm tfm
               (set_color (get_float3 e (ob_color (rna (object b_instance))))
                 (set_pass_id (pass_index (rna (object b_instance)))
                   (ob\<lparr>name := ob_name (rna (object b_instance))\<rparr>))))"
  obtain ob2 st1 where
    mb: "sync_object_motion_blur e (b_parent_of b_instance) (object b_instance) tfm (ob1, st)
           = (ob2, st1)"
    by (cases "sync_object_motion_blur e (b_parent_of b_instance) (object b_instance) tfm
                 (ob1, st)")
  have g1: "get_geometry ob1 \<noteq> None"
    using g by (simp add: ob1_def)
  have e1: "get_motion ob1 = []"
    by (simp add: ob1_def)
  note steps = sync_object_motion_blur_steps [OF mb g1 N]
  have "get_motion ob' = get_motion ob2 \<and> motion_times st' = motion_times st1"
    using u mb
    by (cases "is_instance b_instance")
       (auto simp: sync_object_update_def Let_def ob1_def [symmetric])
  moreover from this have "motion_time ob' = motion_time ob2"
    by (auto simp: fun_eq_iff intro: motion_time_length)
  ultimately show ?thesis
    using steps e1 by (auto split: if_splits)
qed

lemma sync_object_full_steps:
  assumes f: "sync_object_fields e b_instance use_particle_hair pool key H vis st
                = (ob3, upd, st3)"
    and N: "N = (if need_motion e = MOTION_BLUR
                 then object_motion_steps e (b_parent_of b_instance) (object b_instance)
                        (MAX_MOTION_STEPS e)
                 else 3)"
  shows "\<exists>ob. fst (sync_object_full e b_instance use_particle_hair pool key tfm H vis st)
                = Some ob \<and>
           (if sync_object_changed ob3 upd (geometries st3) tfm \<and>
               need_motion e \<noteq> MOTION_NONE \<and> N \<noteq> 0
            then get_motion ob = (replicate N (transform_empty e))[N div 2 := tfm] \<and>
                 motion_times
                   (snd (sync_object_full e b_instance use_particle_hair pool key tfm H vis st))
                   = motion_times st \<union> motion_time ob ` {0..<N}
            else motion_times
                   (snd (sync_object_full e b_instance use_particle_hair pool key tfm H vis st))
                   = motion_times st \<and>
                 get_motion ob =
                   (if sync_object_changed ob3 upd (geometries st3) tfm then []
                    else get_motion (entity_before e key st)))"
proof -
  obtain ob4 st4 where
    u: "(if sync_object_changed ob3 upd (geometries st3) tfm
         then sync_object_update e b_instance key tfm (ob3, st3) else (ob3, st3)) = (ob4, st4)"
    by (cases "if sync_object_changed ob3 upd (geometries st3) tfm
               then sync_object_update e b_instance key tfm (ob3, st3) else (ob3, st3)")
  have g3: "get_geometry ob3 \<noteq> None"
    using sync_object_fields_entity [OF f] by simp
  have m3: "motion_times st3 = motion_times st"
    using sync_object_fields_state [OF f] by blast
  have ob4: "if sync_object_changed ob3 upd (geometries st3) tfm \<and>
               need_motion e \<noteq> MOTION_NONE \<and> N \<noteq> 0
            then get_motion ob4 = (replicate N (transform_empty e))[N div 2 := tfm] \<and>
                 motion_times st4 = motion_times st \<union> motion_time ob4 ` {0..<N}
            else motion_times st4 = motion_times st \<and>
                 get_motion ob4 =
                   (if sync_object_changed ob3 upd (geometries st3) tfm then []
                    else get_motion (entity_before e key st))"
  proof (cases "sync_object_changed ob3 upd (geometries st3) tfm")
    case True
    with u have "sync_object_update e b_instance key tfm (ob3, st3) = (ob4, st4)" by simp
    from sync_object_update_steps [OF this g3 N] True m3 show ?thesis
      by (auto split: if_splits)
  next
    case False
    with u have "ob4 = ob3" "st4 = st3" by simp_all
    moreover have "get_motion ob3 = get_motion (entity_before e key st)"
      using sync_object_fields_rest [OF f] by blast
    ultimately show ?thesis
      using False m3 by simp
  qed
  define ob5 where
    "ob5 = set_particle (sync_dupli_particle e (b_parent_of b_instance) b_instance ob4) ob4"
  have m5: "get_motion ob5 = get_motion ob4"
    by (simp add: ob5_def)
  then have t5: "motion_time ob5 = motion_time ob4"
    by (auto simp: fun_eq_iff intro: motion_time_length)
  show ?thesis
    unfolding sync_object_full_split [OF f u] ob5_def [symmetric]
    using ob4 m5 t5
    by (cases "is_instance b_instance") (auto split: if_splits)
qed


text \<open>
  C4, amended. In the base pass, for every object that reaches the full sync and for which
  the test of the object sync block fires, with motion needed and a number \<open>N\<close> of motion
  steps that is not zero: the entity's motion array has \<open>N\<close> samples and its center slot
  (index \<open>N div 2\<close>) holds the base transform; the offsets of all \<open>N\<close> samples are inserted
  into the motion time set, and nothing else is; the offsets lie in [-1, 1] and are symmetric
  about 0, and for an odd \<open>N\<close> the offset of the center slot is 0. In every other case the
  call leaves the motion time set as it is: when the test fires, with no motion needed or
  no motion step, the motion array is left empty; when the test does not fire, the entity
  keeps the motion array it had.
\<close>

theorem sync_object_motion_samples:
  assumes "transition e b_instance t show_lights = FullSync"
  shows
    "(let key = object_key b_instance use_particle_hair;
          pool = (if is_instance b_instance then None else task_pool);
          tfm = object_tfm e b_instance;
          H = holdout (object b_instance) (b_parent_of b_instance);
          vis = visibility_mask e (object b_instance) (b_parent_of b_instance);
          f = sync_object_fields e b_instance use_particle_hair pool key H vis st;
          fires = sync_object_changed (fst f) (fst (snd f)) (geometries (snd (snd f))) tfm;
          N = (if need_motion e = MOTION_BLUR
               then object_motion_steps e (b_parent_of b_instance) (object b_instance)
                      (MAX_MOTION_STEPS e)
               else 3);
          r = sync_object e b_instance t use_particle_hair show_lights task_pool st
      in \<exists>ob. fst r = Some ob \<and>
           (if fires \<and> need_motion e \<noteq> MOTION_NONE \<and> N \<noteq> 0 then
              length (get_motion ob) = N \<and> get_motion ob ! (N div 2) = tfm \<and>
              motion_times (snd r) = motion_times st \<union> motion_time ob ` {0..<N} \<and>
              (\<forall>step<N. motion_time ob step \<in> motion_times (snd r) \<and>
                         motion_time ob (N - 1 - step) = - motion_time ob step \<and>
                         - 1 \<le> motion_time ob step \<and> motion_time ob step \<le> 1) \<and>
              (odd N \<longrightarrow> motion_time ob (N div 2) = 0)
            else motion_times (snd r) = motion_times st \<and>
                 get_motion ob = (if fires then [] else get_motion (entity_before e key st))))"
proof -
  define key where "key = object_key b_instance use_particle_hair"
  define pool where "pool = (if is_instance b_instance then None else task_pool)"
  define tfm where "tfm = object_tfm e b_instance"
  define H where "H = holdout (object b_instance) (b_parent_of b_instance)"
  define vis where "vis = visibility_mask e (object b_instance) (b_parent_of b_instance)"
  define f where "f = sync_object_fields e b_instance use_particle_hair pool key H vis st"
  define fires where
    "fires = sync_object_changed (fst f) (fst (snd f)) (geometries (snd (snd f))) tfm"
  define N where
    "N = (if need_motion e = MOTION_BLUR
          then object_motion_steps e (b_parent_of b_instance) (object b_instance)
                 (MAX_MOTION_STEPS e)
          else 3)"
  define r where "r = sync_object e b_instance t use_particle_hair show_lights task_pool st"
  have r: "r = sync_object_full e b_instance use_particle_hair pool key tfm H vis st"
    unfolding r_def pool_def key_def tfm_def H_def vis_def
    by (rule sync_object_FullSync [OF assms])
  have f: "sync_object_fields e b_instance use_particle_hair pool key H vis st
             = (fst f, fst (snd f), snd (snd f))"
    by (simp add: f_def)
  from sync_object_full_steps [OF f N_def, of tfm]
  obtain ob where
    ob: "fst r = Some ob"
    and steps: "if fires \<and> need_motion e \<noteq> MOTION_NONE \<and> N \<noteq> 0
            then get_motion ob = (replicate N (transform_empty e))[N div 2 := tfm] \<and>
                 motion_times (snd r) = motion_times st \<union> motion_time ob ` {0..<N}
            else motion_times (snd r) = motion_times st \<and>
                 get_motion ob = (if fires then [] else get_motion (entity_before e key st))"
    unfolding r fires_def by blast
  have "if fires \<and> need_motion e \<noteq> MOTION_NONE \<and> N \<noteq> 0 then
              length (get_motion ob) = N \<and> get_motion ob ! (N div 2) = tfm \<and>
              motion_times (snd r) = motion_times st \<union> motion_time ob ` {0..<N} \<and>
              (\<forall>step<N. motion_time ob step \<in> motion_times (snd r) \<and>
                         motion_time ob (N - 1 - step) = - motion_time ob step \<and>
                         - 1 \<le> motion_time ob step \<and> motion_time ob step \<le> 1) \<and>
              (odd N \<longrightarrow> motion_time ob (N div 2) = 0)
            else motion_times (snd r) = motion_times st \<and>
                 get_motion ob = (if fires then [] else get_motion (entity_before e key st))"
  proof (cases "fires \<and> need_motion e \<noteq> MOTION_NONE \<and> N \<noteq> 0")
    case False
    with steps show ?thesis by auto
  next
    case True
    with steps have
      m: "get_motion ob = (replicate N (transform_empty e))[N div 2 := tfm]"
      and mt: "motion_times (snd r) = motion_times st \<union> motion_time ob ` {0..<N}"
      by auto
    from m have len: "length (get_motion ob) = N" by simp
    from True have "N div 2 < N" by simp
    with m have center: "get_motion ob ! (N div 2) = tfm" by simp
    have each: "motion_time ob step \<in> motion_times (snd r) \<and>
                motion_time ob (N - 1 - step) = - motion_time ob step \<and>
                - 1 \<le> motion_time ob step \<and> motion_time ob step \<le> 1"
      if "step < N" for step
      using that mt motion_time_symmetric [OF len that] motion_time_range [OF len that]
      by simp
    have odd: "odd N \<longrightarrow> motion_time ob (N div 2) = 0"
      using motion_time_center [OF len] by blast
    from True len center mt each odd show ?thesis by simp
  qed
  with ob have "\<exists>ob. fst r = Some ob \<and>
           (if fires \<and> need_motion e \<noteq> MOTION_NONE \<and> N \<noteq> 0 then
              length (get_motion ob) = N \<and> get_motion ob ! (N div 2) = tfm \<and>
              motion_times (snd r) = motion_times st \<union> motion_time ob ` {0..<N} \<and>
              (\<forall>step<N. motion_time ob step \<in> motion_times (snd r) \<and>
                         motion_time ob (N - 1 - step) = - motion_time ob step \<and>
                         - 1 \<le> motion_time ob step \<and> motion_time ob step \<le> 1) \<and>
              (odd N \<longrightarrow> motion_time ob (N div 2) = 0)
            else motion_times (snd r) = motion_times st \<and>
                 get_motion ob = (if fires then [] else get_motion (entity_before e key st)))"
    by blast
  then show ?thesis
    unfolding Let_def
    unfolding key_def [symmetric] pool_def [symmetric] tfm_def [symmetric] H_def [symmetric]
      vis_def [symmetric]
    unfolding f_def [symmetric]
    unfolding fires_def [symmetric] N_def [symmetric] r_def [symmetric]
    by this
qed

theorem sync_object_motion_samples_witness:
  "transition example_env (instance_of cube) 0 True = FullSync \<and>
   map_option (\<lambda>ob. get_motion ob ! 1)
     (fst (sync_object example_env (instance_of cube) 0 False True (Some geom_task_pool)
             empty_sync)) = Some identity_transform \<and>
   motion_times
     (snd (sync_object example_env (instance_of cube) 0 False True (Some geom_task_pool)
             empty_sync)) = {- 1, 0, 1} \<and>
   map_option (\<lambda>ob. motion_time ob 2 = - motion_time ob 0)
     (fst (sync_object example_env (instance_of cube) 0 False True (Some geom_task_pool)
             empty_sync)) = Some True \<and>
   map_option get_motion
     (fst (sync_object example_env (instance_of cube) 0 False True (Some geom_task_pool)
             cube_synced)) = Some [zero_transform, identity_transform, zero_transform]"
proof -
  have kept: "map_option get_motion
     (fst (sync_object example_env (instance_of cube) 0 False True (Some geom_task_pool)
             cube_synced)) = Some [zero_transform, identity_transform, zero_transform]"
    by code_simp
  have a: "transition example_env (instance_of cube) 0 True = FullSync"
    by code_simp
  have fires: "sync_object_changed
      (fst (sync_object_fields example_env (instance_of cube) False
              (if is_instance (instance_of cube) then None else Some geom_task_pool)
              (object_key (instance_of cube) False)
              (holdout (object (instance_of cube)) (b_parent_of (instance_of cube)))
              (visibility_mask example_env (object (instance_of cube))
                 (b_parent_of (instance_of cube))) empty_sync))
      (fst (snd (sync_object_fields example_env (instance_of cube) False
              (if is_instance (instance_of cube) then None else Some geom_task_pool)
              (object_key (instance_of cube) False)
              (holdout (object (instance_of cube)) (b_parent_of (instance_of cube)))
              (visibility_mask example_env (object (instance_of cube))
                 (b_parent_of (instance_of cube))) empty_sync)))
      (geometries (snd (snd (sync_object_fields example_env (instance_of cube) False
              (if is_instance (instance_of cube) then None else Some geom_task_pool)
              (object_key (instance_of cube) False)
              (holdout (object (instance_of cube)) (b_parent_of (instance_of cube)))
              (visibility_mask example_env (object (instance_of cube))
                 (b_parent_of (instance_of cube))) empty_sync))))
      (object_tfm example_env (instance_of cube))"
    by code_simp
  have n: "need_motion example_env = MOTION_BLUR \<and>
           object_motion_steps example_env (b_parent_of (instance_of cube))
             (object (instance_of cube)) (MAX_MOTION_STEPS example_env) = 3"
    by code_simp
  have tf: "object_tfm example_env (instance_of cube) = identity_transform"
    by code_simp
  have ms: "motion_times empty_sync = {}"
    by (simp add: empty_sync_def)
  have times: "motion_times
     (snd (sync_object example_env (instance_of cube) 0 False True (Some geom_task_pool)
             empty_sync)) = {- 1, 0, 1}"
    by code_simp
  note th = sync_object_motion_samples [OF a, where use_particle_hair = False
              and task_pool = "Some geom_task_pool" and st = empty_sync,
              unfolded Let_def]
  from th fires n obtain ob where
    ob: "fst (sync_object example_env (instance_of cube) 0 False True (Some geom_task_pool)
                empty_sync) = Some ob"
    and c: "get_motion ob ! (3 div 2) = object_tfm example_env (instance_of cube)"
    and s: "\<forall>step<3. motion_time ob (3 - 1 - step) = - motion_time ob step"
    by auto
  from s have "motion_time ob 2 = - motion_time ob 0"
    by (metis diff_zero numeral_2_eq_2 diff_Suc_1 numeral_3_eq_3 zero_less_Suc)
  with a ob c tf times kept show ?thesis
    by simp
qed

theorem motion_times_counterexample:
  "transition example_env (instance_of cube) 0 True = FullSync \<and>
   need_motion example_env = MOTION_BLUR \<and>
   object_motion_steps example_env (b_parent_of (instance_of cube))
     (object (instance_of cube)) (MAX_MOTION_STEPS example_env) = 3 \<and>
   object_map (sync_objects example_env False 0 [instance_of cube] cube_synced) cube_key
     = Some cube_entity \<and>
   motion_times (sync_objects example_env False 0 [instance_of cube] cube_synced) = {}"
  by code_simp


section \<open>The pass driver\<close>

lemma sync_object_full_polls:
  "cancel_polls (snd (sync_object_full e b_instance use_particle_hair pool key tfm H vis st)) =
     cancel_polls st"
proof -
  obtain ob3 upd st3 where
    f: "sync_object_fields e b_instance use_particle_hair pool key H vis st = (ob3, upd, st3)"
    by (cases "sync_object_fields e b_instance use_particle_hair pool key H vis st")
  obtain ob4 st4 where
    u: "(if sync_object_changed ob3 upd (geometries st3) tfm
         then sync_object_update e b_instance key tfm (ob3, st3) else (ob3, st3)) = (ob4, st4)"
    by (cases "if sync_object_changed ob3 upd (geometries st3) tfm
               then sync_object_update e b_instance key tfm (ob3, st3) else (ob3, st3)")
  have p3: "cancel_polls st3 = cancel_polls st"
    using sync_object_fields_state [OF f] by blast
  have p4: "cancel_polls st4 = cancel_polls st3"
  proof (cases "sync_object_changed ob3 upd (geometries st3) tfm")
    case True
    with u have "sync_object_update e b_instance key tfm (ob3, st3) = (ob4, st4)" by simp
    from sync_object_update_frame(4) [OF this] show ?thesis .
  next
    case False
    with u show ?thesis by simp
  qed
  show ?thesis
    unfolding sync_object_full_split [OF f u]
    by (cases "is_instance b_instance") (simp_all add: p3 p4)
qed

lemma sync_object_new_events:
  "\<exists>evs. events (snd (sync_object e b_instance t hair lights pool st)) = events st @ evs \<and>
     cancel_polls (snd (sync_object e b_instance t hair lights pool st)) = cancel_polls st \<and>
     (\<forall>ev\<in>set evs. enumeration_event ev \<and> \<not> turn_event ev \<and>
        (\<forall>h p. geometry_sync_args ev = Some (h, p) \<longrightarrow>
           h = hair \<and> p = (if is_instance b_instance then None else pool)))"
proof (cases "transition e b_instance t lights")
  case Skip
  from sync_object_Skip [OF this] show ?thesis by simp
next
  case LightSync
  from sync_object_LightSync [OF this] show ?thesis by simp
next
  case MotionUpdate
  show ?thesis
    unfolding sync_object_MotionUpdate [OF MotionUpdate] sync_object_motion_eq
    by (cases "object_map st (object_key b_instance hair)") (simp_all add: Let_def)
next
  case FullSync
  let ?p = "if is_instance b_instance then None else pool"
  obtain ob3 upd st3 where
    f: "sync_object_fields e b_instance hair ?p (object_key b_instance hair)
          (holdout (object b_instance) (b_parent_of b_instance))
          (visibility_mask e (object b_instance) (b_parent_of b_instance)) st = (ob3, upd, st3)"
    by (cases "sync_object_fields e b_instance hair ?p (object_key b_instance hair)
          (holdout (object b_instance) (b_parent_of b_instance))
          (visibility_mask e (object b_instance) (b_parent_of b_instance)) st")
  show ?thesis
    unfolding sync_object_FullSync [OF FullSync]
      sync_object_full_events [OF f, of "object_tfm e b_instance"] sync_object_full_polls
    by (rule exI, rule conjI, rule refl) auto
qed

lemma sync_procedural_new_events:
  "\<exists>evs. events (sync_procedural b_ob t st) = events st @ evs \<and>
     cancel_polls (sync_procedural b_ob t st) = cancel_polls st \<and>
     (\<forall>ev\<in>set evs. enumeration_event ev \<and> \<not> turn_event ev \<and> geometry_sync_args ev = None)"
  by (simp add: sync_procedural_def)


lemma sync_objects_body_events:
  "\<exists>evs. events (sync_objects_body e b_v3d t b_instance st) =
           events st @ Culling_init_object (ptr_data (rna (object b_instance))) # evs \<and>
     cancel_polls (sync_objects_body e b_v3d t b_instance st) = cancel_polls st \<and>
     (\<forall>ev\<in>set evs. enumeration_event ev \<and> \<not> turn_event ev \<and>
        (\<forall>h p. geometry_sync_args ev = Some (h, p) \<longrightarrow>
           (h \<longrightarrow> show_particles b_instance \<and> object_has_particle_hair e (object b_instance)) \<and>
           p = (if is_instance b_instance then None
                else if h then Some geom_task_pool
                else if show_particles b_instance \<and>
                        object_has_particle_hair e (object b_instance)
                then None else Some geom_task_pool)))"
proof -
  define SH where
    "SH = (show_particles b_instance \<and> object_has_particle_hair e (object b_instance))"
  define st1 where "st1 = emit (Culling_init_object (ptr_data (rna (object b_instance)))) st"
  define st2 where
    "st2 = (if show_self b_instance then
              (if object_alembic_cache_find (object b_instance)
               then sync_procedural (object b_instance) t st1
               else snd (sync_object e b_instance t False (use_scene_lights e)
                           (if SH then None else Some geom_task_pool) st1))
            else st1)"
  define st3 where
    "st3 = (if SH then
              snd (sync_object e b_instance t True (use_scene_lights e)
                     (Some geom_task_pool) st2)
            else st2)"
  define P where
    "P = (\<lambda>hair pool ev. enumeration_event ev \<and> \<not> turn_event ev \<and>
            (\<forall>h p. geometry_sync_args ev = Some (h, p) \<longrightarrow>
               h = hair \<and> p = (if is_instance b_instance then None else pool)))"
  have body: "sync_objects_body e b_v3d t b_instance st = st3"
    by (simp add: sync_objects_body_def Let_def st3_def st2_def st1_def SH_def)
  have "\<exists>evs2. events st2 = events st1 @ evs2 \<and> cancel_polls st2 = cancel_polls st1 \<and>
          (\<forall>ev\<in>set evs2. P False (if SH then None else Some geom_task_pool) ev)"
  proof (cases "show_self b_instance")
    case False
    then have "st2 = st1" by (simp add: st2_def)
    then show ?thesis by simp
  next
    case self: True
    show ?thesis
    proof (cases "object_alembic_cache_find (object b_instance)")
      case True
      with self have "st2 = sync_procedural (object b_instance) t st1" by (simp add: st2_def)
      with sync_procedural_new_events [of "object b_instance" t st1] show ?thesis
        unfolding P_def by auto
    next
      case False
      with self have "st2 = snd (sync_object e b_instance t False (use_scene_lights e)
                                   (if SH then None else Some geom_task_pool) st1)"
        by (simp add: st2_def)
      with sync_object_new_events [of e b_instance t False "use_scene_lights e"
             "if SH then None else Some geom_task_pool" st1]
      show ?thesis unfolding P_def by simp
    qed
  qed
  then obtain evs2 where
    e2: "events st2 = events st1 @ evs2" and p2: "cancel_polls st2 = cancel_polls st1" and
    g2: "\<forall>ev\<in>set evs2. P False (if SH then None else Some geom_task_pool) ev"
    by blast
  have "\<exists>evs3. events st3 = events st2 @ evs3 \<and> cancel_polls st3 = cancel_polls st2 \<and>
          (\<forall>ev\<in>set evs3. SH \<and> P True (Some geom_task_pool) ev)"
  proof (cases SH)
    case False
    then have "st3 = st2" by (simp add: st3_def)
    then show ?thesis by simp
  next
    case True
    then have "st3 = snd (sync_object e b_instance t True (use_scene_lights e)
                            (Some geom_task_pool) st2)"
      by (simp add: st3_def)
    with sync_object_new_events [of e b_instance t True "use_scene_lights e"
           "Some geom_task_pool" st2] True
    show ?thesis unfolding P_def by simp
  qed
  then obtain evs3 where
    e3: "events st3 = events st2 @ evs3" and p3: "cancel_polls st3 = cancel_polls st2" and
    g3: "\<forall>ev\<in>set evs3. SH \<and> P True (Some geom_task_pool) ev"
    by blast
  have ev: "events st3 =
              events st @ Culling_init_object (ptr_data (rna (object b_instance))) # (evs2 @ evs3)"
    by (simp add: e3 e2 st1_def)
  have po: "cancel_polls st3 = cancel_polls st"
    by (simp add: p3 p2 st1_def)
  have g: "\<forall>ev\<in>set (evs2 @ evs3). enumeration_event ev \<and> \<not> turn_event ev \<and>
        (\<forall>h p. geometry_sync_args ev = Some (h, p) \<longrightarrow>
           (h \<longrightarrow> SH) \<and>
           p = (if is_instance b_instance then None
                else if h then Some geom_task_pool
                else if SH then None else Some geom_task_pool))"
  proof (intro ballI)
    fix ev
    assume "ev \<in> set (evs2 @ evs3)"
    then consider "ev \<in> set evs2" | "ev \<in> set evs3" by auto
    then show "enumeration_event ev \<and> \<not> turn_event ev \<and>
        (\<forall>h p. geometry_sync_args ev = Some (h, p) \<longrightarrow>
           (h \<longrightarrow> SH) \<and>
           p = (if is_instance b_instance then None
                else if h then Some geom_task_pool
                else if SH then None else Some geom_task_pool))"
    proof cases
      case 1
      with g2 have "P False (if SH then None else Some geom_task_pool) ev" by blast
      then show ?thesis unfolding P_def
        by (cases SH; cases "is_instance b_instance"; fastforce)
    next
      case 2
      with g3 have "SH \<and> P True (Some geom_task_pool) ev" by blast
      then show ?thesis unfolding P_def
        by (cases "is_instance b_instance"; fastforce)
    qed
  qed
  show ?thesis
    unfolding body SH_def [symmetric]
    using ev po g by blast
qed

text \<open>
  C8. For every instance that the object loop processes, each geometry sync call of the
  loop body (of the base pass or of a motion pass) receives no task pool when the instance
  flag is set. For an instance that is not instanced, the sync of the object's own geometry
  receives no pool when the particle hair of the instance is synced as an object of its own
  (particles are shown and the object has particle hair), and the pool otherwise; the sync
  of the hair, which happens only in that case, receives the pool.
\<close>

theorem sync_objects_body_task_pool:
  "\<forall>ev\<in>set (new_events st (sync_objects_body e b_v3d t b_instance st)).
     \<forall>hair pool. geometry_sync_args ev = Some (hair, pool) \<longrightarrow>
       (hair \<longrightarrow> show_particles b_instance \<and> object_has_particle_hair e (object b_instance)) \<and>
       pool = (if is_instance b_instance then None
               else if hair then Some geom_task_pool
               else if show_particles b_instance \<and>
                       object_has_particle_hair e (object b_instance)
               then None else Some geom_task_pool)"
proof -
  obtain evs where
    ev: "events (sync_objects_body e b_v3d t b_instance st) =
           events st @ Culling_init_object (ptr_data (rna (object b_instance))) # evs" and
    g: "\<forall>ev\<in>set evs.
        (\<forall>h p. geometry_sync_args ev = Some (h, p) \<longrightarrow>
           (h \<longrightarrow> show_particles b_instance \<and> object_has_particle_hair e (object b_instance)) \<and>
           p = (if is_instance b_instance then None
                else if h then Some geom_task_pool
                else if show_particles b_instance \<and>
                        object_has_particle_hair e (object b_instance)
                then None else Some geom_task_pool))"
    using sync_objects_body_events [of e b_v3d t b_instance st] by blast
  show ?thesis
    unfolding new_events_append [OF ev] using g by simp
qed


theorem sync_objects_body_task_pool_witness:
  "Sync_geometry 1 True False None
     \<in> set (new_events empty_sync (sync_objects_body hair_env False 0 hairy_cube empty_sync)) \<and>
   Sync_geometry 1 True True (Some geom_task_pool)
     \<in> set (new_events empty_sync (sync_objects_body hair_env False 0 hairy_cube empty_sync)) \<and>
   \<not> is_instance hairy_cube \<and>
   show_particles hairy_cube \<and> object_has_particle_hair hair_env (object hairy_cube)"
proof -
  have a: "new_events empty_sync (sync_objects_body hair_env False 0 hairy_cube empty_sync) =
             [Culling_init_object 1, Sync_geometry 1 True False None,
              Object_tag_update (ObjectKey 1 None 1 False),
              Sync_geometry 1 True True (Some geom_task_pool),
              Object_tag_update (ObjectKey 1 None 1 True)]"
    by code_simp
  have i: "\<not> is_instance hairy_cube"
    by code_simp
  show ?thesis
    using sync_objects_body_task_pool [where e = hair_env and b_v3d = False and t = 0
        and b_instance = hairy_cube and st = empty_sync]
    unfolding a using i by auto
qed


lemma sync_objects_loop_cancelled:
  "sync_objects_loop e b_v3d t object_instances True st = (True, st)"
  by (cases object_instances) simp_all

lemma sync_objects_loop_events:
  "\<exists>evs. events (snd (sync_objects_loop e b_v3d t object_instances False st)) = events st @ evs \<and>
     (\<forall>ev\<in>set evs. enumeration_event ev) \<and>
     filter turn_event evs =
       concat (map (\<lambda>b_instance. [Culling_init_object (ptr_data (rna (object b_instance))),
                                   Progress_get_cancel])
                 (enumerated_until_cancel (get_cancel e) (cancel_polls st)
                    (filter (shown_in_viewport b_v3d) object_instances))) \<and>
     cancel_polls (snd (sync_objects_loop e b_v3d t object_instances False st)) =
       cancel_polls st +
       length (enumerated_until_cancel (get_cancel e) (cancel_polls st)
                 (filter (shown_in_viewport b_v3d) object_instances)) \<and>
     fst (sync_objects_loop e b_v3d t object_instances False st) =
       (enumerated_until_cancel (get_cancel e) (cancel_polls st)
          (filter (shown_in_viewport b_v3d) object_instances) \<noteq> [] \<and>
        get_cancel e
          (cancel_polls st +
           length (enumerated_until_cancel (get_cancel e) (cancel_polls st)
                     (filter (shown_in_viewport b_v3d) object_instances)) - 1))"
proof (induction object_instances arbitrary: st)
  case Nil
  show ?case by simp
next
  case (Cons b_instance rest)
  let ?K = turn_event
  let ?B = "\<lambda>b_instance. [Culling_init_object (ptr_data (rna (object b_instance))),
                            Progress_get_cancel]"
  show ?case
  proof (cases "shown_in_viewport b_v3d b_instance")
    case False
    then have "sync_objects_loop e b_v3d t (b_instance # rest) False st =
                 sync_objects_loop e b_v3d t rest False st"
      by (simp add: shown_in_viewport_def)
    with Cons [of st] False show ?thesis by simp
  next
    case shown: True
    define sb where "sb = sync_objects_body e b_v3d t b_instance st"
    obtain bevs where
      be: "events sb = events st @ Culling_init_object (ptr_data (rna (object b_instance))) # bevs"
      and bp: "cancel_polls sb = cancel_polls st"
      and bg: "\<forall>ev\<in>set bevs. enumeration_event ev \<and> \<not> turn_event ev"
      using sync_objects_body_events [of e b_v3d t b_instance st] unfolding sb_def by blast
    define st' where "st' = snd (progress_get_cancel e sb)"
    define block where
      "block = Culling_init_object (ptr_data (rna (object b_instance))) # bevs @
               [Progress_get_cancel]"
    have c: "fst (progress_get_cancel e sb) = get_cancel e (cancel_polls st)"
      by (simp add: progress_get_cancel_def bp)
    have e': "events st' = events st @ block"
      by (simp add: st'_def progress_get_cancel_def be block_def)
    have p': "cancel_polls st' = Suc (cancel_polls st)"
      by (simp add: st'_def progress_get_cancel_def bp)
    have step: "sync_objects_loop e b_v3d t (b_instance # rest) False st =
                  sync_objects_loop e b_v3d t rest (get_cancel e (cancel_polls st)) st'"
      using shown
      by (simp add: shown_in_viewport_def sb_def [symmetric] st'_def c [symmetric]
               split: prod.splits)
    have "\<forall>ev\<in>set bevs. \<not> ?K ev"
      using bg by simp
    then have "filter ?K bevs = []"
      by (rule filter_False)
    then have fb: "filter ?K block = ?B b_instance"
      unfolding block_def filter.simps filter_append by simp
    have gb: "\<forall>ev\<in>set block. enumeration_event ev"
      using bg by (simp add: block_def)
    show ?thesis
    proof (cases "get_cancel e (cancel_polls st)")
      case True
      then have l: "sync_objects_loop e b_v3d t (b_instance # rest) False st = (True, st')"
        using step by (simp add: sync_objects_loop_cancelled)
      have en: "enumerated_until_cancel (get_cancel e) (cancel_polls st)
                  (filter (shown_in_viewport b_v3d) (b_instance # rest)) = [b_instance]"
        using shown True by simp
      show ?thesis
        unfolding l en
        by (rule exI [of _ block]) (simp add: e' p' fb gb True)
    next
      case False
      let ?p = "enumerated_until_cancel (get_cancel e) (Suc (cancel_polls st))
                  (filter (shown_in_viewport b_v3d) rest)"
      have l: "sync_objects_loop e b_v3d t (b_instance # rest) False st =
                 sync_objects_loop e b_v3d t rest False st'"
        using step False by simp
      have en: "enumerated_until_cancel (get_cancel e) (cancel_polls st)
                  (filter (shown_in_viewport b_v3d) (b_instance # rest)) = b_instance # ?p"
        using shown False by simp
      from Cons [of st'] obtain evs where
        i1: "events (snd (sync_objects_loop e b_v3d t rest False st')) = events st' @ evs" and
        i2: "\<forall>ev\<in>set evs. enumeration_event ev" and
        i3: "filter ?K evs = concat (map ?B ?p)" and
        i4: "cancel_polls (snd (sync_objects_loop e b_v3d t rest False st')) =
               Suc (cancel_polls st) + length ?p" and
        i5: "fst (sync_objects_loop e b_v3d t rest False st') =
               (?p \<noteq> [] \<and> get_cancel e (Suc (cancel_polls st) + length ?p - 1))"
        unfolding p' by blast
      have last: "(?p \<noteq> [] \<and> get_cancel e (Suc (cancel_polls st) + length ?p - 1)) =
                  get_cancel e (cancel_polls st + length (b_instance # ?p) - 1)"
        using False by (cases ?p) simp_all
      show ?thesis
        unfolding l en
        using i2 gb last
        by (intro exI [of _ "block @ evs"]) (auto simp: i1 i3 i4 i5 e' fb)
    qed
  qed
qed


text \<open>
  C9, amended. In every call of \<open>sync_objects\<close>, of a base pass or of a motion pass,
  cancelled or not, the calls it makes are: the preparation; then the work of the
  enumeration, which is made of enumeration calls only; then the drain of the task pool,
  once; then the status update; then, in a base pass that was not cancelled, the
  background light and the post-sync sweeps of the maps; then, in a motion pass, the
  clearing of the motion-synced set. Within the work, the instances that get a turn are
  those shown in the viewport, in order, up to and including the first one whose poll
  finds the cancel flag set: the turn of each starts with the culling initialisation and
  ends with one poll of the cancel flag, and an instance hidden in the viewport has no
  turn and no poll.
\<close>

theorem sync_objects_drain:
  "(let processed = enumerated_until_cancel (get_cancel e) 0
                      (filter (shown_in_viewport b_v3d) object_instances);
        cancelled = (processed \<noteq> [] \<and> get_cancel e (length processed - 1))
    in \<exists>work portal.
         new_events st (sync_objects e b_v3d t object_instances st) =
           (if t = 0
            then [Pre_sync Light_map, Pre_sync Geometry_map, Pre_sync Object_map,
                  Pre_sync Procedural_map, Pre_sync Particle_system_map, Motion_times_clear]
            else [Geometry_motion_synced_clear]) @
           work @ [Pool_wait_work, Progress_set_sync_status] @
           (if \<not> cancelled \<and> t = 0
            then [Sync_background_light portal, Post_sync Light_map, Post_sync Geometry_map,
                  Post_sync Object_map, Post_sync Particle_system_map,
                  Post_sync Procedural_map]
            else []) @
           (if t \<noteq> 0 then [Geometry_motion_synced_clear] else []) \<and>
         (\<forall>ev\<in>set work. enumeration_event ev) \<and>
         filter turn_event work =
           concat (map (\<lambda>b_instance.
                          [Culling_init_object (ptr_data (rna (object b_instance))),
                           Progress_get_cancel])
                     processed) \<and>
         cancel_polls (sync_objects e b_v3d t object_instances st) = length processed)"
proof -
  define st1 where
    "st1 = (if \<not> t \<noteq> 0 then
              emit Motion_times_clear
                ((emit (Pre_sync Particle_system_map)
                   (emit (Pre_sync Procedural_map)
                     (object_map_pre_sync
                       (emit (Pre_sync Geometry_map)
                         (emit (Pre_sync Light_map) st)))))\<lparr>motion_times := {}\<rparr>)
            else emit Geometry_motion_synced_clear st)"
  define st0 where "st0 = st1\<lparr>use_portal := False, cancel_polls := 0\<rparr>"
  define pre where
    "pre = (if t = 0
            then [Pre_sync Light_map, Pre_sync Geometry_map, Pre_sync Object_map,
                  Pre_sync Procedural_map, Pre_sync Particle_system_map, Motion_times_clear]
            else [Geometry_motion_synced_clear])"
  define processed where
    "processed = enumerated_until_cancel (get_cancel e) 0
                   (filter (shown_in_viewport b_v3d) object_instances)"
  have e0: "events st0 = events st @ pre"
    by (simp add: st0_def st1_def pre_def object_map_pre_sync_def)
  have p0: "cancel_polls st0 = 0"
    by (simp add: st0_def)
  obtain cancel st2 where
    l: "sync_objects_loop e b_v3d t object_instances False st0 = (cancel, st2)"
    by (cases "sync_objects_loop e b_v3d t object_instances False st0")
  from sync_objects_loop_events [of e b_v3d t object_instances st0]
  obtain work where
    w1: "events st2 = events st0 @ work" and
    w2: "\<forall>ev\<in>set work. enumeration_event ev" and
    w3: "filter turn_event work =
           concat (map (\<lambda>b_instance.
                          [Culling_init_object (ptr_data (rna (object b_instance))),
                           Progress_get_cancel])
                     processed)" and
    w4: "cancel_polls st2 = length processed" and
    w5: "cancel = (processed \<noteq> [] \<and> get_cancel e (length processed - 1))"
    unfolding l p0 processed_def by auto
  have s: "sync_objects e b_v3d t object_instances st =
             (let st3 = emit Progress_set_sync_status (emit Pool_wait_work st2);
                  st4 = (if \<not> cancel \<and> \<not> t \<noteq> 0 then
                           emit (Post_sync Procedural_map)
                             (emit (Post_sync Particle_system_map)
                               (object_map_post_sync
                                 (emit (Post_sync Geometry_map)
                                   (emit (Post_sync Light_map)
                                     (emit (Sync_background_light (use_portal st3)) st3)))))
                         else st3)
              in if t \<noteq> 0 then emit Geometry_motion_synced_clear st4 else st4)"
    unfolding sync_objects_def Let_def st1_def [symmetric] st0_def [symmetric] l by simp
  have ev: "events (sync_objects e b_v3d t object_instances st) =
              events st @
              (pre @ work @ [Pool_wait_work, Progress_set_sync_status] @
               (if \<not> cancel \<and> t = 0
                then [Sync_background_light (use_portal st2), Post_sync Light_map,
                      Post_sync Geometry_map, Post_sync Object_map,
                      Post_sync Particle_system_map, Post_sync Procedural_map]
                else []) @
               (if t \<noteq> 0 then [Geometry_motion_synced_clear] else []))"
    unfolding s by (simp add: Let_def w1 e0 object_map_post_sync_def)
  have po: "cancel_polls (sync_objects e b_v3d t object_instances st) = length processed"
    unfolding s by (simp add: Let_def w4 object_map_post_sync_def)
  show ?thesis
    unfolding Let_def processed_def [symmetric] new_events_append [OF ev] pre_def [symmetric]
      w5 [symmetric]
    using w2 w3 po by blast
qed


theorem sync_objects_drain_witness:
  "new_events empty_sync
     (sync_objects cancel_env False 0 [instance_of cube, instance_of lamp] empty_sync) =
     [Pre_sync Light_map, Pre_sync Geometry_map, Pre_sync Object_map,
      Pre_sync Procedural_map, Pre_sync Particle_system_map, Motion_times_clear,
      Culling_init_object 1, Sync_geometry 1 True False (Some geom_task_pool),
      Object_tag_update (ObjectKey 1 None 1 False), Progress_get_cancel,
      Pool_wait_work, Progress_set_sync_status] \<and>
   cancel_polls
     (sync_objects cancel_env False 0 [instance_of cube, instance_of lamp] empty_sync) = 1"
proof -
  have a: "new_events empty_sync
     (sync_objects cancel_env False 0 [instance_of cube, instance_of lamp] empty_sync) =
     [Pre_sync Light_map, Pre_sync Geometry_map, Pre_sync Object_map,
      Pre_sync Procedural_map, Pre_sync Particle_system_map, Motion_times_clear,
      Culling_init_object 1, Sync_geometry 1 True False (Some geom_task_pool),
      Object_tag_update (ObjectKey 1 None 1 False), Progress_get_cancel,
      Pool_wait_work, Progress_set_sync_status]"
    by code_simp
  have p: "enumerated_until_cancel (get_cancel cancel_env) 0
             (filter (shown_in_viewport False) [instance_of cube, instance_of lamp]) =
           [instance_of cube]"
    by (simp add: shown_in_viewport_def cancel_env_def)
  have "cancel_polls
     (sync_objects cancel_env False 0 [instance_of cube, instance_of lamp] empty_sync) = 1"
    using sync_objects_drain [where e = cancel_env and b_v3d = False and t = 0
        and object_instances = "[instance_of cube, instance_of lamp]" and st = empty_sync]
    unfolding Let_def p by auto
  with a show ?thesis by (rule conjI)
qed

theorem cancel_poll_counterexample:
  "length (enumerated_until_cancel (get_cancel example_env) 0
             [instance_of hidden_cube, instance_of cube]) = 2 \<and>
   filter turn_event
     (new_events empty_sync
        (sync_objects example_env True 0 [instance_of hidden_cube, instance_of cube]
           empty_sync)) =
     [Culling_init_object 1, Progress_get_cancel] \<and>
   cancel_polls
     (sync_objects example_env True 0 [instance_of hidden_cube, instance_of cube]
        empty_sync) = 1"
  by code_simp


section \<open>The outcome of the object sync\<close>





end
